theory Spec2Isabelle
  imports Complex_Main "HOL-Library.Sublist"
begin

section \<open>Python values\<close>

text \<open>
  The analytics code of the repository (\<^verbatim>\<open>app/routers/dashboard.py\<close> and
  \<^verbatim>\<open>app/services/ai_service.py\<close>) works on submission rows whose nested blocks are JSON
  columns, that is, dynamically typed Python values. The embedding keeps the dynamic types:
  a value is a \<open>pyval\<close>, a dictionary is an association list in insertion order (Python
  dictionaries iterate in insertion order, and the report lists depend on it), and every
  exception the code can raise is a value of type \<open>error\<close>.

  Idealisations, stated once. A string is a list of characters with codes below 256; the
  whitespace test is that of \<^verbatim>\<open>str\<close> on these codes, the case mappings are those
  of ASCII (a letter outside ASCII is left as it is). A finite float is an exact rational:
  rounding error and signed zeros are not modelled. The range of a float is modelled: a
  number that rounds to no finite float is an infinity (or an OverflowError where the
  language raises one), and the two infinities and NaN are values of their own. Amounts,
  sums and averages of floats are of type \<open>pyfloat\<close>; quotients of integers are kept
  as rationals once they are known to be in the range, and so is their product with 100.
\<close>

datatype error = ValueError | IndexError | TypeError | AttributeError | ZeroDivisionError
  | OverflowError

datatype pyfloat = Fin rat | PInf | NInf | NaN

datatype pyval = VNone | VBool bool | VInt int | VFloat pyfloat | VStr string
  | VList "pyval list" | VDict "(string \<times> pyval) list"

type_synonym pydict = "(string \<times> pyval) list"

text \<open>\<^verbatim>\<open>d.get(k)\<close> and \<^verbatim>\<open>d.get(k, default)\<close>.\<close>

definition dict_get :: "pydict \<Rightarrow> string \<Rightarrow> pyval" where
  "dict_get d k = (case map_of d k of None \<Rightarrow> VNone | Some v \<Rightarrow> v)"

definition dict_get_default :: "pydict \<Rightarrow> string \<Rightarrow> pyval \<Rightarrow> pyval" where
  "dict_get_default d k dflt = (case map_of d k of None \<Rightarrow> dflt | Some v \<Rightarrow> v)"

text \<open>Truth value of an object, as \<^verbatim>\<open>if v:\<close> tests it. NaN is true.\<close>

fun truthy :: "pyval \<Rightarrow> bool" where
  "truthy VNone = False"
| "truthy (VBool b) = b"
| "truthy (VInt n) = (n \<noteq> 0)"
| "truthy (VFloat x) = (x \<noteq> Fin 0)"
| "truthy (VStr s) = (s \<noteq> [])"
| "truthy (VList xs) = (xs \<noteq> [])"
| "truthy (VDict kvs) = (kvs \<noteq> [])"

subsection \<open>Float arithmetic\<close>

text \<open>
  A number overflows the floats when rounding it to the nearest float gives no finite
  float: from \<open>2^1024 - 2^970\<close> on, half a unit in the last place above the largest
  float.
\<close>

definition float_overflow :: "rat \<Rightarrow> bool" where
  "float_overflow x = (2 ^ 1024 - 2 ^ 970 \<le> \<bar>x\<bar>)"

text \<open>The float of a number, where the language gives an infinity on overflow.\<close>

definition to_float :: "rat \<Rightarrow> pyfloat" where
  "to_float x = (if float_overflow x then (if 0 < x then PInf else NInf) else Fin x)"

fun fadd :: "pyfloat \<Rightarrow> pyfloat \<Rightarrow> pyfloat" where
  "fadd (Fin a) (Fin b) = to_float (a + b)"
| "fadd NaN _ = NaN"
| "fadd _ NaN = NaN"
| "fadd PInf NInf = NaN"
| "fadd NInf PInf = NaN"
| "fadd PInf _ = PInf"
| "fadd _ PInf = PInf"
| "fadd NInf _ = NInf"
| "fadd _ NInf = NInf"

text \<open>
  \<^verbatim>\<open>x / n\<close> for a float and an integer, and \<^verbatim>\<open>a / b\<close> for two integers.
  The first converts the integer to a float and raises OverflowError when it has none (the
  divisors of the report are numbers of rows and of scores, far below that); the second
  raises OverflowError when the quotient has no float.
\<close>

definition fdiv_int :: "pyfloat \<Rightarrow> int \<Rightarrow> error + pyfloat" where
  "fdiv_int x n =
     (if float_overflow (of_int n) then Inl OverflowError
      else if n = 0 then Inl ZeroDivisionError
      else Inr (case x of
                  Fin a \<Rightarrow> Fin (a / of_int n)
                | PInf \<Rightarrow> if 0 < n then PInf else NInf
                | NInf \<Rightarrow> if 0 < n then NInf else PInf
                | NaN \<Rightarrow> NaN))"

definition truediv :: "int \<Rightarrow> int \<Rightarrow> error + rat" where
  "truediv a b =
     (if b = 0 then Inl ZeroDivisionError
      else if float_overflow (of_int a / of_int b) then Inl OverflowError
      else Inr (of_int a / of_int b))"

text \<open>\<^verbatim>\<open><\<close> and \<^verbatim>\<open><=\<close> on floats: every comparison with NaN is false.\<close>

fun flt :: "pyfloat \<Rightarrow> pyfloat \<Rightarrow> bool" where
  "flt NaN _ = False"
| "flt _ NaN = False"
| "flt (Fin a) (Fin b) = (a < b)"
| "flt _ NInf = False"
| "flt NInf _ = True"
| "flt PInf _ = False"
| "flt _ PInf = True"

fun fle :: "pyfloat \<Rightarrow> pyfloat \<Rightarrow> bool" where
  "fle NaN _ = False"
| "fle _ NaN = False"
| "fle (Fin a) (Fin b) = (a \<le> b)"
| "fle NInf _ = True"
| "fle _ PInf = True"
| "fle _ NInf = False"
| "fle PInf _ = False"

text \<open>
  \<^verbatim>\<open>round(x, 2)\<close>: to the nearest multiple of 1/100, a tie going to the even one;
  infinities and NaN are returned as they are.
\<close>

definition round_half_even :: "rat \<Rightarrow> int" where
  "round_half_even x =
     (let f = \<lfloor>x\<rfloor>; d = x - of_int f
      in if d < 1 / 2 then f else if 1 / 2 < d then f + 1
         else if even f then f else f + 1)"

definition round2 :: "rat \<Rightarrow> rat" where
  "round2 x = of_int (round_half_even (x * 100)) / 100"

fun fround2 :: "pyfloat \<Rightarrow> pyfloat" where
  "fround2 (Fin a) = Fin (round2 a)"
| "fround2 x = x"

section \<open>Strings\<close>

text \<open>
  Whitespace for \<^verbatim>\<open>split\<close> and \<^verbatim>\<open>strip\<close>, and whitespace for the number
  literals of \<^verbatim>\<open>int()\<close> and \<^verbatim>\<open>float()\<close>, which do not take the separators
  28 to 31 for whitespace.
\<close>

definition is_space :: "char \<Rightarrow> bool" where
  "is_space c =
     (let n = (of_char c :: nat)
      in (9 \<le> n \<and> n \<le> 13) \<or> (28 \<le> n \<and> n \<le> 32) \<or> n = 133 \<or> n = 160)"

definition is_number_space :: "char \<Rightarrow> bool" where
  "is_number_space c =
     (let n = (of_char c :: nat) in (9 \<le> n \<and> n \<le> 13) \<or> n = 32 \<or> n = 133 \<or> n = 160)"

definition is_digit :: "char \<Rightarrow> bool" where
  "is_digit c = (let n = (of_char c :: nat) in 48 \<le> n \<and> n \<le> 57)"

definition is_upper :: "char \<Rightarrow> bool" where
  "is_upper c = (let n = (of_char c :: nat) in 65 \<le> n \<and> n \<le> 90)"

definition is_lower :: "char \<Rightarrow> bool" where
  "is_lower c = (let n = (of_char c :: nat) in 97 \<le> n \<and> n \<le> 122)"

definition lower_char :: "char \<Rightarrow> char" where
  "lower_char c = (if is_upper c then char_of (of_char c + (32::nat)) else c)"

definition upper_char :: "char \<Rightarrow> char" where
  "upper_char c = (if is_lower c then char_of (of_char c - (32::nat)) else c)"

text \<open>\<^verbatim>\<open>s.lower()\<close>\<close>

definition str_lower :: "string \<Rightarrow> string" where
  "str_lower s = map lower_char s"

text \<open>\<^verbatim>\<open>s.strip()\<close>\<close>

definition str_strip :: "string \<Rightarrow> string" where
  "str_strip s = rev (dropWhile is_space (rev (dropWhile is_space s)))"

text \<open>The text of a number literal without the whitespace around it.\<close>

definition number_strip :: "string \<Rightarrow> string" where
  "number_strip s = rev (dropWhile is_number_space (rev (dropWhile is_number_space s)))"

text \<open>\<^verbatim>\<open>s.split()\<close>: the maximal runs of non-whitespace characters.\<close>

fun split_from :: "string \<Rightarrow> string \<Rightarrow> string list" where
  "split_from cur [] = (if cur = [] then [] else [cur])"
| "split_from cur (c # cs) =
     (if is_space c then (if cur = [] then split_from [] cs else cur # split_from [] cs)
      else split_from (cur @ [c]) cs)"

definition str_split :: "string \<Rightarrow> string list" where
  "str_split s = split_from [] s"

text \<open>\<^verbatim>\<open>s.split()[0]\<close>\<close>

definition first_token :: "string \<Rightarrow> error + string" where
  "first_token s = (case str_split s of [] \<Rightarrow> Inl IndexError | t # _ \<Rightarrow> Inr t)"

text \<open>\<^verbatim>\<open>s.replace(a, b)\<close> for single characters \<open>a\<close> and \<open>b\<close>.\<close>

definition str_replace :: "char \<Rightarrow> string \<Rightarrow> string \<Rightarrow> string" where
  "str_replace a b s = concat (map (\<lambda>c. if c = a then b else [c]) s)"

text \<open>
  \<^verbatim>\<open>s.title()\<close>: a letter that follows a letter is lower-cased, any other letter is
  upper-cased.
\<close>

fun title_from :: "bool \<Rightarrow> string \<Rightarrow> string" where
  "title_from prev [] = []"
| "title_from prev (c # cs) =
     (if is_upper c \<or> is_lower c
      then (if prev then lower_char c else upper_char c) # title_from True cs
      else c # title_from False cs)"

definition str_title :: "string \<Rightarrow> string" where
  "str_title s = title_from False s"

text \<open>\<^verbatim>\<open>key.replace('_', ' ').title()\<close>, the display name of a key.\<close>

definition display_name :: "string \<Rightarrow> string" where
  "display_name key = str_title (str_replace (CHR ''_'') '' '' key)"

text \<open>\<^verbatim>\<open>w in s\<close> on strings: \<open>w\<close> occurs in \<open>s\<close> as a contiguous substring.\<close>

fun str_contains :: "string \<Rightarrow> string \<Rightarrow> bool" where
  "str_contains w [] = (w = [])"
| "str_contains w (c # cs) = (prefix w (c # cs) \<or> str_contains w cs)"

subsection \<open>Numbers and text\<close>

definition digit_char :: "nat \<Rightarrow> char" where
  "digit_char d = char_of (48 + d)"

fun str_nat :: "nat \<Rightarrow> string" where
  "str_nat n = (if n < 10 then [digit_char n] else str_nat (n div 10) @ [digit_char (n mod 10)])"

declare str_nat.simps [simp del]

text \<open>
  \<^verbatim>\<open>str(n)\<close> for an integer. The interpreter converts between integers and decimal
  text up to a number of digits, 4300 unless configured otherwise, and raises ValueError
  beyond it.
\<close>

definition str_int :: "int \<Rightarrow> string" where
  "str_int i = (if i < 0 then CHR ''-'' # str_nat (nat (- i)) else str_nat (nat i))"

definition max_str_digits :: nat where
  "max_str_digits = 4300"

definition str_of_int :: "int \<Rightarrow> error + string" where
  "str_of_int i =
     (if max_str_digits < length (str_nat (nat \<bar>i\<bar>)) then Inl ValueError else Inr (str_int i))"

text \<open>
  A run of decimal digits in which single underscores may separate digits, as the
  integer and float literals of \<^verbatim>\<open>int()\<close> and \<^verbatim>\<open>float()\<close> allow.
\<close>

fun digitpart :: "string \<Rightarrow> bool" where
  "digitpart [] = False"
| "digitpart [c] = is_digit c"
| "digitpart (c # d # cs) =
     (is_digit c \<and> (if d = CHR ''_'' then digitpart cs else digitpart (d # cs)))"

definition digit_val :: "char \<Rightarrow> nat" where
  "digit_val c = of_char c - 48"

definition digits_value :: "string \<Rightarrow> nat" where
  "digits_value s = foldl (\<lambda>acc c. acc * 10 + digit_val c) 0 (filter (\<lambda>c. c \<noteq> CHR ''_'') s)"

text \<open>An optional sign in front of a literal: the sign (\<open>True\<close> for minus) and the rest.\<close>

fun take_sign :: "string \<Rightarrow> bool \<times> string" where
  "take_sign [] = (False, [])"
| "take_sign (c # cs) =
     (if c = CHR ''-'' then (True, cs) else if c = CHR ''+'' then (False, cs)
      else (False, c # cs))"

text \<open>
  \<^verbatim>\<open>int(s)\<close> for a string: whitespace stripped, a sign, a digit run of at most
  \<open>max_str_digits\<close> digits; else ValueError.
\<close>

definition int_of_str :: "string \<Rightarrow> error + int" where
  "int_of_str s =
     (let (neg, body) = take_sign (number_strip s)
      in if digitpart body \<and> length (filter is_digit body) \<le> max_str_digits
         then Inr (if neg then - int (digits_value body) else int (digits_value body))
         else Inl ValueError)"

text \<open>
  \<^verbatim>\<open>float(s)\<close> for a string: whitespace stripped, a sign, then \<^verbatim>\<open>inf\<close>,
  \<^verbatim>\<open>infinity\<close> or \<^verbatim>\<open>nan\<close> in any case, or a decimal number
  (digits, an optional point with digits on at least one side, an optional exponent). A
  decimal number beyond the range of the floats reads as an infinity.
\<close>

definition split_at_char :: "(char \<Rightarrow> bool) \<Rightarrow> string \<Rightarrow> string \<times> string option" where
  "split_at_char p s =
     (case dropWhile (\<lambda>c. \<not> p c) s of
        [] \<Rightarrow> (s, None)
      | _ # rest \<Rightarrow> (takeWhile (\<lambda>c. \<not> p c) s, Some rest))"

definition mantissa_of :: "string \<Rightarrow> (nat \<times> nat) option" where
  "mantissa_of m =
     (case split_at_char (\<lambda>c. c = CHR ''.'') m of
        (ip, None) \<Rightarrow> if digitpart ip then Some (digits_value ip, 0) else None
      | (ip, Some fp) \<Rightarrow>
          if (ip = [] \<or> digitpart ip) \<and> (fp = [] \<or> digitpart fp) \<and> \<not> (ip = [] \<and> fp = [])
          then Some (digits_value (ip @ fp), length (filter (\<lambda>c. c \<noteq> CHR ''_'') fp))
          else None)"

definition exponent_of :: "string option \<Rightarrow> int option" where
  "exponent_of e =
     (case e of
        None \<Rightarrow> Some 0
      | Some s \<Rightarrow>
          (let (neg, body) = take_sign s
           in if digitpart body
              then Some (if neg then - int (digits_value body) else int (digits_value body))
              else None))"

definition pow10 :: "int \<Rightarrow> rat" where
  "pow10 e = (if 0 \<le> e then 10 ^ nat e else 1 / 10 ^ nat (- e))"

definition float_of_str :: "string \<Rightarrow> error + pyfloat" where
  "float_of_str s =
     (let (neg, body) = take_sign (number_strip s); low = str_lower body
      in if low = ''inf'' \<or> low = ''infinity'' then Inr (if neg then NInf else PInf)
         else if low = ''nan'' then Inr NaN
         else
           (case split_at_char (\<lambda>c. c = CHR ''e'' \<or> c = CHR ''E'') body of (m, e) \<Rightarrow>
              (case (mantissa_of m, exponent_of e) of
                 (Some (digits, scale), Some ex) \<Rightarrow>
                   Inr (to_float
                     ((if neg then - 1 else 1) * of_nat digits * pow10 (ex - int scale)))
               | _ \<Rightarrow> Inl ValueError)))"

text \<open>\<^verbatim>\<open>int(x)\<close> for a float: truncation towards zero.\<close>

fun int_of_float :: "pyfloat \<Rightarrow> error + int" where
  "int_of_float (Fin a) = Inr (if 0 \<le> a then \<lfloor>a\<rfloor> else \<lceil>a\<rceil>)"
| "int_of_float NaN = Inl ValueError"
| "int_of_float _ = Inl OverflowError"


text \<open>Sequencing of computations that may raise: the first exception wins.\<close>

definition bindE :: "error + 'a \<Rightarrow> ('a \<Rightarrow> error + 'b) \<Rightarrow> error + 'b" where
  "bindE m f = (case m of Inl e \<Rightarrow> Inl e | Inr x \<Rightarrow> f x)"

section \<open>Submission rows\<close>

text \<open>
  The columns of \<^verbatim>\<open>FormSubmission\<close> that the analytics read. A string or float
  column is absent (\<open>None\<close>) or present; a JSON column holds any value, \<open>VNone\<close> when
  it is null.
\<close>

record submission =
  facility_name :: "string option"
  state :: "string option"
  lga :: "string option"
  geopolitical_zone :: "string option"
  assessment_type :: "string option"
  has_health_workers :: "string option"
  facility_condition :: "string option"
  ownership_type :: "string option"
  latitude :: "pyfloat option"
  longitude :: "pyfloat option"
  funding_data :: pyval
  impact_funding_data :: pyval
  infrastructure_data :: pyval
  human_resources_data :: pyval
  services_data :: pyval
  satisfaction_survey_data :: pyval

definition str_column :: "string option \<Rightarrow> pyval" where
  "str_column c = (case c of None \<Rightarrow> VNone | Some s \<Rightarrow> VStr s)"

definition float_column :: "pyfloat option \<Rightarrow> pyval" where
  "float_column c = (case c of None \<Rightarrow> VNone | Some x \<Rightarrow> VFloat x)"

text \<open>
  \<^verbatim>\<open>FormSubmission.to_dict\<close>, restricted to the keys that the functions below look up
  (the others are never read). Every key is present; an empty column gives \<open>VNone\<close>.
\<close>

definition to_dict :: "submission \<Rightarrow> pydict" where
  "to_dict s =
     [(''geopolitical_zone'', str_column (geopolitical_zone s)),
      (''state'', str_column (state s)),
      (''lga'', str_column (lga s)),
      (''facility_name'', str_column (facility_name s)),
      (''assessment_type'', str_column (assessment_type s)),
      (''has_health_workers'', str_column (has_health_workers s)),
      (''facility_condition'', str_column (facility_condition s)),
      (''ownership_type'', str_column (ownership_type s)),
      (''latitude'', float_column (latitude s)),
      (''longitude'', float_column (longitude s)),
      (''funding_data'', funding_data s),
      (''impact_funding_data'', impact_funding_data s),
      (''infrastructure_data'', infrastructure_data s),
      (''human_resources_data'', human_resources_data s),
      (''services_data'', services_data s),
      (''satisfaction_survey_data'', satisfaction_survey_data s)]"

text \<open>A row with every column empty, to build examples from.\<close>

definition empty_submission :: submission where
  "empty_submission =
     \<lparr>facility_name = None, state = None, lga = None, geopolitical_zone = None,
      assessment_type = None, has_health_workers = None, facility_condition = None,
      ownership_type = None, latitude = None, longitude = None, funding_data = VNone,
      impact_funding_data = VNone, infrastructure_data = VNone,
      human_resources_data = VNone, services_data = VNone,
      satisfaction_survey_data = VNone\<rparr>"

section \<open>The rule analyzer: \<^verbatim>\<open>AIService\<close>\<close>

subsection \<open>\<^verbatim>\<open>predict_facility_needs\<close>\<close>

record predictions =
  priority_level :: string
  predicted_needs :: "string list"
  risk_factors :: "string list"
  recommendations :: "string list"

definition initial_predictions :: predictions where
  "initial_predictions =
     \<lparr>priority_level = ''medium'', predicted_needs = [], risk_factors = [],
      recommendations = []\<rparr>"

text \<open>\<^verbatim>\<open>v.lower()\<close>: only a string has the method.\<close>

definition lower_method :: "pyval \<Rightarrow> error + string" where
  "lower_method v = (case v of VStr s \<Rightarrow> Inr (str_lower s) | _ \<Rightarrow> Inl AttributeError)"

text \<open>
  \<^verbatim>\<open>int(str(v).split()[0]) if isinstance(v, (str, int)) else 0\<close>. A Boolean is an
  instance of \<^verbatim>\<open>int\<close> and prints as \<^verbatim>\<open>True\<close> or \<^verbatim>\<open>False\<close>. Nothing
  catches the IndexError of an empty split or the ValueError of \<^verbatim>\<open>int\<close>.
\<close>

definition staff_term :: "pyval \<Rightarrow> error + int" where
  "staff_term v =
     (case v of
        VStr s \<Rightarrow> bindE (first_token s) int_of_str
      | VInt n \<Rightarrow> bindE (first_token (str_int n)) int_of_str
      | VBool b \<Rightarrow> bindE (first_token (if b then ''True'' else ''False'')) int_of_str
      | _ \<Rightarrow> Inr 0)"

definition predict_marker :: "string \<Rightarrow> bool" where
  "predict_marker k =
     (str_contains ''staff'' (str_lower k) \<or> str_contains ''personnel'' (str_lower k))"

text \<open>The \<^verbatim>\<open>sum(...)\<close> over the items of the block, in order.\<close>

fun staff_sum :: "pydict \<Rightarrow> error + int" where
  "staff_sum [] = Inr 0"
| "staff_sum ((k, v) # kvs) =
     (if predict_marker k
      then bindE (staff_term v) (\<lambda>n. bindE (staff_sum kvs) (\<lambda>m. Inr (n + m)))
      else staff_sum kvs)"

definition analyze_condition :: "pydict \<Rightarrow> predictions \<Rightarrow> error + predictions" where
  "analyze_condition d p =
     bindE (lower_method (dict_get_default d ''facility_condition'' (VStr [])))
       (\<lambda>condition.
          if condition \<in> set [''poor'', ''critical'']
          then Inr (p\<lparr>priority_level := ''high'',
                 risk_factors := risk_factors p @ [''Poor facility condition''],
                 predicted_needs := predicted_needs p @ [''Infrastructure improvement''],
                 recommendations := recommendations p @ [''Prioritize facility rehabilitation'']\<rparr>)
          else Inr p)"

definition analyze_staffing :: "pydict \<Rightarrow> predictions \<Rightarrow> error + predictions" where
  "analyze_staffing d p =
     (case dict_get_default d ''human_resources_data'' (VDict []) of
        VDict hr_data \<Rightarrow>
          bindE (staff_sum hr_data)
            (\<lambda>total_staff.
               if total_staff < 5
               then Inr (p\<lparr>risk_factors := risk_factors p @ [''Insufficient staffing''],
                      predicted_needs := predicted_needs p @ [''Additional healthcare workers''],
                      recommendations := recommendations p @ [''Recruit and train more staff'']\<rparr>)
               else Inr p)
      | _ \<Rightarrow> Inr p)"

definition predict_has_funding :: "pydict \<Rightarrow> bool" where
  "predict_has_funding funding =
     (dict_get funding ''bhcpf_status'' = VStr ''Received'' \<or> truthy (dict_get funding ''has_bhcpf''))"

definition analyze_funding :: "pydict \<Rightarrow> predictions \<Rightarrow> predictions" where
  "analyze_funding d p =
     (case dict_get_default d ''funding_data'' (VDict []) of
        VDict funding \<Rightarrow>
          if \<not> predict_has_funding funding
          then p\<lparr>risk_factors := risk_factors p @ [''Lack of funding''],
                 predicted_needs := predicted_needs p @ [''Financial support''],
                 recommendations := recommendations p @ [''Apply for BHCPF or IMPACT funding'']\<rparr>
          else p
      | _ \<Rightarrow> p)"

definition analyze_infrastructure :: "pydict \<Rightarrow> predictions \<Rightarrow> predictions" where
  "analyze_infrastructure d p =
     (case dict_get_default d ''infrastructure_data'' (VDict []) of
        VDict infra \<Rightarrow>
          (let has_power = (dict_get infra ''has_power'' = VStr ''Yes''
                            \<or> truthy (dict_get infra ''power_available''));
               has_water = (dict_get infra ''has_water'' = VStr ''Yes''
                            \<or> truthy (dict_get infra ''water_available''));
               p1 = (if \<not> has_power
                     then p\<lparr>predicted_needs := predicted_needs p @ [''Power supply''],
                            recommendations := recommendations p
                              @ [''Install or repair power infrastructure'']\<rparr>
                     else p)
           in if \<not> has_water
              then p1\<lparr>predicted_needs := predicted_needs p1 @ [''Water supply''],
                      recommendations := recommendations p1 @ [''Ensure reliable water access'']\<rparr>
              else p1)
      | _ \<Rightarrow> p)"

definition predict_facility_needs :: "pydict \<Rightarrow> error + predictions" where
  "predict_facility_needs d =
     bindE (analyze_condition d initial_predictions)
       (\<lambda>p1. bindE (analyze_staffing d p1)
          (\<lambda>p2. Inr (analyze_infrastructure d (analyze_funding d p2))))"

subsection \<open>\<^verbatim>\<open>detect_data_anomalies\<close>\<close>

text \<open>
  A finding, without its message (a text formatted from the other fields and, for a
  location, from the printed coordinates).
\<close>

record anomaly =
  an_type :: string
  an_field :: string
  an_severity :: string

definition critical_fields :: "string list" where
  "critical_fields = [''facility_name'', ''state'', ''lga'', ''facility_condition'']"

definition missing_findings :: "pydict \<Rightarrow> anomaly list" where
  "missing_findings d =
     map (\<lambda>f. \<lparr>an_type = ''missing_data'', an_field = f, an_severity = ''high''\<rparr>)
       (filter (\<lambda>f. \<not> truthy (dict_get d f)) critical_fields)"

text \<open>A value as a number in a comparison with a float; other types raise TypeError.\<close>

definition as_number :: "pyval \<Rightarrow> error + pyfloat" where
  "as_number v =
     (case v of
        VFloat x \<Rightarrow> Inr x
      | VInt n \<Rightarrow> Inr (Fin (of_int n))
      | VBool b \<Rightarrow> Inr (Fin (if b then 1 else 0))
      | _ \<Rightarrow> Inl TypeError)"

text \<open>\<^verbatim>\<open>lo <= v <= hi\<close>\<close>

definition between :: "rat \<Rightarrow> pyval \<Rightarrow> rat \<Rightarrow> error + bool" where
  "between lo v hi = bindE (as_number v) (\<lambda>x. Inr (fle (Fin lo) x \<and> fle x (Fin hi)))"

text \<open>
  \<^verbatim>\<open>not (4.0 <= lat <= 14.0) or not (2.0 <= lon <= 15.0)\<close>: the longitude is compared
  only when the latitude is in range.
\<close>

definition outside_nigeria :: "pyval \<Rightarrow> pyval \<Rightarrow> error + bool" where
  "outside_nigeria lat lon =
     bindE (between 4 lat 14)
       (\<lambda>lat_ok. if \<not> lat_ok then Inr True
                 else bindE (between 2 lon 15) (\<lambda>lon_ok. Inr (\<not> lon_ok)))"

definition location_findings :: "pydict \<Rightarrow> error + anomaly list" where
  "location_findings d =
     (let lat = dict_get d ''latitude''; lon = dict_get d ''longitude''
      in if truthy lat \<and> truthy lon
         then bindE (outside_nigeria lat lon)
                (\<lambda>out. Inr (if out
                     then [\<lparr>an_type = ''invalid_location'', an_field = ''coordinates'',
                              an_severity = ''medium''\<rparr>]
                     else []))
         else Inr [])"

definition consistency_findings :: "pydict \<Rightarrow> anomaly list" where
  "consistency_findings d =
     (case dict_get_default d ''human_resources_data'' (VDict []) of
        VDict hr_data \<Rightarrow>
          if dict_get d ''has_health_workers'' = VStr ''No''
             \<and> list_ex truthy (filter truthy (map snd hr_data))
          then [\<lparr>an_type = ''inconsistency'', an_field = ''health_workers'',
                  an_severity = ''medium''\<rparr>]
          else []
      | _ \<Rightarrow> [])"

definition detect_data_anomalies :: "pydict \<Rightarrow> error + anomaly list" where
  "detect_data_anomalies d =
     bindE (location_findings d)
       (\<lambda>loc. Inr (missing_findings d @ loc @ consistency_findings d))"

subsection \<open>\<^verbatim>\<open>analyze_issues_and_comments\<close>\<close>

record text_analysis =
  sentiment :: string
  topics :: "string list"
  priority :: string
  insights :: "string list"
  summary :: string

definition negative_keywords :: "string list" where
  "negative_keywords =
     [''problem'', ''issue'', ''broken'', ''missing'', ''urgent'', ''critical'', ''poor'',
      ''bad'', ''lack'', ''no'']"

definition positive_keywords :: "string list" where
  "positive_keywords =
     [''good'', ''excellent'', ''working'', ''available'', ''complete'', ''satisfied'']"

definition topic_keywords :: "(string \<times> string list) list" where
  "topic_keywords =
     [(''infrastructure'', [''power'', ''water'', ''building'', ''facility'', ''structure'']),
      (''staffing'', [''staff'', ''worker'', ''personnel'', ''doctor'', ''nurse'']),
      (''funding'', [''money'', ''budget'', ''funding'', ''financial'', ''cost'']),
      (''equipment'', [''equipment'', ''machine'', ''device'', ''tool'']),
      (''supplies'', [''supply'', ''commodity'', ''medicine'', ''drug'', ''stock'']),
      (''services'', [''service'', ''patient'', ''treatment'', ''care''])]"

text \<open>\<^verbatim>\<open>sum(1 for word in keywords if word in text_lower)\<close>\<close>

definition keyword_count :: "string list \<Rightarrow> string \<Rightarrow> nat" where
  "keyword_count keywords text_lower = length (filter (\<lambda>word. str_contains word text_lower) keywords)"

definition basic_text_analysis :: "string \<Rightarrow> text_analysis" where
  "basic_text_analysis text =
     (let text_lower = str_lower text;
          negative_count = keyword_count negative_keywords text_lower;
          positive_count = keyword_count positive_keywords text_lower;
          (sentiment, priority) =
            (if negative_count > positive_count
             then (''negative'', if negative_count > 3 then ''high'' else ''medium'')
             else if positive_count > negative_count then (''positive'', ''low'')
             else (''neutral'', ''medium''));
          topics = map fst (filter (\<lambda>(topic, keywords).
                      list_ex (\<lambda>keyword. str_contains keyword text_lower) keywords)
                    topic_keywords)
      in \<lparr>sentiment = sentiment,
          topics = (if topics \<noteq> [] then topics else [''general'']),
          priority = priority,
          insights = [''Detected '' @ sentiment @ '' sentiment with ''
                      @ str_nat (length topics) @ '' key topics''],
          summary = (if length text > 200 then take 200 text @ ''...'' else text)\<rparr>)"

text \<open>The OpenAI path is a stub in the source: it calls the keyword analysis.\<close>

definition analyze_with_openai :: "string \<Rightarrow> text_analysis" where
  "analyze_with_openai text = basic_text_analysis text"

text \<open>\<open>enabled\<close> is the flag of the service object (an API key is configured).\<close>

definition analyze_issues_and_comments :: "bool \<Rightarrow> string \<Rightarrow> string \<Rightarrow> text_analysis" where
  "analyze_issues_and_comments enabled issues comments =
     (if issues = [] \<and> comments = []
      then \<lparr>sentiment = ''neutral'', topics = [], priority = ''low'', insights = [],
             summary = ''No issues or comments provided''\<rparr>
      else
        (let combined_text = str_strip (issues @ '' '' @ comments)
         in if enabled then analyze_with_openai combined_text
            else basic_text_analysis combined_text))"


section \<open>The aggregation: \<^verbatim>\<open>get_detailed_analytics\<close>\<close>

subsection \<open>Coercions inside \<^verbatim>\<open>try\<close> blocks\<close>

text \<open>
  \<^verbatim>\<open>int(str(value).split()[0]) if isinstance(value, str) else int(value)\<close>
\<close>

definition parse_count :: "pyval \<Rightarrow> error + int" where
  "parse_count v =
     (case v of
        VStr s \<Rightarrow> bindE (first_token s) int_of_str
      | VInt n \<Rightarrow> Inr n
      | VBool b \<Rightarrow> Inr (if b then 1 else 0)
      | VFloat x \<Rightarrow> int_of_float x
      | _ \<Rightarrow> Inl TypeError)"

text \<open>
  \<^verbatim>\<open>float(str(amount).replace(',', ''))\<close>. The text of a float reads back as the
  same float; the text of a list or of a dictionary starts with a bracket, which no float
  literal does.
\<close>

definition parse_amount :: "pyval \<Rightarrow> error + pyfloat" where
  "parse_amount v =
     (case v of
        VStr s \<Rightarrow> float_of_str (str_replace (CHR '','') [] s)
      | VInt n \<Rightarrow> bindE (str_of_int n) (\<lambda>s. float_of_str (str_replace (CHR '','') [] s))
      | VBool b \<Rightarrow> float_of_str (if b then ''True'' else ''False'')
      | VNone \<Rightarrow> float_of_str ''None''
      | VFloat x \<Rightarrow> Inr x
      | _ \<Rightarrow> Inl ValueError)"

text \<open>
  \<^verbatim>\<open>float(value) if isinstance(value, (int, float)) else float(str(value).split()[0])\<close>.
  \<^verbatim>\<open>float\<close> of an integer beyond the range of the floats raises OverflowError.
\<close>

definition parse_score :: "pyval \<Rightarrow> error + pyfloat" where
  "parse_score v =
     (case v of
        VInt n \<Rightarrow> if float_overflow (of_int n) then Inl OverflowError else Inr (Fin (of_int n))
      | VBool b \<Rightarrow> Inr (Fin (if b then 1 else 0))
      | VFloat x \<Rightarrow> Inr x
      | VStr s \<Rightarrow> bindE (first_token s) float_of_str
      | VNone \<Rightarrow> bindE (first_token ''None'') float_of_str
      | _ \<Rightarrow> Inl ValueError)"

subsection \<open>Accumulators\<close>

text \<open>
  An accumulating dictionary keeps its keys in the order of first insertion:
  \<^verbatim>\<open>d[k] = f(d.get(k))\<close> replaces the value of a key in place or appends a new key.
\<close>

fun dict_update :: "string \<Rightarrow> ('v option \<Rightarrow> 'v) \<Rightarrow> (string \<times> 'v) list \<Rightarrow> (string \<times> 'v) list" where
  "dict_update k f [] = [(k, f None)]"
| "dict_update k f ((k', v) # kvs) =
     (if k' = k then (k', f (Some v)) # kvs else (k', v) # dict_update k f kvs)"

text \<open>\<^verbatim>\<open>d[k] = d.get(k, 0) + n\<close>, on integers and on floats.\<close>

definition dict_add_int :: "string \<Rightarrow> int \<Rightarrow> (string \<times> int) list \<Rightarrow> (string \<times> int) list" where
  "dict_add_int k n d = dict_update k (\<lambda>old. (case old of None \<Rightarrow> 0 | Some c \<Rightarrow> c) + n) d"

definition dict_add_float ::
  "string \<Rightarrow> pyfloat \<Rightarrow> (string \<times> pyfloat) list \<Rightarrow> (string \<times> pyfloat) list" where
  "dict_add_float k x d =
     dict_update k (\<lambda>old. fadd (case old of None \<Rightarrow> Fin 0 | Some a \<Rightarrow> a) x) d"

text \<open>\<^verbatim>\<open>if k not in d: d[k] = []\<close> followed by \<^verbatim>\<open>d[k].append(x)\<close>.\<close>

definition dict_append ::
  "string \<Rightarrow> 'a \<Rightarrow> (string \<times> 'a list) list \<Rightarrow> (string \<times> 'a list) list" where
  "dict_append k x d = dict_update k (\<lambda>old. (case old of None \<Rightarrow> [] | Some xs \<Rightarrow> xs) @ [x]) d"

record infrastructure_stats =
  has_power :: int
  has_water :: int
  has_internet :: int
  has_pharmacy :: int
  revitalization_count :: int

text \<open>The local variables of the function that the loop over the rows updates.\<close>

record agg =
  condition_counts :: "(string \<times> int) list"
  ownership_counts :: "(string \<times> int) list"
  assessment_type_counts :: "(string \<times> int) list"
  has_health_workers_counts :: "(string \<times> int) list"
  bhcpf_facilities :: int
  impact_facilities :: int
  total_funding_amount :: pyfloat
  funding_by_state :: "(string \<times> pyfloat) list"
  infra_stats :: infrastructure_stats
  total_staff :: int
  staff_by_type :: "(string \<times> int) list"
  facilities_with_staff :: int
  total_patients :: int
  services_offered :: "(string \<times> int) list"
  satisfaction_scores :: "pyfloat list"
  satisfaction_by_category :: "(string \<times> pyfloat list) list"
  zone_counts :: "(string \<times> int) list"

definition initial_agg :: agg where
  "initial_agg =
     \<lparr>condition_counts = [], ownership_counts = [], assessment_type_counts = [],
      has_health_workers_counts = [], bhcpf_facilities = 0, impact_facilities = 0,
      total_funding_amount = Fin 0, funding_by_state = [],
      infra_stats = \<lparr>has_power = 0, has_water = 0, has_internet = 0, has_pharmacy = 0,
                      revitalization_count = 0\<rparr>,
      total_staff = 0, staff_by_type = [], facilities_with_staff = 0, total_patients = 0,
      services_offered = [], satisfaction_scores = [], satisfaction_by_category = [],
      zone_counts = []\<rparr>"

subsection \<open>The loop body, block by block\<close>

text \<open>\<^verbatim>\<open>if sub.column: counts[sub.column] = counts.get(sub.column, 0) + 1\<close>\<close>

definition count_column :: "string option \<Rightarrow> (string \<times> int) list \<Rightarrow> (string \<times> int) list" where
  "count_column c counts =
     (case c of
        Some v \<Rightarrow> if v \<noteq> [] then dict_add_int v 1 counts else counts
      | None \<Rightarrow> counts)"

definition categorical_step :: "submission \<Rightarrow> agg \<Rightarrow> agg" where
  "categorical_step sub a =
     a\<lparr>condition_counts := count_column (facility_condition sub) (condition_counts a),
       ownership_counts := count_column (ownership_type sub) (ownership_counts a),
       assessment_type_counts := count_column (assessment_type sub) (assessment_type_counts a),
       has_health_workers_counts :=
         count_column (has_health_workers sub) (has_health_workers_counts a),
       zone_counts := count_column (geopolitical_zone sub) (zone_counts a)\<rparr>"

text \<open>
  \<^verbatim>\<open>block and isinstance(block, dict)\<close>: the items of a non-empty dictionary.
\<close>

definition block_items :: "pyval \<Rightarrow> pydict option" where
  "block_items v = (case v of VDict kvs \<Rightarrow> if kvs \<noteq> [] then Some kvs else None | _ \<Rightarrow> None)"

text \<open>\<^verbatim>\<open>d.get(a) == 'Yes' or d.get(b)\<close>\<close>

definition yes_or_truthy :: "pydict \<Rightarrow> string \<Rightarrow> string \<Rightarrow> bool" where
  "yes_or_truthy d a b = (dict_get d a = VStr ''Yes'' \<or> truthy (dict_get d b))"

definition funding_amount_step :: "submission \<Rightarrow> pydict \<Rightarrow> agg \<Rightarrow> agg" where
  "funding_amount_step sub fd a =
     (if truthy (dict_get fd ''amount'')
      then (case parse_amount (dict_get_default fd ''amount'' (VInt 0)) of
              Inl e \<Rightarrow> a
            | Inr amount \<Rightarrow>
                (let a1 = a\<lparr>total_funding_amount := fadd (total_funding_amount a) amount\<rparr>
                 in case state sub of
                      Some st \<Rightarrow>
                        if st \<noteq> []
                        then a1\<lparr>funding_by_state := dict_add_float st amount (funding_by_state a1)\<rparr>
                        else a1
                    | None \<Rightarrow> a1))
      else a)"

definition funding_step :: "submission \<Rightarrow> agg \<Rightarrow> agg" where
  "funding_step sub a =
     (case block_items (funding_data sub) of
        Some fd \<Rightarrow>
          funding_amount_step sub fd
            (if yes_or_truthy fd ''bhcpf_received'' ''has_bhcpf''
             then a\<lparr>bhcpf_facilities := bhcpf_facilities a + 1\<rparr> else a)
      | None \<Rightarrow> a)"

definition impact_step :: "submission \<Rightarrow> agg \<Rightarrow> agg" where
  "impact_step sub a =
     (case block_items (impact_funding_data sub) of
        Some d \<Rightarrow>
          if yes_or_truthy d ''received'' ''has_impact_funding''
          then a\<lparr>impact_facilities := impact_facilities a + 1\<rparr> else a
      | None \<Rightarrow> a)"

definition infra_update :: "pydict \<Rightarrow> infrastructure_stats \<Rightarrow> infrastructure_stats" where
  "infra_update d i =
     \<lparr>has_power = has_power i
        + (if yes_or_truthy d ''has_power'' ''power_available'' then 1 else 0),
      has_water = has_water i
        + (if yes_or_truthy d ''has_water'' ''water_available'' then 1 else 0),
      has_internet = has_internet i
        + (if yes_or_truthy d ''has_internet'' ''internet_available'' then 1 else 0),
      has_pharmacy = has_pharmacy i
        + (if yes_or_truthy d ''has_pharmacy'' ''pharmacy_available'' then 1 else 0),
      revitalization_count = revitalization_count i
        + (if yes_or_truthy d ''revitalization'' ''revitalized'' then 1 else 0)\<rparr>"

definition infrastructure_step :: "submission \<Rightarrow> agg \<Rightarrow> agg" where
  "infrastructure_step sub a =
     (case block_items (infrastructure_data sub) of
        Some d \<Rightarrow> a\<lparr>infra_stats := infra_update d (infra_stats a)\<rparr>
      | None \<Rightarrow> a)"

definition hr_marker :: "string \<Rightarrow> bool" where
  "hr_marker key =
     (str_contains ''staff'' (str_lower key) \<or> str_contains ''personnel'' (str_lower key)
      \<or> str_contains ''worker'' (str_lower key))"

text \<open>
  The loop over the items of the human-resources block, on the pair of the row's own
  \<^verbatim>\<open>facility_staff_count\<close> and the global \<^verbatim>\<open>staff_by_type\<close>.
\<close>

fun hr_items :: "pydict \<Rightarrow> int \<times> (string \<times> int) list \<Rightarrow> int \<times> (string \<times> int) list" where
  "hr_items [] st = st"
| "hr_items ((key, value) # kvs) (facility_staff_count, by_type) =
     hr_items kvs
       (if hr_marker key
        then (case parse_count value of
                Inl e \<Rightarrow> (facility_staff_count, by_type)
              | Inr count \<Rightarrow>
                  (facility_staff_count + count, dict_add_int (display_name key) count by_type))
        else (facility_staff_count, by_type))"

definition hr_step :: "submission \<Rightarrow> agg \<Rightarrow> agg" where
  "hr_step sub a =
     (case block_items (human_resources_data sub) of
        Some d \<Rightarrow>
          (case hr_items d (0, staff_by_type a) of (facility_staff_count, by_type) \<Rightarrow>
             (let a1 = a\<lparr>staff_by_type := by_type\<rparr>
              in if facility_staff_count > 0
                 then a1\<lparr>total_staff := total_staff a1 + facility_staff_count,
                         facilities_with_staff := facilities_with_staff a1 + 1\<rparr>
                 else a1))
      | None \<Rightarrow> a)"

definition patient_marker :: "string \<Rightarrow> bool" where
  "patient_marker key =
     (str_contains ''patient'' (str_lower key) \<or> str_contains ''attendance'' (str_lower key)
      \<or> str_contains ''utilization'' (str_lower key))"

fun patient_items :: "pydict \<Rightarrow> int \<Rightarrow> int" where
  "patient_items [] patients = patients"
| "patient_items ((key, value) # kvs) patients =
     patient_items kvs
       (if patient_marker key
        then (case parse_count value of Inl e \<Rightarrow> patients | Inr count \<Rightarrow> patients + count)
        else patients)"

text \<open>\<^verbatim>\<open>isinstance(value, str) and value.lower() in ['yes', 'true', 'available']\<close>\<close>

definition is_offered :: "pyval \<Rightarrow> bool" where
  "is_offered v =
     (case v of VStr s \<Rightarrow> str_lower s \<in> set [''yes'', ''true'', ''available''] | _ \<Rightarrow> False)"

fun service_items :: "pydict \<Rightarrow> (string \<times> int) list \<Rightarrow> (string \<times> int) list" where
  "service_items [] offered = offered"
| "service_items ((key, value) # kvs) offered =
     service_items kvs
       (if is_offered value then dict_add_int (display_name key) 1 offered else offered)"

definition services_step :: "submission \<Rightarrow> agg \<Rightarrow> agg" where
  "services_step sub a =
     (case block_items (services_data sub) of
        Some d \<Rightarrow>
          a\<lparr>total_patients := patient_items d (total_patients a),
            services_offered := service_items d (services_offered a)\<rparr>
      | None \<Rightarrow> a)"

definition score_marker :: "string \<Rightarrow> bool" where
  "score_marker key =
     (str_contains ''satisfaction'' (str_lower key) \<or> str_contains ''rating'' (str_lower key)
      \<or> str_contains ''score'' (str_lower key))"

fun satisfaction_items ::
  "pydict \<Rightarrow> pyfloat list \<times> (string \<times> pyfloat list) list
     \<Rightarrow> pyfloat list \<times> (string \<times> pyfloat list) list" where
  "satisfaction_items [] st = st"
| "satisfaction_items ((key, value) # kvs) (scores, by_category) =
     satisfaction_items kvs
       (if score_marker key
        then (case parse_score value of
                Inl e \<Rightarrow> (scores, by_category)
              | Inr score \<Rightarrow> (scores @ [score], dict_append (display_name key) score by_category))
        else (scores, by_category))"

definition satisfaction_step :: "submission \<Rightarrow> agg \<Rightarrow> agg" where
  "satisfaction_step sub a =
     (case block_items (satisfaction_survey_data sub) of
        Some d \<Rightarrow>
          (case satisfaction_items d (satisfaction_scores a, satisfaction_by_category a) of
             (scores, by_category) \<Rightarrow>
               a\<lparr>satisfaction_scores := scores, satisfaction_by_category := by_category\<rparr>)
      | None \<Rightarrow> a)"

text \<open>One iteration of \<^verbatim>\<open>for sub in submissions\<close>, and the whole loop.\<close>

definition process_submission :: "submission \<Rightarrow> agg \<Rightarrow> agg" where
  "process_submission sub a =
     satisfaction_step sub (services_step sub (hr_step sub (infrastructure_step sub
       (impact_step sub (funding_step sub (categorical_step sub a))))))"

definition aggregate :: "submission list \<Rightarrow> agg" where
  "aggregate submissions = foldl (\<lambda>a sub. process_submission sub a) initial_agg submissions"


subsection \<open>The report\<close>

fun mapE :: "('a \<Rightarrow> error + 'b) \<Rightarrow> 'a list \<Rightarrow> error + 'b list" where
  "mapE f [] = Inr []"
| "mapE f (x # xs) = bindE (f x) (\<lambda>y. bindE (mapE f xs) (\<lambda>ys. Inr (y # ys)))"

text \<open>\<^verbatim>\<open>round((v / total_submissions * 100) if total_submissions > 0 else 0, 2)\<close>\<close>

definition percentage_of :: "int \<Rightarrow> int \<Rightarrow> error + rat" where
  "percentage_of v total_submissions =
     bindE (if total_submissions > 0
            then bindE (truediv v total_submissions) (\<lambda>q. Inr (q * 100)) else Inr 0)
       (\<lambda>x. Inr (round2 x))"

text \<open>\<^verbatim>\<open>round((a / b) if b > 0 else 0, 2)\<close>, on integers and with a float on top.\<close>

definition average_of :: "int \<Rightarrow> int \<Rightarrow> error + rat" where
  "average_of a b = bindE (if b > 0 then truediv a b else Inr 0) (\<lambda>x. Inr (round2 x))"

definition faverage_of :: "pyfloat \<Rightarrow> int \<Rightarrow> error + pyfloat" where
  "faverage_of x n = bindE (if n > 0 then fdiv_int x n else Inr (Fin 0)) (\<lambda>y. Inr (fround2 y))"

text \<open>\<^verbatim>\<open>round((sum(v) / len(v)) if v else 0, 2)\<close>\<close>

definition fsum :: "pyfloat list \<Rightarrow> pyfloat" where
  "fsum v = foldl fadd (Fin 0) v"

definition mean_score :: "pyfloat list \<Rightarrow> error + pyfloat" where
  "mean_score v =
     bindE (if v \<noteq> [] then fdiv_int (fsum v) (int (length v)) else Inr (Fin 0))
       (\<lambda>y. Inr (fround2 y))"

text \<open>
  \<^verbatim>\<open>sorted(items, key=..., reverse=True)\<close>. The list sort compares keys with
  \<^verbatim>\<open><\<close> only and is stable; with \<^verbatim>\<open>reverse=True\<close> it reverses the list, sorts
  it in ascending order and reverses the result, so that equal keys keep their order.
  The ascending sort is given as an insertion sort. On keys that \<^verbatim>\<open><\<close> orders
  totally (integers, floats other than NaN) every stable sort returns the same list, and
  this is the list of the interpreter. On a list with a NaN key the interpreter's list
  depends on how its sort finds and merges runs, which is not modelled: there the list
  below is one arrangement of the items and need not be the interpreter's. No statement
  about the order of a list is made for such keys, but for the three rows of
  \<open>nan_rows\<close>, where the interpreter returns the same list.
\<close>

fun insert_by :: "('k \<Rightarrow> 'k \<Rightarrow> bool) \<Rightarrow> ('a \<Rightarrow> 'k) \<Rightarrow> 'a \<Rightarrow> 'a list \<Rightarrow> 'a list" where
  "insert_by lt key x [] = [x]"
| "insert_by lt key x (y # ys) =
     (if lt (key y) (key x) then y # insert_by lt key x ys else x # y # ys)"

definition stable_sort :: "('k \<Rightarrow> 'k \<Rightarrow> bool) \<Rightarrow> ('a \<Rightarrow> 'k) \<Rightarrow> 'a list \<Rightarrow> 'a list" where
  "stable_sort lt key xs = foldr (insert_by lt key) xs []"

definition sorted_reverse :: "('k \<Rightarrow> 'k \<Rightarrow> bool) \<Rightarrow> ('a \<Rightarrow> 'k) \<Rightarrow> 'a list \<Rightarrow> 'a list" where
  "sorted_reverse lt key xs = rev (stable_sort lt key (rev xs))"

record dist_entry =
  de_key :: string
  de_count :: int
  de_percentage :: rat

record service_entry =
  se_service :: string
  se_facilities :: int
  se_percentage :: rat

record category_entry =
  ce_average :: pyfloat
  ce_count :: int

record facility_section =
  condition_distribution :: "dist_entry list"
  ownership_distribution :: "dist_entry list"
  assessment_type_distribution :: "(string \<times> int) list"
  health_workers_distribution :: "dist_entry list"
  geopolitical_zone_distribution :: "(string \<times> int) list"

record funding_section =
  fa_bhcpf_facilities :: int
  bhcpf_percentage :: rat
  fa_impact_facilities :: int
  impact_percentage :: rat
  fa_total_funding_amount :: pyfloat
  average_funding_per_facility :: pyfloat
  fa_funding_by_state :: "(string \<times> pyfloat) list"

record infrastructure_section =
  facilities_with_power :: int
  power_percentage :: rat
  facilities_with_water :: int
  water_percentage :: rat
  facilities_with_internet :: int
  internet_percentage :: rat
  facilities_with_pharmacy :: int
  pharmacy_percentage :: rat
  revitalized_facilities :: int
  revitalization_percentage :: rat

record human_resources_section =
  hr_total_staff :: int
  hr_facilities_with_staff :: int
  average_staff_per_facility :: rat
  hr_staff_by_type :: "(string \<times> int) list"

record services_section =
  su_total_patients :: int
  average_patients_per_facility :: rat
  top_services_offered :: "service_entry list"

record satisfaction_section =
  average_score :: pyfloat
  total_responses :: int
  scores_by_category :: "(string \<times> category_entry) list"

record summary_section =
  total_facilities :: int
  facilities_with_complete_data :: int
  data_completeness_percentage :: rat

record report =
  facility_analysis :: facility_section
  funding_analysis :: funding_section
  infrastructure_analysis :: infrastructure_section
  human_resources_analysis :: human_resources_section
  services_utilization :: services_section
  patient_satisfaction :: satisfaction_section
  report_summary :: summary_section

definition dist_entries :: "int \<Rightarrow> (string \<times> int) list \<Rightarrow> error + dist_entry list" where
  "dist_entries total_submissions counts =
     mapE (\<lambda>(k, v). bindE (percentage_of v total_submissions)
             (\<lambda>p. Inr \<lparr>de_key = k, de_count = v, de_percentage = p\<rparr>)) counts"

definition facility_report :: "int \<Rightarrow> agg \<Rightarrow> error + facility_section" where
  "facility_report total_submissions a =
     bindE (dist_entries total_submissions (condition_counts a)) (\<lambda>cond.
     bindE (dist_entries total_submissions (ownership_counts a)) (\<lambda>own.
     bindE (dist_entries total_submissions (has_health_workers_counts a)) (\<lambda>hw.
       Inr \<lparr>condition_distribution = cond, ownership_distribution = own,
            assessment_type_distribution = assessment_type_counts a,
            health_workers_distribution = hw,
            geopolitical_zone_distribution = zone_counts a\<rparr>)))"

definition funding_report :: "int \<Rightarrow> agg \<Rightarrow> error + funding_section" where
  "funding_report total_submissions a =
     bindE (percentage_of (bhcpf_facilities a) total_submissions) (\<lambda>bp.
     bindE (percentage_of (impact_facilities a) total_submissions) (\<lambda>ip.
     bindE (faverage_of (total_funding_amount a) total_submissions) (\<lambda>avg.
       Inr \<lparr>fa_bhcpf_facilities = bhcpf_facilities a, bhcpf_percentage = bp,
            fa_impact_facilities = impact_facilities a, impact_percentage = ip,
            fa_total_funding_amount = fround2 (total_funding_amount a),
            average_funding_per_facility = avg,
            fa_funding_by_state =
              map (\<lambda>(k, v). (k, fround2 v))
                (take 10 (sorted_reverse flt snd (funding_by_state a)))\<rparr>)))"

definition infrastructure_report :: "int \<Rightarrow> agg \<Rightarrow> error + infrastructure_section" where
  "infrastructure_report total_submissions a =
     (let i = infra_stats a in
      bindE (percentage_of (has_power i) total_submissions) (\<lambda>pp.
      bindE (percentage_of (has_water i) total_submissions) (\<lambda>wp.
      bindE (percentage_of (has_internet i) total_submissions) (\<lambda>np.
      bindE (percentage_of (has_pharmacy i) total_submissions) (\<lambda>phP.
      bindE (percentage_of (revitalization_count i) total_submissions) (\<lambda>rp.
        Inr \<lparr>facilities_with_power = has_power i, power_percentage = pp,
             facilities_with_water = has_water i, water_percentage = wp,
             facilities_with_internet = has_internet i, internet_percentage = np,
             facilities_with_pharmacy = has_pharmacy i, pharmacy_percentage = phP,
             revitalized_facilities = revitalization_count i,
             revitalization_percentage = rp\<rparr>))))))"

definition human_resources_report :: "agg \<Rightarrow> error + human_resources_section" where
  "human_resources_report a =
     bindE (average_of (total_staff a) (facilities_with_staff a)) (\<lambda>avg.
       Inr \<lparr>hr_total_staff = total_staff a,
            hr_facilities_with_staff = facilities_with_staff a,
            average_staff_per_facility = avg,
            hr_staff_by_type = take 10 (sorted_reverse (<) snd (staff_by_type a))\<rparr>)"

definition services_report :: "int \<Rightarrow> agg \<Rightarrow> error + services_section" where
  "services_report total_submissions a =
     bindE (average_of (total_patients a) total_submissions) (\<lambda>avg.
     bindE (mapE (\<lambda>(k, v). bindE (percentage_of v total_submissions)
                    (\<lambda>p. Inr \<lparr>se_service = k, se_facilities = v, se_percentage = p\<rparr>))
              (take 10 (sorted_reverse (<) snd (services_offered a)))) (\<lambda>top.
       Inr \<lparr>su_total_patients = total_patients a, average_patients_per_facility = avg,
            top_services_offered = top\<rparr>))"

definition satisfaction_report :: "agg \<Rightarrow> error + satisfaction_section" where
  "satisfaction_report a =
     bindE (mean_score (satisfaction_scores a)) (\<lambda>avg.
     bindE (mapE (\<lambda>(k, v). bindE (mean_score v)
                    (\<lambda>m. Inr (k, \<lparr>ce_average = m, ce_count = int (length v)\<rparr>)))
              (satisfaction_by_category a)) (\<lambda>cats.
       Inr \<lparr>average_score = avg, total_responses = int (length (satisfaction_scores a)),
            scores_by_category = cats\<rparr>))"

text \<open>\<^verbatim>\<open>s.facility_condition and s.ownership_type\<close>\<close>

definition complete_data :: "submission \<Rightarrow> bool" where
  "complete_data s =
     (truthy (str_column (facility_condition s)) \<and> truthy (str_column (ownership_type s)))"

definition summary_report :: "submission list \<Rightarrow> error + summary_section" where
  "summary_report submissions =
     (let total_submissions = int (length submissions);
          complete = int (length (filter complete_data submissions)) in
      bindE (percentage_of complete total_submissions) (\<lambda>p.
        Inr \<lparr>total_facilities = total_submissions, facilities_with_complete_data = complete,
             data_completeness_percentage = p\<rparr>))"

text \<open>
  The function on the rows that the query returns. \<open>Inl\<close> is an exception that leaves
  the function.
\<close>

definition get_detailed_analytics :: "submission list \<Rightarrow> error + report" where
  "get_detailed_analytics submissions =
     (let a = aggregate submissions; total_submissions = int (length submissions) in
      bindE (facility_report total_submissions a) (\<lambda>fac.
      bindE (funding_report total_submissions a) (\<lambda>fund.
      bindE (infrastructure_report total_submissions a) (\<lambda>infra.
      bindE (human_resources_report a) (\<lambda>hr.
      bindE (services_report total_submissions a) (\<lambda>serv.
      bindE (satisfaction_report a) (\<lambda>sat.
      bindE (summary_report submissions) (\<lambda>summ.
        Inr \<lparr>facility_analysis = fac, funding_analysis = fund,
             infrastructure_analysis = infra, human_resources_analysis = hr,
             services_utilization = serv, patient_satisfaction = sat,
             report_summary = summ\<rparr>))))))))"

section \<open>Example rows\<close>

text \<open>A row with its identifying columns filled in and a good condition.\<close>

definition facility_row :: submission where
  "facility_row =
     empty_submission\<lparr>facility_name := Some ''PHC Dala'', state := Some ''Kano'',
       lga := Some ''Dala'', facility_condition := Some ''Good''\<rparr>"

definition poor_row :: submission where
  "poor_row = facility_row\<lparr>facility_condition := Some ''POOR''\<rparr>"

definition poor_staffed_row :: submission where
  "poor_staffed_row =
     poor_row\<lparr>human_resources_data := VDict [(''nurse_staff'', VInt 12)],
       funding_data := VDict [(''amount'', VInt 5)],
       infrastructure_data := VDict [(''has_power'', VStr ''Yes''), (''water_available'', VInt 1)]\<rparr>"

definition funded_row :: submission where
  "funded_row = facility_row\<lparr>funding_data := VDict [(''bhcpf_received'', VStr ''Yes'')]\<rparr>"

definition amount_row :: submission where
  "amount_row = facility_row\<lparr>funding_data := VDict [(''amount'', VStr ''12,500'')]\<rparr>"

definition bad_amount_row :: submission where
  "bad_amount_row = facility_row\<lparr>funding_data := VDict [(''amount'', VStr ''not-a-number'')]\<rparr>"

section \<open>Contributions of a block, as the specification words them\<close>

text \<open>
  The contributions of a human-resources block: for each key with a staff, personnel or
  worker marker whose value parses to an integer, the display name of the key and the
  parsed count, in the order of the block.
\<close>

fun staff_contributions :: "pydict \<Rightarrow> (string \<times> int) list" where
  "staff_contributions [] = []"
| "staff_contributions ((key, value) # kvs) =
     (if hr_marker key
      then (case parse_count value of Inl e \<Rightarrow> [] | Inr n \<Rightarrow> [(display_name key, n)])
      else []) @ staff_contributions kvs"

definition negative_staff_row :: submission where
  "negative_staff_row = facility_row\<lparr>human_resources_data := VDict [(''x_staff'', VStr ''-3'')]\<rparr>"

definition nurses_row :: submission where
  "nurses_row =
     facility_row\<lparr>human_resources_data := VDict [(''nurse_staff_count'', VStr ''12 nurses'')]\<rparr>"

section \<open>Orders\<close>

text \<open>
  A comparison that is a strict total order on a set of keys: what \<^verbatim>\<open><\<close> is on the
  integers, and on the floats other than NaN.
\<close>

definition strict_total_on :: "'k set \<Rightarrow> ('k \<Rightarrow> 'k \<Rightarrow> bool) \<Rightarrow> bool" where
  "strict_total_on K lt =
     ((\<forall>a \<in> K. \<forall>b \<in> K. lt a b \<longrightarrow> \<not> lt b a)
      \<and> (\<forall>a \<in> K. \<forall>b \<in> K. \<forall>c \<in> K. lt a b \<longrightarrow> lt b c \<longrightarrow> lt a c)
      \<and> (\<forall>a \<in> K. \<forall>b \<in> K. lt a b \<or> a = b \<or> lt b a))"

definition lagos_row :: submission where
  "lagos_row =
     facility_row\<lparr>state := Some ''Lagos'',
       funding_data := VDict [(''amount'', VInt 30000)],
       human_resources_data := VDict [(''doctor_staff'', VInt 3), (''nurse_staff'', VInt 7)],
       services_data := VDict [(''antenatal_care'', VStr ''Yes''), (''lab'', VStr ''available'')]\<rparr>"

definition ranking_rows :: "submission list" where
  "ranking_rows = [amount_row, lagos_row]"

text \<open>Three rows whose amounts are the texts \<^verbatim>\<open>1\<close>, \<^verbatim>\<open>nan\<close> and \<^verbatim>\<open>2\<close>.\<close>

definition nan_rows :: "submission list" where
  "nan_rows =
     [facility_row\<lparr>state := Some ''Abia'', funding_data := VDict [(''amount'', VStr ''1'')]\<rparr>,
      facility_row\<lparr>state := Some ''Bauchi'', funding_data := VDict [(''amount'', VStr ''nan'')]\<rparr>,
      facility_row\<lparr>state := Some ''Cross River'',
        funding_data := VDict [(''amount'', VStr ''2'')]\<rparr>]"

text \<open>The items of a block that is a dictionary; no items for any other value.\<close>

definition block_of :: "pyval \<Rightarrow> pydict" where
  "block_of v = (case v of VDict d \<Rightarrow> d | _ \<Rightarrow> [])"

text \<open>
  The contributions of a services block: the parsed counts of the keys with a patient,
  attendance or utilization marker, and the display names of the keys whose value says
  that the service is offered.
\<close>

fun patient_contributions :: "pydict \<Rightarrow> int list" where
  "patient_contributions [] = []"
| "patient_contributions ((key, value) # kvs) =
     (if patient_marker key
      then (case parse_count value of Inl e \<Rightarrow> [] | Inr n \<Rightarrow> [n])
      else []) @ patient_contributions kvs"

fun offered_names :: "pydict \<Rightarrow> string list" where
  "offered_names [] = []"
| "offered_names ((key, value) # kvs) =
     (if is_offered value then [display_name key] else []) @ offered_names kvs"

text \<open>
  A row with a negative staff count, a negative patient count and two service keys of
  the same display name.
\<close>

definition skewed_row :: submission where
  "skewed_row =
     facility_row\<lparr>human_resources_data := VDict [(''x_staff'', VStr ''-3'')],
       services_data := VDict [(''patients'', VInt (- 2)), (''a_b'', VStr ''yes''),
         (''a b'', VStr ''yes'')]\<rparr>"

section \<open>Rows without negative counts or colliding service names\<close>

text \<open>
  Rows whose staff counts and patient counts are not negative, and rows whose offered
  services have ASCII keys with pairwise distinct display names.
\<close>

definition staff_counts_nonneg :: "submission \<Rightarrow> bool" where
  "staff_counts_nonneg sub =
     list_all (\<lambda>c. 0 \<le> snd c) (staff_contributions (block_of (human_resources_data sub)))"

definition patient_counts_nonneg :: "submission \<Rightarrow> bool" where
  "patient_counts_nonneg sub =
     list_all (\<lambda>c. 0 \<le> c) (patient_contributions (block_of (services_data sub)))"

definition is_ascii :: "char \<Rightarrow> bool" where
  "is_ascii c = ((of_char c :: nat) < 128)"

fun offered_keys :: "pydict \<Rightarrow> string list" where
  "offered_keys [] = []"
| "offered_keys ((key, value) # kvs) =
     (if is_offered value then [key] else []) @ offered_keys kvs"

definition service_names_distinct :: "submission \<Rightarrow> bool" where
  "service_names_distinct sub =
     (list_all (list_all is_ascii) (offered_keys (block_of (services_data sub)))
      \<and> distinct (offered_names (block_of (services_data sub))))"

section \<open>Finite amounts\<close>

text \<open>
  A row with a finite amount: when its funding block has an amount that reads as a float,
  the float is neither an infinity nor NaN.
\<close>

fun finite_float :: "pyfloat \<Rightarrow> bool" where
  "finite_float (Fin a) = True"
| "finite_float _ = False"

definition finite_amount :: "submission \<Rightarrow> bool" where
  "finite_amount sub =
     (case block_items (funding_data sub) of
        None \<Rightarrow> True
      | Some fd \<Rightarrow>
          (case parse_amount (dict_get fd ''amount'') of
             Inl e \<Rightarrow> True
           | Inr x \<Rightarrow> finite_float x))"

section \<open>Basic facts\<close>

lemma bit_Suc_0_0: "bit (Suc 0) 0"
  by (simp add: bit_0)

lemmas char_eval = is_space_def is_number_space_def is_digit_def is_upper_def is_lower_def
  lower_char_def
  upper_char_def char_of_def bit_Suc_0_0

lemmas str_eval = char_eval str_lower_def str_strip_def number_strip_def str_split_def
  first_token_def max_str_digits_def str_of_int_def float_overflow_def to_float_def
  str_replace_def str_title_def display_name_def digit_char_def str_int_def str_nat.simps
  digit_val_def digits_value_def int_of_str_def split_at_char_def mantissa_of_def
  exponent_of_def pow10_def float_of_str_def

lemma bindE_simps [simp]:
  "bindE (Inl e) f = Inl e" "bindE (Inr x) f = f x"
  by (simp_all add: bindE_def)

lemma round2_zero [simp]: "round2 0 = 0"
  by (simp add: round2_def round_half_even_def)

lemma to_dict_get [simp]:
  "dict_get (to_dict s) ''facility_name'' = str_column (facility_name s)"
  "dict_get (to_dict s) ''state'' = str_column (state s)"
  "dict_get (to_dict s) ''lga'' = str_column (lga s)"
  "dict_get (to_dict s) ''facility_condition'' = str_column (facility_condition s)"
  "dict_get (to_dict s) ''has_health_workers'' = str_column (has_health_workers s)"
  "dict_get (to_dict s) ''latitude'' = float_column (latitude s)"
  "dict_get (to_dict s) ''longitude'' = float_column (longitude s)"
  by (simp_all add: to_dict_def dict_get_def)

lemma to_dict_get_default [simp]:
  "dict_get_default (to_dict s) ''facility_condition'' v = str_column (facility_condition s)"
  "dict_get_default (to_dict s) ''human_resources_data'' v = human_resources_data s"
  "dict_get_default (to_dict s) ''funding_data'' v = funding_data s"
  "dict_get_default (to_dict s) ''infrastructure_data'' v = infrastructure_data s"
  by (simp_all add: to_dict_def dict_get_default_def)

section \<open>The claims\<close>

text \<open>
  Claim C1 says that \<^verbatim>\<open>predict_facility_needs\<close> returns for every row and that a
  staff value that is no integer only drops its contribution. The function has no
  \<^verbatim>\<open>try\<close> around its \<^verbatim>\<open>int(str(v).split()[0])\<close>: on the claim's own two
  examples it raises ValueError and IndexError, and on a row without a facility condition
  it raises AttributeError.
\<close>

theorem predict_raises_on_text_count:
  "predict_facility_needs (to_dict (facility_row\<lparr>human_resources_data :=
       VDict [(''nurse_staff'', VStr ''twelve nurses'')]\<rparr>)) = Inl ValueError
   \<and> predict_facility_needs (to_dict (facility_row\<lparr>human_resources_data :=
       VDict [(''nurse_staff'', VStr [])]\<rparr>)) = Inl IndexError
   \<and> predict_facility_needs (to_dict empty_submission) = Inl AttributeError"
  by (simp add: predict_facility_needs_def analyze_condition_def analyze_staffing_def
      facility_row_def empty_submission_def str_column_def lower_method_def
      initial_predictions_def predict_marker_def staff_term_def str_eval)

text \<open>
  Claim C3 says that a location finding is emitted exactly when both coordinates are
  present and one is out of the bounds. The function tests \<^verbatim>\<open>lat and lon\<close>, which
  is false for a coordinate 0.0: the row at latitude 0.0 gets no finding, although its
  latitude is present and below 4.0. The claim's two examples behave as it says.
\<close>

theorem zero_latitude_not_flagged:
  "detect_data_anomalies (to_dict (facility_row\<lparr>latitude := Some (Fin 0),
       longitude := Some (Fin (15 / 2))\<rparr>)) = Inr []
   \<and> detect_data_anomalies (to_dict (facility_row\<lparr>latitude := Some (Fin 9),
       longitude := Some (Fin (15 / 2))\<rparr>)) = Inr []
   \<and> detect_data_anomalies (to_dict (facility_row\<lparr>latitude := Some (Fin 40),
       longitude := Some (Fin (15 / 2))\<rparr>)) =
     Inr [\<lparr>an_type = ''invalid_location'', an_field = ''coordinates'',
           an_severity = ''medium''\<rparr>]"
  by (simp add: detect_data_anomalies_def location_findings_def missing_findings_def
      consistency_findings_def critical_fields_def outside_nigeria_def between_def
      as_number_def facility_row_def empty_submission_def str_column_def float_column_def)

text \<open>
  Claim C4: on the empty list of rows the aggregation returns a report (no exception) in
  which every list is empty and every count, average and percentage is 0; each guarded
  division gives 0 when its denominator is 0.
\<close>

theorem empty_record_set:
  "get_detailed_analytics [] =
     Inr \<lparr>facility_analysis =
            \<lparr>condition_distribution = [], ownership_distribution = [],
             assessment_type_distribution = [], health_workers_distribution = [],
             geopolitical_zone_distribution = []\<rparr>,
          funding_analysis =
            \<lparr>fa_bhcpf_facilities = 0, bhcpf_percentage = 0, fa_impact_facilities = 0,
             impact_percentage = 0, fa_total_funding_amount = Fin 0,
             average_funding_per_facility = Fin 0, fa_funding_by_state = []\<rparr>,
          infrastructure_analysis =
            \<lparr>facilities_with_power = 0, power_percentage = 0, facilities_with_water = 0,
             water_percentage = 0, facilities_with_internet = 0, internet_percentage = 0,
             facilities_with_pharmacy = 0, pharmacy_percentage = 0,
             revitalized_facilities = 0, revitalization_percentage = 0\<rparr>,
          human_resources_analysis =
            \<lparr>hr_total_staff = 0, hr_facilities_with_staff = 0,
             average_staff_per_facility = 0, hr_staff_by_type = []\<rparr>,
          services_utilization =
            \<lparr>su_total_patients = 0, average_patients_per_facility = 0,
             top_services_offered = []\<rparr>,
          patient_satisfaction =
            \<lparr>average_score = Fin 0, total_responses = 0, scores_by_category = []\<rparr>,
          report_summary =
            \<lparr>total_facilities = 0, facilities_with_complete_data = 0,
             data_completeness_percentage = 0\<rparr>\<rparr>
   \<and> percentage_of v 0 = Inr 0 \<and> average_of v 0 = Inr 0
   \<and> faverage_of x 0 = Inr (Fin 0) \<and> mean_score [] = Inr (Fin 0)"
  by (simp add: get_detailed_analytics_def aggregate_def initial_agg_def facility_report_def
      funding_report_def infrastructure_report_def human_resources_report_def
      services_report_def satisfaction_report_def summary_report_def dist_entries_def
      percentage_of_def average_of_def faverage_of_def mean_score_def sorted_reverse_def
      stable_sort_def)

subsection \<open>The priority level\<close>

lemma analyze_condition_priority:
  assumes "analyze_condition d p0 = Inr p"
  shows "\<exists>s. dict_get_default d ''facility_condition'' (VStr []) = VStr s
           \<and> priority_level p = (if str_lower s = ''poor'' \<or> str_lower s = ''critical''
                                  then ''high'' else priority_level p0)"
  using assms
  by (cases "dict_get_default d ''facility_condition'' (VStr [])")
     (auto simp: analyze_condition_def lower_method_def split: if_splits)

lemma analyze_staffing_priority:
  "analyze_staffing d p = Inr p' \<Longrightarrow> priority_level p' = priority_level p"
  by (auto simp: analyze_staffing_def bindE_def split: pyval.splits sum.splits if_splits)

lemma analyze_funding_priority [simp]:
  "priority_level (analyze_funding d p) = priority_level p"
  by (simp add: analyze_funding_def split: pyval.splits)

lemma analyze_infrastructure_priority [simp]:
  "priority_level (analyze_infrastructure d p) = priority_level p"
  by (simp add: analyze_infrastructure_def Let_def split: pyval.splits)

lemma predict_stages:
  assumes "predict_facility_needs d = Inr p"
  obtains p1 p2 where "analyze_condition d initial_predictions = Inr p1"
    and "analyze_staffing d p1 = Inr p2"
    and "p = analyze_infrastructure d (analyze_funding d p2)"
  using assms
  by (auto simp: predict_facility_needs_def bindE_def split: sum.splits)

text \<open>
  Claim C10: whenever \<^verbatim>\<open>predict_facility_needs\<close> returns, the priority level is
  \<^verbatim>\<open>high\<close> if the lower-cased facility condition is \<^verbatim>\<open>poor\<close> or
  \<^verbatim>\<open>critical\<close> and \<^verbatim>\<open>medium\<close> otherwise; it is never \<^verbatim>\<open>low\<close>; and two
  records with the same facility condition get the same priority, whatever their
  staffing, funding and infrastructure blocks are.
\<close>

theorem priority_level_rule:
  assumes "predict_facility_needs d = Inr p"
  shows "(\<exists>s. dict_get_default d ''facility_condition'' (VStr []) = VStr s
            \<and> priority_level p = (if str_lower s = ''poor'' \<or> str_lower s = ''critical''
                                   then ''high'' else ''medium''))
         \<and> priority_level p \<noteq> ''low''
         \<and> (predict_facility_needs d' = Inr p'
              \<and> dict_get_default d' ''facility_condition'' (VStr [])
                  = dict_get_default d ''facility_condition'' (VStr [])
            \<longrightarrow> priority_level p' = priority_level p)"
proof -
  have rule: "\<exists>s. dict_get_default e ''facility_condition'' (VStr []) = VStr s
            \<and> priority_level q = (if str_lower s = ''poor'' \<or> str_lower s = ''critical''
                                   then ''high'' else ''medium'')"
    if "predict_facility_needs e = Inr q" for e q
  proof -
    from that obtain p1 p2 where c: "analyze_condition e initial_predictions = Inr p1"
      and s: "analyze_staffing e p1 = Inr p2"
      and q: "q = analyze_infrastructure e (analyze_funding e p2)"
      by (rule predict_stages)
    from analyze_condition_priority [OF c] analyze_staffing_priority [OF s] q
    show ?thesis by (auto simp: initial_predictions_def)
  qed
  from rule [OF assms] have 1: "\<exists>s. dict_get_default d ''facility_condition'' (VStr []) = VStr s
            \<and> priority_level p = (if str_lower s = ''poor'' \<or> str_lower s = ''critical''
                                   then ''high'' else ''medium'')" .
  then have 2: "priority_level p \<noteq> ''low''" by (auto split: if_splits)
  have 3: "priority_level p' = priority_level p"
    if "predict_facility_needs d' = Inr p'"
      and "dict_get_default d' ''facility_condition'' (VStr [])
                  = dict_get_default d ''facility_condition'' (VStr [])"
    using rule [OF that(1)] 1 that(2) by auto
  from 1 2 3 show ?thesis by blast
qed

lemma poor_row_eval:
  "predict_facility_needs (to_dict poor_row) =
     Inr \<lparr>priority_level = ''high'',
          predicted_needs = [''Infrastructure improvement''],
          risk_factors = [''Poor facility condition''],
          recommendations = [''Prioritize facility rehabilitation'']\<rparr>"
  by (simp add: predict_facility_needs_def analyze_condition_def analyze_staffing_def
      analyze_funding_def analyze_infrastructure_def poor_row_def
      facility_row_def empty_submission_def str_column_def lower_method_def
      initial_predictions_def char_eval str_lower_def)

lemma poor_staffed_row_eval:
  "predict_facility_needs (to_dict poor_staffed_row) =
     Inr \<lparr>priority_level = ''high'',
          predicted_needs = [''Infrastructure improvement'', ''Financial support''],
          risk_factors = [''Poor facility condition'', ''Lack of funding''],
          recommendations = [''Prioritize facility rehabilitation'',
            ''Apply for BHCPF or IMPACT funding'']\<rparr>"
  by (simp add: predict_facility_needs_def analyze_condition_def analyze_staffing_def
      analyze_funding_def analyze_infrastructure_def poor_row_def poor_staffed_row_def
      facility_row_def empty_submission_def str_column_def lower_method_def
      initial_predictions_def predict_marker_def staff_term_def predict_has_funding_def
      dict_get_def str_eval)

theorem priority_level_rule_witness:
  "\<exists>p p'. predict_facility_needs (to_dict poor_row) = Inr p
      \<and> predict_facility_needs (to_dict poor_staffed_row) = Inr p'
      \<and> dict_get_default (to_dict poor_staffed_row) ''facility_condition'' (VStr [])
          = dict_get_default (to_dict poor_row) ''facility_condition'' (VStr [])
      \<and> risk_factors p' \<noteq> risk_factors p
      \<and> priority_level p = ''high'' \<and> priority_level p \<noteq> ''low''
      \<and> priority_level p' = priority_level p"
proof -
  have same: "dict_get_default (to_dict poor_staffed_row) ''facility_condition'' (VStr [])
          = dict_get_default (to_dict poor_row) ''facility_condition'' (VStr [])"
    by (simp add: poor_staffed_row_def)
  from priority_level_rule [OF poor_row_eval]
  have "priority_level \<lparr>priority_level = ''high'',
          predicted_needs = [''Infrastructure improvement''],
          risk_factors = [''Poor facility condition''],
          recommendations = [''Prioritize facility rehabilitation'']\<rparr> \<noteq> ''low''"
    by blast
  with same poor_row_eval poor_staffed_row_eval show ?thesis by simp
qed

subsection \<open>The two funding signals\<close>

lemma analyze_condition_risk:
  "analyze_condition d p0 = Inr p \<Longrightarrow>
     set (risk_factors p) \<subseteq> set (risk_factors p0) \<union> {''Poor facility condition''}"
  by (cases "dict_get_default d ''facility_condition'' (VStr [])")
     (auto simp: analyze_condition_def lower_method_def split: if_splits)

lemma analyze_staffing_risk:
  "analyze_staffing d p = Inr p' \<Longrightarrow>
     set (risk_factors p') \<subseteq> set (risk_factors p) \<union> {''Insufficient staffing''}"
  by (auto simp: analyze_staffing_def bindE_def split: pyval.splits sum.splits if_splits)

lemma analyze_infrastructure_risk [simp]:
  "risk_factors (analyze_infrastructure d p) = risk_factors p"
  by (simp add: analyze_infrastructure_def Let_def split: pyval.splits)

lemma analyze_funding_risk:
  "dict_get_default d ''funding_data'' (VDict []) = VDict fd \<Longrightarrow>
   risk_factors (analyze_funding d p) =
     risk_factors p @ (if predict_has_funding fd then [] else [''Lack of funding''])"
  by (simp add: analyze_funding_def)

lemma predict_lack_of_funding:
  assumes "predict_facility_needs d = Inr p"
    and "dict_get_default d ''funding_data'' (VDict []) = VDict fd"
  shows "(''Lack of funding'' \<in> set (risk_factors p)) = (\<not> predict_has_funding fd)"
proof -
  from assms(1) obtain p1 p2 where c: "analyze_condition d initial_predictions = Inr p1"
    and s: "analyze_staffing d p1 = Inr p2"
    and p: "p = analyze_infrastructure d (analyze_funding d p2)"
    by (rule predict_stages)
  from analyze_condition_risk [OF c] analyze_staffing_risk [OF s]
  have "''Lack of funding'' \<notin> set (risk_factors p2)"
    by (auto simp: initial_predictions_def)
  with p analyze_funding_risk [OF assms(2), of p2] show ?thesis by simp
qed

lemma block_items_VDict: "block_items (VDict fd) = (if fd \<noteq> [] then Some fd else None)"
  by (simp add: block_items_def)

lemma bhcpf_after_funding_amount [simp]:
  "bhcpf_facilities (funding_amount_step sub fd a) = bhcpf_facilities a"
  by (simp add: funding_amount_step_def Let_def split: sum.splits option.splits)

lemma bhcpf_frame [simp]:
  "bhcpf_facilities (categorical_step sub a) = bhcpf_facilities a"
  "bhcpf_facilities (impact_step sub a) = bhcpf_facilities a"
  "bhcpf_facilities (infrastructure_step sub a) = bhcpf_facilities a"
  "bhcpf_facilities (hr_step sub a) = bhcpf_facilities a"
  "bhcpf_facilities (services_step sub a) = bhcpf_facilities a"
  "bhcpf_facilities (satisfaction_step sub a) = bhcpf_facilities a"
  by (simp_all add: categorical_step_def impact_step_def infrastructure_step_def hr_step_def
      services_step_def satisfaction_step_def Let_def split: option.splits prod.splits)

lemma bhcpf_process:
  "funding_data sub = VDict fd \<Longrightarrow>
   bhcpf_facilities (process_submission sub a) =
     bhcpf_facilities a + (if yes_or_truthy fd ''bhcpf_received'' ''has_bhcpf'' then 1 else 0)"
  by (cases fd) (simp_all add: process_submission_def funding_step_def block_items_def
      yes_or_truthy_def dict_get_def)

lemma funded_row_report:
  "\<exists>r. get_detailed_analytics [funded_row] = Inr r
      \<and> fa_bhcpf_facilities (funding_analysis r) = 1
      \<and> bhcpf_percentage (funding_analysis r) = 100
      \<and> total_facilities (report_summary r) = 1"
  by (simp add: get_detailed_analytics_def aggregate_def initial_agg_def facility_report_def
      funding_report_def infrastructure_report_def human_resources_report_def
      services_report_def satisfaction_report_def summary_report_def dist_entries_def
      percentage_of_def average_of_def faverage_of_def mean_score_def sorted_reverse_def
      stable_sort_def process_submission_def categorical_step_def funding_step_def
      funding_amount_step_def impact_step_def infrastructure_step_def hr_step_def
      services_step_def satisfaction_step_def block_items_def yes_or_truthy_def dict_get_def
      count_column_def dict_add_int_def truediv_def fdiv_int_def float_overflow_def
      complete_data_def funded_row_def facility_row_def empty_submission_def str_column_def
      round2_def round_half_even_def)

lemma funded_row_predict:
  "predict_facility_needs (to_dict funded_row) =
     Inr \<lparr>priority_level = ''medium'', predicted_needs = [''Financial support''],
          risk_factors = [''Lack of funding''],
          recommendations = [''Apply for BHCPF or IMPACT funding'']\<rparr>"
  by (simp add: predict_facility_needs_def analyze_condition_def analyze_staffing_def
      analyze_funding_def analyze_infrastructure_def funded_row_def
      facility_row_def empty_submission_def str_column_def lower_method_def
      initial_predictions_def predict_has_funding_def dict_get_def char_eval str_lower_def)

text \<open>
  Claim C9: the aggregation counts a row as BHCPF-funded when its funding block has
  \<^verbatim>\<open>bhcpf_received == "Yes"\<close> or a true \<^verbatim>\<open>has_bhcpf\<close>, while
  \<^verbatim>\<open>predict_facility_needs\<close> reports the risk factor \<^verbatim>\<open>Lack of funding\<close> unless
  \<^verbatim>\<open>bhcpf_status == "Received"\<close> or \<^verbatim>\<open>has_bhcpf\<close> is true. The row whose funding
  block is \<^verbatim>\<open>{"bhcpf_received": "Yes"}\<close> is counted as funded in the report and gets the
  risk factor from the predictor.
\<close>

theorem funding_signal_mismatch:
  "(funding_data sub = VDict fd \<longrightarrow>
      bhcpf_facilities (process_submission sub a) =
        bhcpf_facilities a
        + (if dict_get fd ''bhcpf_received'' = VStr ''Yes'' \<or> truthy (dict_get fd ''has_bhcpf'')
           then 1 else 0))
   \<and> (funding_data sub = VDict fd \<and> predict_facility_needs (to_dict sub) = Inr p \<longrightarrow>
        (''Lack of funding'' \<in> set (risk_factors p)) =
        (\<not> (dict_get fd ''bhcpf_status'' = VStr ''Received'' \<or> truthy (dict_get fd ''has_bhcpf''))))
   \<and> (\<exists>r q. get_detailed_analytics [funded_row] = Inr r
          \<and> fa_bhcpf_facilities (funding_analysis r) = 1
          \<and> total_facilities (report_summary r) = 1
          \<and> predict_facility_needs (to_dict funded_row) = Inr q
          \<and> ''Lack of funding'' \<in> set (risk_factors q))"
proof (intro conjI impI)
  assume "funding_data sub = VDict fd"
  then show "bhcpf_facilities (process_submission sub a) =
        bhcpf_facilities a
        + (if dict_get fd ''bhcpf_received'' = VStr ''Yes'' \<or> truthy (dict_get fd ''has_bhcpf'')
           then 1 else 0)"
    by (simp add: bhcpf_process yes_or_truthy_def)
next
  assume "funding_data sub = VDict fd \<and> predict_facility_needs (to_dict sub) = Inr p"
  then show "(''Lack of funding'' \<in> set (risk_factors p)) =
        (\<not> (dict_get fd ''bhcpf_status'' = VStr ''Received'' \<or> truthy (dict_get fd ''has_bhcpf'')))"
    using predict_lack_of_funding [of "to_dict sub" p fd]
    by (simp add: predict_has_funding_def)
next
  from funded_row_report funded_row_predict
  show "\<exists>r q. get_detailed_analytics [funded_row] = Inr r
          \<and> fa_bhcpf_facilities (funding_analysis r) = 1
          \<and> total_facilities (report_summary r) = 1
          \<and> predict_facility_needs (to_dict funded_row) = Inr q
          \<and> ''Lack of funding'' \<in> set (risk_factors q)"
    by auto
qed

theorem funding_signal_mismatch_witness:
  "funding_data funded_row = VDict [(''bhcpf_received'', VStr ''Yes'')]
   \<and> predict_facility_needs (to_dict funded_row) =
       Inr \<lparr>priority_level = ''medium'', predicted_needs = [''Financial support''],
          risk_factors = [''Lack of funding''],
          recommendations = [''Apply for BHCPF or IMPACT funding'']\<rparr>
   \<and> bhcpf_facilities (process_submission funded_row initial_agg) = 1"
proof -
  have fd: "funding_data funded_row = VDict [(''bhcpf_received'', VStr ''Yes'')]"
    by (simp add: funded_row_def facility_row_def empty_submission_def)
  from funding_signal_mismatch [of funded_row "[(''bhcpf_received'', VStr ''Yes'')]" initial_agg]
  have "funding_data funded_row = VDict [(''bhcpf_received'', VStr ''Yes'')] \<longrightarrow>
      bhcpf_facilities (process_submission funded_row initial_agg) =
        bhcpf_facilities initial_agg
        + (if dict_get [(''bhcpf_received'', VStr ''Yes'')] ''bhcpf_received'' = VStr ''Yes''
              \<or> truthy (dict_get [(''bhcpf_received'', VStr ''Yes'')] ''has_bhcpf'')
           then 1 else 0)"
    by blast
  with fd have "bhcpf_facilities (process_submission funded_row initial_agg) = 1"
    by (simp add: dict_get_def initial_agg_def)
  with fd funded_row_predict show ?thesis by simp
qed

subsection \<open>The text analyzer\<close>

lemma str_contains_sublist: "str_contains w s = sublist w s"
  by (induction s) (simp_all add: sublist_Cons_right)

lemma keyword_count_card:
  "distinct ws \<Longrightarrow> keyword_count ws t = card {w \<in> set ws. sublist w t}"
  by (simp add: keyword_count_def str_contains_sublist distinct_length_filter Int_def conj_commute)

lemma distinct_negative_keywords: "distinct negative_keywords"
  by (simp add: negative_keywords_def)

lemma distinct_positive_keywords: "distinct positive_keywords"
  by (simp add: positive_keywords_def)

lemma basic_sentiment:
  "sentiment (basic_text_analysis text) =
     (if keyword_count positive_keywords (str_lower text)
           < keyword_count negative_keywords (str_lower text) then ''negative''
      else if keyword_count negative_keywords (str_lower text)
           < keyword_count positive_keywords (str_lower text) then ''positive''
      else ''neutral'')"
  by (simp add: basic_text_analysis_def Let_def)

lemma basic_priority:
  "priority (basic_text_analysis text) =
     (if keyword_count positive_keywords (str_lower text)
           < keyword_count negative_keywords (str_lower text)
      then (if 3 < keyword_count negative_keywords (str_lower text) then ''high'' else ''medium'')
      else if keyword_count negative_keywords (str_lower text)
           < keyword_count positive_keywords (str_lower text) then ''low''
      else ''medium'')"
  by (simp add: basic_text_analysis_def Let_def)

lemma analyze_nonempty:
  "\<not> (issues = [] \<and> comments = []) \<Longrightarrow>
   analyze_issues_and_comments enabled issues comments =
     basic_text_analysis (str_strip (issues @ '' '' @ comments))"
  by (auto simp: analyze_issues_and_comments_def analyze_with_openai_def Let_def)

lemma four_negative_keywords:
  assumes "sublist ''broken'' t" "sublist ''urgent'' t" "sublist ''critical'' t"
    "sublist ''poor'' t"
  shows "3 < keyword_count negative_keywords t"
  using assms
  by (simp add: keyword_count_def negative_keywords_def str_contains_sublist)

lemma no_positive_keywords:
  "\<forall>w \<in> set positive_keywords. \<not> sublist w t \<Longrightarrow> keyword_count positive_keywords t = 0"
  by (simp add: keyword_count_def str_contains_sublist)

text \<open>
  Claim C5: on two empty inputs the text analyzer returns neutral sentiment, low priority
  and no topics. On any other input, with \<open>t\<close> the lower-cased combined text: if more
  negative than positive keywords occur in \<open>t\<close> as substrings, the sentiment is negative
  and the priority is high when more than three negative keywords occur and medium
  otherwise; in particular, if \<^verbatim>\<open>broken\<close>, \<^verbatim>\<open>urgent\<close>, \<^verbatim>\<open>critical\<close> and
  \<^verbatim>\<open>poor\<close> occur and no positive keyword does, the result is negative and high.
  The flag of the service makes no difference.
\<close>

theorem text_analyzer_rule:
  fixes issues comments :: string and enabled :: bool
  defines "t \<equiv> str_lower (str_strip (issues @ '' '' @ comments))"
  defines "r \<equiv> analyze_issues_and_comments enabled issues comments"
  shows "analyze_issues_and_comments enabled [] [] =
       \<lparr>sentiment = ''neutral'', topics = [], priority = ''low'', insights = [],
        summary = ''No issues or comments provided''\<rparr>
     \<and> (\<not> (issues = [] \<and> comments = [])
          \<and> card {w \<in> set positive_keywords. sublist w t}
              < card {w \<in> set negative_keywords. sublist w t}
        \<longrightarrow> sentiment r = ''negative''
            \<and> priority r = (if 3 < card {w \<in> set negative_keywords. sublist w t}
                             then ''high'' else ''medium''))
     \<and> (\<not> (issues = [] \<and> comments = [])
          \<and> sublist ''broken'' t \<and> sublist ''urgent'' t \<and> sublist ''critical'' t
          \<and> sublist ''poor'' t \<and> (\<forall>w \<in> set positive_keywords. \<not> sublist w t)
        \<longrightarrow> sentiment r = ''negative'' \<and> priority r = ''high'')"
proof (intro conjI impI)
  show "analyze_issues_and_comments enabled [] [] =
       \<lparr>sentiment = ''neutral'', topics = [], priority = ''low'', insights = [],
        summary = ''No issues or comments provided''\<rparr>"
    by (simp add: analyze_issues_and_comments_def)
next
  assume a: "\<not> (issues = [] \<and> comments = [])
          \<and> card {w \<in> set positive_keywords. sublist w t}
              < card {w \<in> set negative_keywords. sublist w t}"
  then have r: "r = basic_text_analysis (str_strip (issues @ '' '' @ comments))"
    unfolding r_def by (simp add: analyze_nonempty)
  from a have lt: "keyword_count positive_keywords t < keyword_count negative_keywords t"
    by (simp add: keyword_count_card distinct_negative_keywords distinct_positive_keywords)
  from r lt show "sentiment r = ''negative''"
    by (simp add: basic_sentiment t_def)
  from r lt show "priority r = (if 3 < card {w \<in> set negative_keywords. sublist w t}
                             then ''high'' else ''medium'')"
    by (simp add: basic_priority t_def
        keyword_count_card [OF distinct_negative_keywords, symmetric])
next
  assume a: "\<not> (issues = [] \<and> comments = [])
          \<and> sublist ''broken'' t \<and> sublist ''urgent'' t \<and> sublist ''critical'' t
          \<and> sublist ''poor'' t \<and> (\<forall>w \<in> set positive_keywords. \<not> sublist w t)"
  then have r: "r = basic_text_analysis (str_strip (issues @ '' '' @ comments))"
    unfolding r_def by (simp add: analyze_nonempty)
  from a have n: "3 < keyword_count negative_keywords t"
    by (simp add: four_negative_keywords)
  from a have p: "keyword_count positive_keywords t = 0"
    by (simp add: no_positive_keywords)
  from r n p show "sentiment r = ''negative''"
    by (simp add: basic_sentiment t_def)
  from r n p show "priority r = ''high''"
    by (simp add: basic_priority t_def)
qed


lemma report_text_lower:
  "str_lower (str_strip (''Broken roof, URGENT'' @ '' '' @ ''critical and poor state'')) =
     ''broken roof, urgent critical and poor state''"
  by (simp add: str_lower_def str_strip_def char_eval)

lemma report_text_counts:
  "keyword_count negative_keywords ''broken roof, urgent critical and poor state'' = 4"
  "keyword_count positive_keywords ''broken roof, urgent critical and poor state'' = 0"
  by (simp_all add: keyword_count_def negative_keywords_def positive_keywords_def)

theorem text_analyzer_rule_witness:
  "\<not> (''Broken roof, URGENT'' = [] \<and> ''critical and poor state'' = [])
   \<and> card {w \<in> set positive_keywords.
              sublist w ''broken roof, urgent critical and poor state''} = 0
   \<and> card {w \<in> set negative_keywords.
              sublist w ''broken roof, urgent critical and poor state''} = 4
   \<and> sublist ''broken'' ''broken roof, urgent critical and poor state''
   \<and> sublist ''urgent'' ''broken roof, urgent critical and poor state''
   \<and> sublist ''critical'' ''broken roof, urgent critical and poor state''
   \<and> sublist ''poor'' ''broken roof, urgent critical and poor state''
   \<and> filter (\<lambda>w. sublist w ''broken roof, urgent critical and poor state'')
         positive_keywords = []
   \<and> sentiment (analyze_issues_and_comments False ''Broken roof, URGENT''
         ''critical and poor state'') = ''negative''
   \<and> priority (analyze_issues_and_comments False ''Broken roof, URGENT''
         ''critical and poor state'') = ''high''"
proof -
  have cards:
    "card {w \<in> set positive_keywords.
              sublist w ''broken roof, urgent critical and poor state''} = 0"
    "card {w \<in> set negative_keywords.
              sublist w ''broken roof, urgent critical and poor state''} = 4"
    using report_text_counts
    by (simp_all add: keyword_count_card distinct_negative_keywords
        distinct_positive_keywords)
  have subs:
    "sublist ''broken'' ''broken roof, urgent critical and poor state''"
    "sublist ''urgent'' ''broken roof, urgent critical and poor state''"
    "sublist ''critical'' ''broken roof, urgent critical and poor state''"
    "sublist ''poor'' ''broken roof, urgent critical and poor state''"
    by (simp_all add: str_contains_sublist [symmetric])
  have none: "\<forall>w \<in> set positive_keywords.
         \<not> sublist w ''broken roof, urgent critical and poor state''"
    by (simp add: positive_keywords_def str_contains_sublist [symmetric])
  from text_analyzer_rule [of False "''Broken roof, URGENT''" "''critical and poor state''"]
  have "sentiment (analyze_issues_and_comments False ''Broken roof, URGENT''
         ''critical and poor state'') = ''negative''
    \<and> priority (analyze_issues_and_comments False ''Broken roof, URGENT''
         ''critical and poor state'') = ''high''"
    unfolding report_text_lower using subs none by blast
  moreover from none
  have "filter (\<lambda>w. sublist w ''broken roof, urgent critical and poor state'')
         positive_keywords = []"
    by (simp add: filter_empty_conv)
  ultimately show ?thesis using cards subs by simp
qed

subsection \<open>What each block of the loop body leaves unchanged\<close>

lemma categorical_step_frame [simp]:
  "bhcpf_facilities (categorical_step sub a) = bhcpf_facilities a"
  "impact_facilities (categorical_step sub a) = impact_facilities a"
  "total_funding_amount (categorical_step sub a) = total_funding_amount a"
  "funding_by_state (categorical_step sub a) = funding_by_state a"
  "infra_stats (categorical_step sub a) = infra_stats a"
  "total_staff (categorical_step sub a) = total_staff a"
  "staff_by_type (categorical_step sub a) = staff_by_type a"
  "facilities_with_staff (categorical_step sub a) = facilities_with_staff a"
  "total_patients (categorical_step sub a) = total_patients a"
  "services_offered (categorical_step sub a) = services_offered a"
  "satisfaction_scores (categorical_step sub a) = satisfaction_scores a"
  "satisfaction_by_category (categorical_step sub a) = satisfaction_by_category a"
  by (simp_all add: categorical_step_def Let_def split: option.splits prod.splits sum.splits)

lemma funding_step_frame [simp]:
  "condition_counts (funding_step sub a) = condition_counts a"
  "ownership_counts (funding_step sub a) = ownership_counts a"
  "assessment_type_counts (funding_step sub a) = assessment_type_counts a"
  "has_health_workers_counts (funding_step sub a) = has_health_workers_counts a"
  "impact_facilities (funding_step sub a) = impact_facilities a"
  "infra_stats (funding_step sub a) = infra_stats a"
  "total_staff (funding_step sub a) = total_staff a"
  "staff_by_type (funding_step sub a) = staff_by_type a"
  "facilities_with_staff (funding_step sub a) = facilities_with_staff a"
  "total_patients (funding_step sub a) = total_patients a"
  "services_offered (funding_step sub a) = services_offered a"
  "satisfaction_scores (funding_step sub a) = satisfaction_scores a"
  "satisfaction_by_category (funding_step sub a) = satisfaction_by_category a"
  "zone_counts (funding_step sub a) = zone_counts a"
  by (simp_all add: funding_step_def funding_amount_step_def Let_def split: option.splits prod.splits sum.splits)

lemma impact_step_frame [simp]:
  "condition_counts (impact_step sub a) = condition_counts a"
  "ownership_counts (impact_step sub a) = ownership_counts a"
  "assessment_type_counts (impact_step sub a) = assessment_type_counts a"
  "has_health_workers_counts (impact_step sub a) = has_health_workers_counts a"
  "bhcpf_facilities (impact_step sub a) = bhcpf_facilities a"
  "total_funding_amount (impact_step sub a) = total_funding_amount a"
  "funding_by_state (impact_step sub a) = funding_by_state a"
  "infra_stats (impact_step sub a) = infra_stats a"
  "total_staff (impact_step sub a) = total_staff a"
  "staff_by_type (impact_step sub a) = staff_by_type a"
  "facilities_with_staff (impact_step sub a) = facilities_with_staff a"
  "total_patients (impact_step sub a) = total_patients a"
  "services_offered (impact_step sub a) = services_offered a"
  "satisfaction_scores (impact_step sub a) = satisfaction_scores a"
  "satisfaction_by_category (impact_step sub a) = satisfaction_by_category a"
  "zone_counts (impact_step sub a) = zone_counts a"
  by (simp_all add: impact_step_def Let_def split: option.splits prod.splits sum.splits)

lemma infrastructure_step_frame [simp]:
  "condition_counts (infrastructure_step sub a) = condition_counts a"
  "ownership_counts (infrastructure_step sub a) = ownership_counts a"
  "assessment_type_counts (infrastructure_step sub a) = assessment_type_counts a"
  "has_health_workers_counts (infrastructure_step sub a) = has_health_workers_counts a"
  "bhcpf_facilities (infrastructure_step sub a) = bhcpf_facilities a"
  "impact_facilities (infrastructure_step sub a) = impact_facilities a"
  "total_funding_amount (infrastructure_step sub a) = total_funding_amount a"
  "funding_by_state (infrastructure_step sub a) = funding_by_state a"
  "total_staff (infrastructure_step sub a) = total_staff a"
  "staff_by_type (infrastructure_step sub a) = staff_by_type a"
  "facilities_with_staff (infrastructure_step sub a) = facilities_with_staff a"
  "total_patients (infrastructure_step sub a) = total_patients a"
  "services_offered (infrastructure_step sub a) = services_offered a"
  "satisfaction_scores (infrastructure_step sub a) = satisfaction_scores a"
  "satisfaction_by_category (infrastructure_step sub a) = satisfaction_by_category a"
  "zone_counts (infrastructure_step sub a) = zone_counts a"
  by (simp_all add: infrastructure_step_def Let_def split: option.splits prod.splits sum.splits)

lemma hr_step_frame [simp]:
  "condition_counts (hr_step sub a) = condition_counts a"
  "ownership_counts (hr_step sub a) = ownership_counts a"
  "assessment_type_counts (hr_step sub a) = assessment_type_counts a"
  "has_health_workers_counts (hr_step sub a) = has_health_workers_counts a"
  "bhcpf_facilities (hr_step sub a) = bhcpf_facilities a"
  "impact_facilities (hr_step sub a) = impact_facilities a"
  "total_funding_amount (hr_step sub a) = total_funding_amount a"
  "funding_by_state (hr_step sub a) = funding_by_state a"
  "infra_stats (hr_step sub a) = infra_stats a"
  "total_patients (hr_step sub a) = total_patients a"
  "services_offered (hr_step sub a) = services_offered a"
  "satisfaction_scores (hr_step sub a) = satisfaction_scores a"
  "satisfaction_by_category (hr_step sub a) = satisfaction_by_category a"
  "zone_counts (hr_step sub a) = zone_counts a"
  by (simp_all add: hr_step_def Let_def split: option.splits prod.splits sum.splits)

lemma services_step_frame [simp]:
  "condition_counts (services_step sub a) = condition_counts a"
  "ownership_counts (services_step sub a) = ownership_counts a"
  "assessment_type_counts (services_step sub a) = assessment_type_counts a"
  "has_health_workers_counts (services_step sub a) = has_health_workers_counts a"
  "bhcpf_facilities (services_step sub a) = bhcpf_facilities a"
  "impact_facilities (services_step sub a) = impact_facilities a"
  "total_funding_amount (services_step sub a) = total_funding_amount a"
  "funding_by_state (services_step sub a) = funding_by_state a"
  "infra_stats (services_step sub a) = infra_stats a"
  "total_staff (services_step sub a) = total_staff a"
  "staff_by_type (services_step sub a) = staff_by_type a"
  "facilities_with_staff (services_step sub a) = facilities_with_staff a"
  "satisfaction_scores (services_step sub a) = satisfaction_scores a"
  "satisfaction_by_category (services_step sub a) = satisfaction_by_category a"
  "zone_counts (services_step sub a) = zone_counts a"
  by (simp_all add: services_step_def Let_def split: option.splits prod.splits sum.splits)

lemma satisfaction_step_frame [simp]:
  "condition_counts (satisfaction_step sub a) = condition_counts a"
  "ownership_counts (satisfaction_step sub a) = ownership_counts a"
  "assessment_type_counts (satisfaction_step sub a) = assessment_type_counts a"
  "has_health_workers_counts (satisfaction_step sub a) = has_health_workers_counts a"
  "bhcpf_facilities (satisfaction_step sub a) = bhcpf_facilities a"
  "impact_facilities (satisfaction_step sub a) = impact_facilities a"
  "total_funding_amount (satisfaction_step sub a) = total_funding_amount a"
  "funding_by_state (satisfaction_step sub a) = funding_by_state a"
  "infra_stats (satisfaction_step sub a) = infra_stats a"
  "total_staff (satisfaction_step sub a) = total_staff a"
  "staff_by_type (satisfaction_step sub a) = staff_by_type a"
  "facilities_with_staff (satisfaction_step sub a) = facilities_with_staff a"
  "total_patients (satisfaction_step sub a) = total_patients a"
  "services_offered (satisfaction_step sub a) = services_offered a"
  "zone_counts (satisfaction_step sub a) = zone_counts a"
  by (simp_all add: satisfaction_step_def Let_def split: option.splits prod.splits sum.splits)

subsection \<open>The report in closed form\<close>

lemma percentage_of_Inr:
  "percentage_of v n = Inr p \<Longrightarrow>
   p = round2 (if 0 < n then of_int v / of_int n * 100 else 0)"
  by (auto simp: percentage_of_def truediv_def bindE_def split: if_splits)

lemma mapE_Inr_D: "mapE f xs = Inr ys \<Longrightarrow> list_all2 (\<lambda>x y. f x = Inr y) xs ys"
  by (induction xs arbitrary: ys) (auto simp: bindE_def split: sum.splits)

lemma report_sections:
  assumes "get_detailed_analytics submissions = Inr r"
  shows "facility_report (int (length submissions)) (aggregate submissions)
           = Inr (facility_analysis r)"
    and "funding_report (int (length submissions)) (aggregate submissions)
           = Inr (funding_analysis r)"
    and "infrastructure_report (int (length submissions)) (aggregate submissions)
           = Inr (infrastructure_analysis r)"
    and "human_resources_report (aggregate submissions) = Inr (human_resources_analysis r)"
    and "services_report (int (length submissions)) (aggregate submissions)
           = Inr (services_utilization r)"
    and "satisfaction_report (aggregate submissions) = Inr (patient_satisfaction r)"
    and "summary_report submissions = Inr (report_summary r)"
  using assms
  by (auto simp: get_detailed_analytics_def Let_def bindE_def split: sum.splits)

subsection \<open>Accumulating dictionaries\<close>

lemma map_of_dict_update_same: "map_of (dict_update k f d) k = Some (f (map_of d k))"
  by (induction d) auto

lemma map_of_dict_update_other: "k' \<noteq> k \<Longrightarrow> map_of (dict_update k f d) k' = map_of d k'"
  by (induction d) auto

lemma values_dict_update:
  assumes "x \<in> set (dict_update k f d)"
  shows "x \<in> set d \<or> snd x = f None \<or> (\<exists>y \<in> set d. snd x = f (Some (snd y)))"
  using assms by (induction d) (auto split: if_splits)

lemma aggregate_snoc:
  "aggregate (submissions @ [sub]) = process_submission sub (aggregate submissions)"
  by (simp add: aggregate_def)

lemma aggregate_append:
  "aggregate (xs @ ys) = foldl (\<lambda>a sub. process_submission sub a) (aggregate xs) ys"
  by (simp add: aggregate_def)

subsection \<open>The funding amount\<close>

lemma funding_fields_process:
  "total_funding_amount (process_submission sub a) = total_funding_amount (funding_step sub a)"
  "funding_by_state (process_submission sub a) = funding_by_state (funding_step sub a)"
  by (simp_all add: process_submission_def funding_step_def funding_amount_step_def
      categorical_step_def Let_def split: option.splits sum.splits)

text \<open>The funding totals after a row depend on the funding totals before it only.\<close>

lemma funding_fields_cong:
  assumes "total_funding_amount a = total_funding_amount b"
    and "funding_by_state a = funding_by_state b"
  shows "total_funding_amount (process_submission sub a)
           = total_funding_amount (process_submission sub b)
         \<and> funding_by_state (process_submission sub a)
           = funding_by_state (process_submission sub b)"
  using assms
  by (simp add: funding_fields_process funding_step_def funding_amount_step_def Let_def
      split: option.splits sum.splits)

lemma funding_fields_foldl:
  assumes "total_funding_amount a = total_funding_amount b"
    and "funding_by_state a = funding_by_state b"
  shows "total_funding_amount (foldl (\<lambda>a sub. process_submission sub a) a rows)
           = total_funding_amount (foldl (\<lambda>a sub. process_submission sub a) b rows)
         \<and> funding_by_state (foldl (\<lambda>a sub. process_submission sub a) a rows)
           = funding_by_state (foldl (\<lambda>a sub. process_submission sub a) b rows)"
  using assms
proof (induction rows arbitrary: a b)
  case Nil
  then show ?case by simp
next
  case (Cons sub rows)
  from funding_fields_cong [OF Cons.prems, of sub]
  have "total_funding_amount (process_submission sub a)
          = total_funding_amount (process_submission sub b)"
    and "funding_by_state (process_submission sub a)
          = funding_by_state (process_submission sub b)"
    by simp_all
  from Cons.IH [OF this] show ?case by simp
qed

subsection \<open>The text of an integer reads back as the integer\<close>

lemma is_digit_digit_char: "d < 10 \<Longrightarrow> is_digit (digit_char d)"
  by (simp add: is_digit_def digit_char_def)

lemma digit_val_digit_char: "d < 10 \<Longrightarrow> digit_val (digit_char d) = d"
  by (simp add: digit_val_def digit_char_def)

lemma str_nat_digits: "list_all is_digit (str_nat n)"
  by (induction n rule: str_nat.induct) (subst str_nat.simps, simp add: is_digit_digit_char)

lemma str_nat_nonempty: "str_nat n \<noteq> []"
  by (subst str_nat.simps) simp

lemma is_digit_not_underscore: "is_digit c \<Longrightarrow> c \<noteq> CHR ''_''"
  by (auto simp: is_digit_def)

lemma digitpart_digits: "xs \<noteq> [] \<Longrightarrow> list_all is_digit xs \<Longrightarrow> digitpart xs"
  by (induction xs rule: digitpart.induct) (auto dest: is_digit_not_underscore)

lemma digits_value_str_nat: "digits_value (str_nat n) = n"
proof (induction n rule: str_nat.induct)
  case (1 n)
  show ?case
  proof (cases "n < 10")
    case True
    then show ?thesis
      by (subst str_nat.simps)
        (simp add: digits_value_def digit_val_digit_char is_digit_not_underscore
          is_digit_digit_char)
  next
    case False
    with 1 have IH: "digits_value (str_nat (n div 10)) = n div 10" by simp
    have d: "list_all is_digit (str_nat (n div 10))" by (rule str_nat_digits)
    have "digits_value (str_nat (n div 10) @ [digit_char (n mod 10)])
            = digits_value (str_nat (n div 10)) * 10 + n mod 10"
      by (simp add: digits_value_def digit_val_digit_char is_digit_not_underscore
          is_digit_digit_char)
    with IH False show ?thesis
      by (subst str_nat.simps) simp
  qed
qed

lemma is_digit_facts:
  assumes "is_digit c"
  shows "\<not> is_number_space c" "c \<noteq> CHR '',''" "c \<noteq> CHR ''-''" "c \<noteq> CHR ''+''"
    "c \<noteq> CHR ''.''" "c \<noteq> CHR ''e''" "c \<noteq> CHR ''E''" "lower_char c = c"
    "c \<noteq> CHR ''i''" "c \<noteq> CHR ''n''"
  using assms
  by (auto simp: is_digit_def is_number_space_def lower_char_def is_upper_def Let_def)

lemma dropWhile_none: "\<forall>c \<in> set xs. \<not> P c \<Longrightarrow> dropWhile P xs = xs"
  by (cases xs) auto

lemma number_strip_none:
  assumes "\<forall>c \<in> set xs. \<not> is_number_space c"
  shows "number_strip xs = xs"
proof -
  from assms have "dropWhile is_number_space xs = xs" by (rule dropWhile_none)
  moreover from assms have "dropWhile is_number_space (rev xs) = rev xs"
    by (intro dropWhile_none) simp
  ultimately show ?thesis by (simp add: number_strip_def)
qed

lemma number_strip_digits:
  assumes "list_all is_digit xs"
  shows "number_strip xs = xs" "number_strip (CHR ''-'' # xs) = CHR ''-'' # xs"
proof -
  have m: "\<not> is_number_space CHR ''-''" by (simp add: is_number_space_def)
  from assms have d: "\<forall>c \<in> set xs. \<not> is_number_space c"
    by (auto simp: list_all_iff dest: is_digit_facts(1))
  from d show "number_strip xs = xs" by (rule number_strip_none)
  from d m show "number_strip (CHR ''-'' # xs) = CHR ''-'' # xs"
    by (intro number_strip_none) simp
qed

lemma split_at_char_none:
  assumes "\<forall>c \<in> set xs. \<not> p c"
  shows "split_at_char p xs = (xs, None)"
proof -
  from assms have d: "dropWhile (\<lambda>c. \<not> p c) xs = []" by simp
  show ?thesis unfolding split_at_char_def d by simp
qed

lemma str_replace_digits:
  "list_all (\<lambda>c. c \<noteq> a) xs \<Longrightarrow> str_replace a [] xs = xs"
  by (induction xs) (simp_all add: str_replace_def)

lemma str_replace_filter: "str_replace a [] xs = filter (\<lambda>c. c \<noteq> a) xs"
  by (induction xs) (simp_all add: str_replace_def)

lemma float_of_digits:
  assumes "list_all is_digit xs" and "xs \<noteq> []"
  shows "float_of_str xs = Inr (to_float (of_nat (digits_value xs)))"
    and "float_of_str (CHR ''-'' # xs) = Inr (to_float (- of_nat (digits_value xs)))"
proof -
  from assms obtain c cs where xs: "xs = c # cs" by (cases xs) auto
  with assms have c: "is_digit c" by simp
  have sign: "take_sign xs = (False, xs)" "take_sign (CHR ''-'' # xs) = (True, xs)"
    using c by (simp_all add: xs is_digit_facts)
  have low: "str_lower xs = xs"
    using assms(1) by (induction xs) (simp_all add: str_lower_def is_digit_facts)
  have names: "xs \<noteq> ''inf''" "xs \<noteq> ''infinity''" "xs \<noteq> ''nan''"
    using c by (auto simp: xs is_digit_facts)
  have e: "split_at_char (\<lambda>c. c = CHR ''e'' \<or> c = CHR ''E'') xs = (xs, None)"
    using assms(1) by (intro split_at_char_none) (auto simp: list_all_iff is_digit_facts)
  have "split_at_char (\<lambda>c. c = CHR ''.'') xs = (xs, None)"
    using assms(1) by (intro split_at_char_none) (auto simp: list_all_iff is_digit_facts)
  then have m: "mantissa_of xs = Some (digits_value xs, 0)"
    by (simp add: mantissa_of_def digitpart_digits [OF assms(2,1)])
  have ex: "exponent_of None = Some 0" by (simp add: exponent_of_def)
  show "float_of_str xs = Inr (to_float (of_nat (digits_value xs)))"
    by (simp add: float_of_str_def number_strip_digits [OF assms(1)] sign low names e m ex
        pow10_def)
  show "float_of_str (CHR ''-'' # xs) = Inr (to_float (- of_nat (digits_value xs)))"
    by (simp add: float_of_str_def number_strip_digits [OF assms(1)] sign low names e m ex
        pow10_def)
qed

lemma float_of_str_int: "float_of_str (str_int n) = Inr (to_float (of_int n))"
proof (cases "n < 0")
  case True
  then have "rat_of_nat (nat (- n)) = - of_int n"
    by (metis of_int_minus of_int_of_nat_eq nat_0_le neg_0_le_iff_le less_imp_le)
  with True float_of_digits(2) [OF str_nat_digits str_nat_nonempty, of "nat (- n)"]
  show ?thesis by (simp add: str_int_def digits_value_str_nat)
next
  case False
  then have "rat_of_nat (nat n) = of_int n"
    by (metis of_int_of_nat_eq nat_0_le not_less)
  with False float_of_digits(1) [OF str_nat_digits str_nat_nonempty, of "nat n"]
  show ?thesis by (simp add: str_int_def digits_value_str_nat)
qed

lemma str_int_no_comma: "str_replace (CHR '','') [] (str_int n) = str_int n"
proof -
  have "list_all (\<lambda>c. c \<noteq> CHR '','') (str_nat k)" for k
    using str_nat_digits [of k] by (auto simp: list_all_iff is_digit_facts)
  then show ?thesis by (simp add: str_int_def str_replace_digits)
qed

lemma parse_amount_int:
  "parse_amount (VInt n) =
     (if max_str_digits < length (str_nat (nat \<bar>n\<bar>)) then Inl ValueError
      else Inr (to_float (of_int n)))"
  by (simp add: parse_amount_def str_of_int_def str_int_no_comma float_of_str_int)

lemma parse_amount_str:
  "parse_amount (VStr s) = float_of_str (filter (\<lambda>c. c \<noteq> CHR '','') s)"
  by (simp add: parse_amount_def str_replace_filter)

lemma parse_amount_other:
  "parse_amount (VFloat x) = Inr x"
  "parse_amount (VBool b) = Inl ValueError"
  "parse_amount VNone = Inl ValueError"
  "parse_amount (VList xs) = Inl ValueError"
  "parse_amount (VDict kvs) = Inl ValueError"
  by (simp_all add: parse_amount_def str_eval)

subsection \<open>The coercion of an amount\<close>

lemma amount_12500: "parse_amount (VStr ''12,500'') = Inr (Fin 12500)"
  by (simp add: parse_amount_def str_eval)

lemma amount_not_a_number: "parse_amount (VStr ''not-a-number'') = Inl ValueError"
  by (simp add: parse_amount_def str_eval)

lemma funding_step_amount:
  assumes "funding_data sub = VDict fd" and "map_of fd ''amount'' = Some v" and "truthy v"
  shows "total_funding_amount (funding_step sub a) =
           (case parse_amount v of Inl e \<Rightarrow> total_funding_amount a
            | Inr x \<Rightarrow> fadd (total_funding_amount a) x)"
    and "funding_by_state (funding_step sub a) =
           (case parse_amount v of Inl e \<Rightarrow> funding_by_state a
            | Inr x \<Rightarrow> (case state sub of None \<Rightarrow> funding_by_state a
                | Some st \<Rightarrow> if st \<noteq> [] then dict_add_float st x (funding_by_state a)
                             else funding_by_state a))"
  using assms
  by (auto simp: funding_step_def funding_amount_step_def block_items_def dict_get_def
      dict_get_default_def Let_def split: option.splits sum.splits)

lemma funding_step_no_amount:
  assumes "funding_data sub = VDict fd" and "map_of fd ''amount'' = Some v"
    and "\<not> truthy v"
  shows "total_funding_amount (funding_step sub a) = total_funding_amount a"
    and "funding_by_state (funding_step sub a) = funding_by_state a"
  using assms
  by (auto simp: funding_step_def funding_amount_step_def block_items_def dict_get_def
      split: option.splits)

text \<open>
  Claim C6. Let the funding block of a row have the key \<^verbatim>\<open>amount\<close> with value
  \<open>v\<close>. When \<open>v\<close> is true and \<^verbatim>\<open>float(str(v).replace(',', ''))\<close> is a float
  \<open>x\<close>, the row adds \<open>x\<close> to the running total and, when the row has a state, to that
  state's accumulator, which starts at 0; no other state's accumulator changes. When
  \<open>v\<close> is false or the coercion raises, the row changes neither, and the totals of the
  whole scan are those of the scan without the row: the records after it are processed.
  The coercion reads a string without its commas, gives the float of an integer of at most
  \<open>max_str_digits\<close> digits, returns a float as it is, and raises ValueError on the
  text of a truth value, of a list and of a dictionary. The string
  \<^verbatim>\<open>"12,500"\<close> is the float 12500.0 and \<^verbatim>\<open>"not-a-number"\<close> raises ValueError
  inside the \<^verbatim>\<open>try\<close>.
\<close>

theorem funding_amount_parsing:
  assumes "funding_data sub = VDict fd" and "map_of fd ''amount'' = Some v"
  shows
    "(truthy v \<longrightarrow>
        total_funding_amount (process_submission sub a)
          = (case parse_amount v of Inl e \<Rightarrow> total_funding_amount a
             | Inr x \<Rightarrow> fadd (total_funding_amount a) x)
        \<and> funding_by_state (process_submission sub a)
          = (case parse_amount v of Inl e \<Rightarrow> funding_by_state a
             | Inr x \<Rightarrow> (case state sub of None \<Rightarrow> funding_by_state a
                 | Some st \<Rightarrow> if st \<noteq> [] then dict_add_float st x (funding_by_state a)
                              else funding_by_state a)))
     \<and> (\<forall>x st. truthy v \<and> parse_amount v = Inr x \<and> state sub = Some st \<and> st \<noteq> [] \<longrightarrow>
          map_of (funding_by_state (process_submission sub a)) st
            = Some (fadd (case map_of (funding_by_state a) st of
                            None \<Rightarrow> Fin 0 | Some y \<Rightarrow> y) x)
          \<and> (\<forall>st'. st' \<noteq> st \<longrightarrow>
                map_of (funding_by_state (process_submission sub a)) st'
                  = map_of (funding_by_state a) st'))
     \<and> (\<not> truthy v \<or> isl (parse_amount v) \<longrightarrow>
          total_funding_amount (process_submission sub a) = total_funding_amount a
          \<and> funding_by_state (process_submission sub a) = funding_by_state a
          \<and> total_funding_amount (aggregate (before @ sub # after))
              = total_funding_amount (aggregate (before @ after))
          \<and> funding_by_state (aggregate (before @ sub # after))
              = funding_by_state (aggregate (before @ after)))
     \<and> (\<forall>s. v = VStr s \<longrightarrow>
          parse_amount v = float_of_str (filter (\<lambda>c. c \<noteq> CHR '','') s))
     \<and> (\<forall>n. v = VInt n \<longrightarrow>
          parse_amount v =
            (if max_str_digits < length (str_nat (nat \<bar>n\<bar>)) then Inl ValueError
             else Inr (to_float (of_int n))))
     \<and> (\<forall>x. v = VFloat x \<longrightarrow> parse_amount v = Inr x)
     \<and> ((\<exists>b. v = VBool b) \<or> (\<exists>xs. v = VList xs) \<or> (\<exists>kvs. v = VDict kvs) \<longrightarrow>
          parse_amount v = Inl ValueError)
     \<and> (v = VStr ''12,500'' \<longrightarrow>
          parse_amount v = Inr (Fin 12500)
          \<and> total_funding_amount (process_submission sub a)
              = fadd (total_funding_amount a) (Fin 12500)
          \<and> (\<forall>st. state sub = Some st \<and> st \<noteq> [] \<longrightarrow>
                funding_by_state (process_submission sub a)
                  = dict_add_float st (Fin 12500) (funding_by_state a)))
     \<and> (v = VStr ''not-a-number'' \<longrightarrow>
          parse_amount v = Inl ValueError
          \<and> total_funding_amount (process_submission sub a) = total_funding_amount a
          \<and> funding_by_state (process_submission sub a) = funding_by_state a)"
proof -
  have step: "total_funding_amount (process_submission sub a)
          = (case parse_amount v of Inl e \<Rightarrow> total_funding_amount a
             | Inr x \<Rightarrow> fadd (total_funding_amount a) x)"
    "funding_by_state (process_submission sub a)
          = (case parse_amount v of Inl e \<Rightarrow> funding_by_state a
             | Inr x \<Rightarrow> (case state sub of None \<Rightarrow> funding_by_state a
                 | Some st \<Rightarrow> if st \<noteq> [] then dict_add_float st x (funding_by_state a)
                              else funding_by_state a))"
    if "truthy v" for a
    using funding_step_amount [OF assms that, of a] by (simp_all add: funding_fields_process)
  have skip: "total_funding_amount (process_submission sub a) = total_funding_amount a"
    "funding_by_state (process_submission sub a) = funding_by_state a"
    if "\<not> truthy v \<or> isl (parse_amount v)" for a
  proof -
    show "total_funding_amount (process_submission sub a) = total_funding_amount a"
    proof (cases "truthy v")
      case True
      with that obtain e where "parse_amount v = Inl e" by (cases "parse_amount v") auto
      with step(1) [OF True, of a] show ?thesis by simp
    next
      case False
      from funding_step_no_amount(1) [OF assms False, of a]
      show ?thesis by (simp add: funding_fields_process)
    qed
    show "funding_by_state (process_submission sub a) = funding_by_state a"
    proof (cases "truthy v")
      case True
      with that obtain e where "parse_amount v = Inl e" by (cases "parse_amount v") auto
      with step(2) [OF True, of a] show ?thesis by simp
    next
      case False
      from funding_step_no_amount(2) [OF assms False, of a]
      show ?thesis by (simp add: funding_fields_process)
    qed
  qed
  have scan: "total_funding_amount (aggregate (before @ sub # after))
              = total_funding_amount (aggregate (before @ after))"
    "funding_by_state (aggregate (before @ sub # after))
              = funding_by_state (aggregate (before @ after))"
    if "\<not> truthy v \<or> isl (parse_amount v)"
    using funding_fields_foldl [OF skip [OF that, of "aggregate before"], of after]
    by (simp_all add: aggregate_def)
  have state: "map_of (funding_by_state (process_submission sub a)) st
            = Some (fadd (case map_of (funding_by_state a) st of
                            None \<Rightarrow> Fin 0 | Some y \<Rightarrow> y) x)
          \<and> (\<forall>st'. st' \<noteq> st \<longrightarrow>
                map_of (funding_by_state (process_submission sub a)) st'
                  = map_of (funding_by_state a) st')"
    if "truthy v \<and> parse_amount v = Inr x \<and> state sub = Some st \<and> st \<noteq> []" for x st
    using step(2) [of a] that
    by (simp add: dict_add_float_def map_of_dict_update_same map_of_dict_update_other)
  have good: "parse_amount v = Inr (Fin 12500)
          \<and> total_funding_amount (process_submission sub a)
              = fadd (total_funding_amount a) (Fin 12500)
          \<and> (\<forall>st. state sub = Some st \<and> st \<noteq> [] \<longrightarrow>
                funding_by_state (process_submission sub a)
                  = dict_add_float st (Fin 12500) (funding_by_state a))"
    if "v = VStr ''12,500''"
    using step [of a] that by (simp add: amount_12500)
  have bad: "parse_amount v = Inl ValueError
          \<and> total_funding_amount (process_submission sub a) = total_funding_amount a
          \<and> funding_by_state (process_submission sub a) = funding_by_state a"
    if "v = VStr ''not-a-number''"
    using step [of a] that by (simp add: amount_not_a_number)
  from step [of a] state skip [of a] scan good bad show ?thesis
    by (auto simp: parse_amount_str parse_amount_int parse_amount_other)
qed

lemmas step_defs = process_submission_def categorical_step_def funding_step_def
  funding_amount_step_def impact_step_def infrastructure_step_def hr_step_def
  services_step_def satisfaction_step_def block_items_def yes_or_truthy_def dict_get_def
  dict_get_default_def count_column_def dict_add_int_def dict_add_float_def dict_append_def
  infra_update_def

lemma amount_rows_total:
  "total_funding_amount (aggregate [amount_row, amount_row]) = Fin 25000"
  "funding_by_state (aggregate [amount_row, amount_row]) = [(''Kano'', Fin 25000)]"
  by (simp_all add: aggregate_def initial_agg_def step_defs amount_row_def facility_row_def
      empty_submission_def parse_amount_def str_eval)

theorem funding_amount_parsing_witness:
  "funding_data amount_row = VDict [(''amount'', VStr ''12,500'')]
   \<and> funding_data bad_amount_row = VDict [(''amount'', VStr ''not-a-number'')]
   \<and> funding_data poor_staffed_row = VDict [(''amount'', VInt 5)]
   \<and> state amount_row = Some ''Kano''
   \<and> state poor_staffed_row = Some ''Kano''
   \<and> total_funding_amount (process_submission amount_row initial_agg) = Fin 12500
   \<and> funding_by_state (process_submission amount_row initial_agg) = [(''Kano'', Fin 12500)]
   \<and> total_funding_amount (process_submission bad_amount_row initial_agg) = Fin 0
   \<and> funding_by_state (process_submission bad_amount_row initial_agg) = []
   \<and> total_funding_amount (aggregate [amount_row, bad_amount_row, amount_row]) = Fin 25000
   \<and> funding_by_state (aggregate [amount_row, bad_amount_row, amount_row])
        = [(''Kano'', Fin 25000)]
   \<and> total_funding_amount (process_submission poor_staffed_row initial_agg) = Fin 5
   \<and> funding_by_state (process_submission poor_staffed_row initial_agg) = [(''Kano'', Fin 5)]
   \<and> parse_amount (VStr ''1,234.5'') = Inr (Fin (2469 / 2))
   \<and> parse_amount (VStr ''1e400'') = Inr PInf
   \<and> parse_amount (VStr ''nan'') = Inr NaN
   \<and> parse_amount (VStr '' 7 '') = Inr (Fin 7)"
proof -
  have f1: "funding_data amount_row = VDict [(''amount'', VStr ''12,500'')]"
    and f2: "funding_data bad_amount_row = VDict [(''amount'', VStr ''not-a-number'')]"
    and f3: "funding_data poor_staffed_row = VDict [(''amount'', VInt 5)]"
    and st: "state amount_row = Some ''Kano''" "state poor_staffed_row = Some ''Kano''"
    by (simp_all add: amount_row_def bad_amount_row_def poor_staffed_row_def poor_row_def
        facility_row_def empty_submission_def)
  have m1: "map_of [(''amount'', VStr ''12,500'')] ''amount'' = Some (VStr ''12,500'')"
    and m2: "map_of [(''amount'', VStr ''not-a-number'')] ''amount''
               = Some (VStr ''not-a-number'')"
    and m3: "map_of [(''amount'', VInt 5)] ''amount'' = Some (VInt 5)"
    by simp_all
  have five: "\<not> max_str_digits < length (str_nat (nat \<bar>5\<bar>))" "to_float 5 = Fin 5"
    by (simp_all add: max_str_digits_def str_nat.simps to_float_def float_overflow_def)
  from funding_amount_parsing [OF f1 m1, of initial_agg "[]" "[]"] st
  have good: "total_funding_amount (process_submission amount_row initial_agg) = Fin 12500"
    "funding_by_state (process_submission amount_row initial_agg) = [(''Kano'', Fin 12500)]"
    by (simp_all add: initial_agg_def dict_add_float_def to_float_def float_overflow_def
        amount_12500)
  from funding_amount_parsing [OF f2 m2, of initial_agg "[amount_row]" "[amount_row]"]
  have bad: "total_funding_amount (process_submission bad_amount_row initial_agg) = Fin 0"
    "funding_by_state (process_submission bad_amount_row initial_agg) = []"
    "total_funding_amount (aggregate [amount_row, bad_amount_row, amount_row]) = Fin 25000"
    "funding_by_state (aggregate [amount_row, bad_amount_row, amount_row])
        = [(''Kano'', Fin 25000)]"
    by (simp_all add: initial_agg_def amount_rows_total amount_not_a_number)
  from funding_amount_parsing [OF f3 m3, of initial_agg "[]" "[]"] st five
  have int: "total_funding_amount (process_submission poor_staffed_row initial_agg) = Fin 5"
    "funding_by_state (process_submission poor_staffed_row initial_agg) = [(''Kano'', Fin 5)]"
    by (simp_all add: initial_agg_def dict_add_float_def to_float_def float_overflow_def)
  have readings: "parse_amount (VStr ''1,234.5'') = Inr (Fin (2469 / 2))"
    "parse_amount (VStr ''1e400'') = Inr PInf"
    "parse_amount (VStr ''nan'') = Inr NaN"
    "parse_amount (VStr '' 7 '') = Inr (Fin 7)"
    by (simp_all add: parse_amount_def str_eval)
  from f1 f2 f3 st good bad int readings show ?thesis by simp
qed

subsection \<open>Staff counts\<close>

lemma hr_items_contributions:
  "hr_items d (c, by_type) =
     (c + sum_list (map snd (staff_contributions d)),
      foldl (\<lambda>m (k, n). dict_add_int k n m) by_type (staff_contributions d))"
  by (induction d arbitrary: c by_type) (auto split: sum.splits)

lemma hr_step_fields:
  "staff_by_type (hr_step sub a) =
     (case block_items (human_resources_data sub) of
        None \<Rightarrow> staff_by_type a
      | Some d \<Rightarrow> foldl (\<lambda>m (k, n). dict_add_int k n m) (staff_by_type a)
                   (staff_contributions d))"
  "total_staff (hr_step sub a) =
     (case block_items (human_resources_data sub) of
        None \<Rightarrow> total_staff a
      | Some d \<Rightarrow> total_staff a
          + (if 0 < sum_list (map snd (staff_contributions d))
             then sum_list (map snd (staff_contributions d)) else 0))"
  "facilities_with_staff (hr_step sub a) =
     (case block_items (human_resources_data sub) of
        None \<Rightarrow> facilities_with_staff a
      | Some d \<Rightarrow> facilities_with_staff a
          + (if 0 < sum_list (map snd (staff_contributions d)) then 1 else 0))"
  by (simp_all add: hr_step_def hr_items_contributions Let_def split: option.splits)

lemma staff_fields_process:
  "staff_by_type (process_submission sub a) = staff_by_type (hr_step sub a)"
  "total_staff (process_submission sub a) = total_staff (hr_step sub a)"
  "facilities_with_staff (process_submission sub a) = facilities_with_staff (hr_step sub a)"
  by (simp_all add: process_submission_def hr_step_fields split: option.splits)

text \<open>
  Claim C7, amended. In a row with a human-resources block, every key with a staff,
  personnel or worker marker whose value parses adds its parsed count (the first
  whitespace-delimited token of a string) to the accumulator of its display name. The
  counts of the row are added to the total-staff accumulator only when their sum is
  positive; when no count of the row is negative, the total grows by their sum. The key
  \<^verbatim>\<open>nurse_staff_count\<close> with the value \<^verbatim>\<open>12 nurses\<close> contributes 12.
\<close>

theorem staff_extraction:
  assumes "human_resources_data sub = VDict d"
  shows "staff_by_type (process_submission sub a)
           = foldl (\<lambda>m (k, n). dict_add_int k n m) (staff_by_type a) (staff_contributions d)
     \<and> total_staff (process_submission sub a)
           = total_staff a + (if 0 < sum_list (map snd (staff_contributions d))
                              then sum_list (map snd (staff_contributions d)) else 0)
     \<and> ((\<forall>c \<in> set (staff_contributions d). 0 \<le> snd c) \<longrightarrow>
          total_staff (process_submission sub a)
            = total_staff a + sum_list (map snd (staff_contributions d)))
     \<and> staff_contributions [(''nurse_staff_count'', VStr ''12 nurses'')]
           = [(''Nurse Staff Count'', 12)]"
proof -
  have b: "block_items (human_resources_data sub) = (if d \<noteq> [] then Some d else None)"
    using assms by (simp add: block_items_def)
  have 1: "staff_by_type (process_submission sub a)
           = foldl (\<lambda>m (k, n). dict_add_int k n m) (staff_by_type a) (staff_contributions d)"
    by (cases d) (simp_all add: staff_fields_process hr_step_fields b)
  have 2: "total_staff (process_submission sub a)
           = total_staff a + (if 0 < sum_list (map snd (staff_contributions d))
                              then sum_list (map snd (staff_contributions d)) else 0)"
    by (cases d) (simp_all add: staff_fields_process hr_step_fields b)
  have 3: "total_staff (process_submission sub a)
            = total_staff a + sum_list (map snd (staff_contributions d))"
    if "\<forall>c \<in> set (staff_contributions d). 0 \<le> snd c"
  proof -
    from that have "0 \<le> sum_list (map snd (staff_contributions d))"
      by (auto intro!: sum_list_nonneg)
    with 2 show ?thesis by simp
  qed
  have 4: "staff_contributions [(''nurse_staff_count'', VStr ''12 nurses'')]
           = [(''Nurse Staff Count'', 12)]"
    by (simp add: hr_marker_def parse_count_def str_eval)
  from 1 2 3 4 show ?thesis by blast
qed

text \<open>
  The claim as it is written fails on a row whose only staff key has the value
  \<^verbatim>\<open>-3\<close>: the per-type accumulator receives -3, the total-staff accumulator
  receives nothing, because of the guard \<^verbatim>\<open>if facility_staff_count > 0\<close>.
\<close>

theorem staff_total_counterexample:
  "human_resources_data negative_staff_row = VDict [(''x_staff'', VStr ''-3'')]
   \<and> hr_marker ''x_staff'' \<and> parse_count (VStr ''-3'') = Inr (- 3)
   \<and> staff_by_type (process_submission negative_staff_row initial_agg) = [(''X Staff'', - 3)]
   \<and> total_staff (process_submission negative_staff_row initial_agg) = total_staff initial_agg
   \<and> total_staff (process_submission negative_staff_row initial_agg)
        \<noteq> total_staff initial_agg + (- 3)"
  by (simp add: negative_staff_row_def facility_row_def empty_submission_def
      staff_fields_process hr_step_fields block_items_def hr_marker_def parse_count_def
      dict_add_int_def initial_agg_def str_eval)

theorem staff_extraction_witness:
  "human_resources_data nurses_row = VDict [(''nurse_staff_count'', VStr ''12 nurses'')]
   \<and> list_all (\<lambda>c. 0 \<le> snd c)
        (staff_contributions [(''nurse_staff_count'', VStr ''12 nurses'')])
   \<and> staff_by_type (process_submission nurses_row initial_agg) = [(''Nurse Staff Count'', 12)]
   \<and> total_staff (process_submission nurses_row initial_agg) = 12"
proof -
  have h: "human_resources_data nurses_row = VDict [(''nurse_staff_count'', VStr ''12 nurses'')]"
    by (simp add: nurses_row_def facility_row_def empty_submission_def)
  have c: "staff_contributions [(''nurse_staff_count'', VStr ''12 nurses'')]
           = [(''Nurse Staff Count'', 12)]"
    by (simp add: hr_marker_def parse_count_def str_eval)
  note r = staff_extraction [OF h, of initial_agg, unfolded c]
  from r have s: "staff_by_type (process_submission nurses_row initial_agg)
      = [(''Nurse Staff Count'', 12)]"
    by (simp add: initial_agg_def dict_add_int_def)
  from r have t: "total_staff (process_submission nurses_row initial_agg) = 12"
    by (simp add: initial_agg_def)
  from h s t show ?thesis unfolding c by simp
qed

subsection \<open>The sort\<close>

lemma set_insert_by [simp]: "set (insert_by lt key x ys) = insert x (set ys)"
  by (induction ys) auto

lemma stable_sort_simps [simp]:
  "stable_sort lt key [] = []"
  "stable_sort lt key (x # xs) = insert_by lt key x (stable_sort lt key xs)"
  by (simp_all add: stable_sort_def)

lemma set_stable_sort [simp]: "set (stable_sort lt key xs) = set xs"
  by (induction xs) simp_all

lemma length_insert_by [simp]: "length (insert_by lt key x ys) = Suc (length ys)"
  by (induction ys) auto

lemma length_sorted_reverse [simp]: "length (sorted_reverse lt key xs) = length xs"
proof -
  have "length (stable_sort lt key zs) = length zs" for zs
    by (induction zs) simp_all
  then show ?thesis by (simp add: sorted_reverse_def)
qed

lemma set_sorted_reverse [simp]: "set (sorted_reverse lt key xs) = set xs"
  by (simp add: sorted_reverse_def)

text \<open>Stability needs no more than \<^verbatim>\<open>x < x\<close> being false.\<close>

lemma filter_insert_by:
  assumes "\<And>k. \<not> lt k k"
  shows "filter (\<lambda>y. key y = v) (insert_by lt key x ys) =
           (if key x = v then x # filter (\<lambda>y. key y = v) ys
            else filter (\<lambda>y. key y = v) ys)"
  using assms by (induction ys) auto

lemma filter_stable_sort:
  assumes "\<And>k. \<not> lt k k"
  shows "filter (\<lambda>y. key y = v) (stable_sort lt key xs) = filter (\<lambda>y. key y = v) xs"
  by (induction xs) (simp_all add: filter_insert_by [OF assms])

lemma filter_sorted_reverse:
  assumes "\<And>k. \<not> lt k k"
  shows "filter (\<lambda>y. key y = v) (sorted_reverse lt key xs) = filter (\<lambda>y. key y = v) xs"
  by (simp add: sorted_reverse_def rev_filter [symmetric] filter_stable_sort [OF assms])

lemma insert_by_ascending:
  assumes ord: "strict_total_on K lt"
    and x: "key x \<in> K" and ys: "\<forall>y \<in> set ys. key y \<in> K"
    and sorted: "sorted_wrt (\<lambda>a b. \<not> lt (key b) (key a)) ys"
  shows "sorted_wrt (\<lambda>a b. \<not> lt (key b) (key a)) (insert_by lt key x ys)"
  using ys sorted
proof (induction ys)
  case Nil
  then show ?case by simp
next
  case (Cons y ys)
  from ord have asym: "\<And>a b. a \<in> K \<Longrightarrow> b \<in> K \<Longrightarrow> lt a b \<Longrightarrow> \<not> lt b a"
    and trans: "\<And>a b c. a \<in> K \<Longrightarrow> b \<in> K \<Longrightarrow> c \<in> K \<Longrightarrow> lt a b \<Longrightarrow> lt b c \<Longrightarrow> lt a c"
    and total: "\<And>a b. a \<in> K \<Longrightarrow> b \<in> K \<Longrightarrow> lt a b \<or> a = b \<or> lt b a"
    unfolding strict_total_on_def by blast+
  from Cons.prems have y: "key y \<in> K" and ysK: "\<forall>z \<in> set ys. key z \<in> K"
    and tail: "sorted_wrt (\<lambda>a b. \<not> lt (key b) (key a)) ys"
    and head: "\<forall>z \<in> set ys. \<not> lt (key z) (key y)"
    by simp_all
  show ?case
  proof (cases "lt (key y) (key x)")
    case True
    with asym [OF y x] have "\<not> lt (key x) (key y)" by blast
    with True head Cons.IH [OF ysK tail] show ?thesis by simp
  next
    case False
    have "\<not> lt (key z) (key x)" if z: "z \<in> set ys" for z
    proof
      assume zx: "lt (key z) (key x)"
      from z ysK have zK: "key z \<in> K" by blast
      from z head have nzy: "\<not> lt (key z) (key y)" by blast
      from total [OF y x] False have "key y = key x \<or> lt (key x) (key y)" by blast
      then show False
      proof
        assume "key y = key x"
        with zx nzy show False by simp
      next
        assume "lt (key x) (key y)"
        from trans [OF zK x y zx this] nzy show False by blast
      qed
    qed
    with False Cons.prems show ?thesis by simp
  qed
qed

lemma stable_sort_ascending:
  assumes "strict_total_on K lt" and "\<forall>y \<in> set xs. key y \<in> K"
  shows "sorted_wrt (\<lambda>a b. \<not> lt (key b) (key a)) (stable_sort lt key xs)"
  using assms(2)
proof (induction xs)
  case Nil
  then show ?case by simp
next
  case (Cons x xs)
  then have "sorted_wrt (\<lambda>a b. \<not> lt (key b) (key a)) (stable_sort lt key xs)"
    by simp
  from insert_by_ascending [OF assms(1) _ _ this, of x] Cons.prems
  show ?case by simp
qed

lemma sorted_reverse_descending:
  assumes "strict_total_on K lt" and "\<forall>y \<in> set xs. key y \<in> K"
  shows "sorted_wrt (\<lambda>a b. \<not> lt (key a) (key b)) (sorted_reverse lt key xs)"
  using stable_sort_ascending [OF assms(1), of "rev xs" key] assms(2)
  by (simp add: sorted_reverse_def sorted_wrt_rev)

lemma int_less_total: "strict_total_on UNIV ((<) :: int \<Rightarrow> int \<Rightarrow> bool)"
  by (auto simp: strict_total_on_def)

lemma flt_total: "strict_total_on {x. x \<noteq> NaN} flt"
  unfolding strict_total_on_def
proof (intro conjI ballI impI)
  fix a b assume "a \<in> {x. x \<noteq> NaN}" "b \<in> {x. x \<noteq> NaN}" "flt a b"
  then show "\<not> flt b a" by (cases a; cases b) auto
next
  fix a b c
  assume "a \<in> {x. x \<noteq> NaN}" "b \<in> {x. x \<noteq> NaN}" "c \<in> {x. x \<noteq> NaN}" "flt a b" "flt b c"
  then show "flt a c" by (cases a; cases b; cases c) auto
next
  fix a b assume "a \<in> {x. x \<noteq> NaN}" "b \<in> {x. x \<noteq> NaN}"
  then show "flt a b \<or> a = b \<or> flt b a" by (cases a; cases b) auto
qed

lemma flt_irrefl: "\<not> flt k k"
  by (cases k) auto

lemma not_flt_fle: "a \<noteq> NaN \<Longrightarrow> b \<noteq> NaN \<Longrightarrow> (\<not> flt a b) = fle b a"
  by (cases a; cases b) auto

lemma sorted_reverse_int:
  "sorted_wrt (\<lambda>x y. snd y \<le> snd x) (sorted_reverse (<) snd (xs :: ('a \<times> int) list))"
  using sorted_reverse_descending [OF int_less_total, of xs snd]
  by (simp add: not_less)

lemma sorted_reverse_float:
  assumes "\<forall>x \<in> set xs. snd x \<noteq> NaN"
  shows "sorted_wrt (\<lambda>x y. fle (snd y) (snd x)) (sorted_reverse flt snd xs)"
proof -
  from sorted_reverse_descending [OF flt_total, of xs snd] assms
  have "sorted_wrt (\<lambda>a b. \<not> flt (snd a) (snd b)) (sorted_reverse flt snd xs)" by simp
  then show ?thesis
    using assms by (rule_tac sorted_wrt_mono_rel) (auto simp: not_flt_fle)
qed

lemma round_half_even_mono:
  assumes "x \<le> y"
  shows "round_half_even x \<le> round_half_even y"
proof -
  have fl: "\<lfloor>x\<rfloor> \<le> \<lfloor>y\<rfloor>" using assms by (rule floor_mono)
  have lo: "\<lfloor>x\<rfloor> \<le> round_half_even x" "\<lfloor>y\<rfloor> \<le> round_half_even y"
    and hi: "round_half_even x \<le> \<lfloor>x\<rfloor> + 1" "round_half_even y \<le> \<lfloor>y\<rfloor> + 1"
    by (simp_all add: round_half_even_def Let_def)
  show ?thesis
  proof (cases "\<lfloor>x\<rfloor> = \<lfloor>y\<rfloor>")
    case True
    with assms have "x - of_int \<lfloor>x\<rfloor> \<le> y - of_int \<lfloor>y\<rfloor>" by simp
    with True show ?thesis by (auto simp: round_half_even_def Let_def)
  next
    case False
    with fl have "\<lfloor>x\<rfloor> + 1 \<le> \<lfloor>y\<rfloor>" by simp
    with lo hi show ?thesis by linarith
  qed
qed

lemma round2_mono: "x \<le> y \<Longrightarrow> round2 x \<le> round2 y"
  by (simp add: round2_def round_half_even_mono divide_right_mono)

lemma fround2_mono: "fle a b \<Longrightarrow> fle (fround2 a) (fround2 b)"
  by (cases a; cases b) (auto simp: round2_mono)

subsection \<open>The ranked lists of the report\<close>

lemma funding_report_by_state:
  "funding_report n a = Inr x \<Longrightarrow>
   fa_funding_by_state x =
     map (\<lambda>(k, v). (k, fround2 v)) (take 10 (sorted_reverse flt snd (funding_by_state a)))"
  by (auto simp: funding_report_def bindE_def split: sum.splits)

lemma human_resources_report_by_type:
  "human_resources_report a = Inr x \<Longrightarrow>
   hr_staff_by_type x = take 10 (sorted_reverse (<) snd (staff_by_type a))"
  by (auto simp: human_resources_report_def bindE_def split: sum.splits)

lemma services_report_top:
  assumes "services_report n a = Inr x"
  shows "top_services_offered x =
     map (\<lambda>(k, v). \<lparr>se_service = k, se_facilities = v,
            se_percentage = round2 (if 0 < n then of_int v / of_int n * 100 else 0)\<rparr>)
       (take 10 (sorted_reverse (<) snd (services_offered a)))"
proof -
  let ?top = "take 10 (sorted_reverse (<) snd (services_offered a))"
  from assms have "mapE (\<lambda>(k, v). bindE (percentage_of v n)
                    (\<lambda>p. Inr \<lparr>se_service = k, se_facilities = v, se_percentage = p\<rparr>)) ?top
                   = Inr (top_services_offered x)"
    by (auto simp: services_report_def bindE_def split: sum.splits)
  from mapE_Inr_D [OF this]
  have "list_all2 (\<lambda>x y. y = (case x of (k, v) \<Rightarrow> \<lparr>se_service = k, se_facilities = v,
            se_percentage = round2 (if 0 < n then of_int v / of_int n * 100 else 0)\<rparr>))
          ?top (top_services_offered x)"
    by (rule list_all2_mono)
      (auto simp: bindE_def split: sum.splits dest!: percentage_of_Inr)
  then show ?thesis
    by (induction rule: list_all2_induct) simp_all
qed

lemma report_funding_by_state:
  assumes "get_detailed_analytics submissions = Inr r"
  shows "fa_funding_by_state (funding_analysis r) =
           map (\<lambda>(k, v). (k, fround2 v))
             (take 10 (sorted_reverse flt snd (funding_by_state (aggregate submissions))))"
  using report_sections(2) [OF assms] by (rule funding_report_by_state)

lemma report_staff_by_type:
  assumes "get_detailed_analytics submissions = Inr r"
  shows "hr_staff_by_type (human_resources_analysis r) =
           take 10 (sorted_reverse (<) snd (staff_by_type (aggregate submissions)))"
  using report_sections(4) [OF assms] by (rule human_resources_report_by_type)

lemma report_top_services:
  assumes "get_detailed_analytics submissions = Inr r"
  shows "top_services_offered (services_utilization r) =
           map (\<lambda>(k, v). \<lparr>se_service = k, se_facilities = v,
                  se_percentage = round2 (if 0 < int (length submissions)
                     then of_int v / of_int (int (length submissions)) * 100 else 0)\<rparr>)
             (take 10 (sorted_reverse (<) snd (services_offered (aggregate submissions))))"
  using report_sections(5) [OF assms] by (rule services_report_top)

subsection \<open>The accumulators of finite amounts\<close>

lemma fadd_finite_not_NaN: "y \<noteq> NaN \<Longrightarrow> finite_float x \<Longrightarrow> fadd y x \<noteq> NaN"
  by (cases y; cases x) (simp_all add: to_float_def)

lemma dict_add_float_not_NaN:
  assumes "\<forall>e \<in> set d. snd e \<noteq> NaN" and "finite_float x"
  shows "\<forall>e \<in> set (dict_add_float k x d). snd e \<noteq> NaN"
proof
  fix e assume "e \<in> set (dict_add_float k x d)"
  from values_dict_update [OF this [unfolded dict_add_float_def]]
  show "snd e \<noteq> NaN"
    using assms fadd_finite_not_NaN [OF _ assms(2)] by auto
qed

lemma funding_step_not_NaN:
  assumes "finite_amount sub" and "\<forall>e \<in> set (funding_by_state a). snd e \<noteq> NaN"
  shows "\<forall>e \<in> set (funding_by_state (process_submission sub a)). snd e \<noteq> NaN"
proof (cases "block_items (funding_data sub)")
  case None
  with assms(2) show ?thesis by (simp add: funding_fields_process funding_step_def)
next
  case (Some fd)
  show ?thesis
  proof (cases "truthy (dict_get fd ''amount'')")
    case False
    with Some assms(2) show ?thesis
      by (simp add: funding_fields_process funding_step_def funding_amount_step_def)
  next
    case True
    then have same: "dict_get_default fd ''amount'' (VInt 0) = dict_get fd ''amount''"
      by (auto simp: dict_get_def dict_get_default_def split: option.splits)
    show ?thesis
    proof (cases "parse_amount (dict_get fd ''amount'')")
      case (Inl e)
      with Some True same assms(2) show ?thesis
        by (simp add: funding_fields_process funding_step_def funding_amount_step_def)
    next
      case (Inr x)
      with assms(1) Some have x: "finite_float x" by (simp add: finite_amount_def)
      from dict_add_float_not_NaN [OF assms(2) x]
      show ?thesis
        using Some True same Inr assms(2)
        by (simp add: funding_fields_process funding_step_def funding_amount_step_def Let_def
            split: option.splits)
    qed
  qed
qed

lemma funding_by_state_not_NaN:
  assumes "\<forall>sub \<in> set submissions. finite_amount sub"
  shows "\<forall>e \<in> set (funding_by_state (aggregate submissions)). snd e \<noteq> NaN"
  using assms
proof (induction submissions rule: rev_induct)
  case Nil
  show ?case by (simp add: aggregate_def initial_agg_def)
next
  case (snoc sub submissions)
  then have "finite_amount sub"
    and "\<forall>e \<in> set (funding_by_state (aggregate submissions)). snd e \<noteq> NaN"
    by simp_all
  from funding_step_not_NaN [OF this] show ?case by (simp add: aggregate_snoc)
qed

subsection \<open>The top-10 lists\<close>

text \<open>
  Claim C8, amended. In every report each of the three top-10 lists has at most 10
  entries. The staff and the services lists are the first ten entries of a ranking of the
  whole accumulator that is in descending order of the count and in which entries with
  the same count keep their order of first encounter. When every amount that reads as a
  float is finite, the same holds of the funding list and the accumulated amounts, and
  the rounded amounts of the report are in descending order.
\<close>

theorem top_lists_ranked:
  assumes "get_detailed_analytics submissions = Inr r"
  shows
    "length (fa_funding_by_state (funding_analysis r)) \<le> 10
     \<and> length (hr_staff_by_type (human_resources_analysis r)) \<le> 10
     \<and> length (top_services_offered (services_utilization r)) \<le> 10
     \<and> sorted_wrt (\<lambda>x y. snd y \<le> snd x) (hr_staff_by_type (human_resources_analysis r))
     \<and> sorted_wrt (\<lambda>x y. se_facilities y \<le> se_facilities x)
          (top_services_offered (services_utilization r))
     \<and> (\<exists>ranked. hr_staff_by_type (human_resources_analysis r) = take 10 ranked
           \<and> sorted_wrt (\<lambda>x y. snd y \<le> snd x) ranked
           \<and> (\<forall>v. filter (\<lambda>x. snd x = v) ranked
                  = filter (\<lambda>x. snd x = v) (staff_by_type (aggregate submissions))))
     \<and> (\<exists>ranked. map (\<lambda>e. (se_service e, se_facilities e))
             (top_services_offered (services_utilization r)) = take 10 ranked
           \<and> sorted_wrt (\<lambda>x y. snd y \<le> snd x) ranked
           \<and> (\<forall>v. filter (\<lambda>x. snd x = v) ranked
                  = filter (\<lambda>x. snd x = v) (services_offered (aggregate submissions))))
     \<and> ((\<forall>sub \<in> set submissions. finite_amount sub) \<longrightarrow>
          (\<exists>ranked. fa_funding_by_state (funding_analysis r)
               = map (\<lambda>(k, v). (k, fround2 v)) (take 10 ranked)
             \<and> sorted_wrt (\<lambda>x y. fle (snd y) (snd x)) ranked
             \<and> (\<forall>v. filter (\<lambda>x. snd x = v) ranked
                    = filter (\<lambda>x. snd x = v) (funding_by_state (aggregate submissions))))
          \<and> sorted_wrt (\<lambda>x y. fle (snd y) (snd x))
               (fa_funding_by_state (funding_analysis r)))"
proof -
  let ?a = "aggregate submissions"
  let ?staff = "sorted_reverse (<) snd (staff_by_type ?a)"
  let ?serv = "sorted_reverse (<) snd (services_offered ?a)"
  let ?fund = "sorted_reverse flt snd (funding_by_state ?a)"
  note f = report_funding_by_state [OF assms]
  note s = report_staff_by_type [OF assms]
  note t = report_top_services [OF assms]
  have len: "length (fa_funding_by_state (funding_analysis r)) \<le> 10"
    "length (hr_staff_by_type (human_resources_analysis r)) \<le> 10"
    "length (top_services_offered (services_utilization r)) \<le> 10"
    by (simp_all add: f s t)
  have staff_sorted: "sorted_wrt (\<lambda>x y. snd y \<le> snd x) ?staff"
    and serv_sorted: "sorted_wrt (\<lambda>x y. snd y \<le> snd x) ?serv"
    by (rule sorted_reverse_int)+
  have staff_stable: "\<forall>v. filter (\<lambda>x. snd x = v) ?staff
                  = filter (\<lambda>x. snd x = v) (staff_by_type ?a)"
    and serv_stable: "\<forall>v. filter (\<lambda>x. snd x = v) ?serv
                  = filter (\<lambda>x. snd x = v) (services_offered ?a)"
    by (simp_all add: filter_sorted_reverse)
  have fund_stable: "\<forall>v. filter (\<lambda>x. snd x = v) ?fund
                  = filter (\<lambda>x. snd x = v) (funding_by_state ?a)"
    by (simp add: filter_sorted_reverse flt_irrefl)
  have out_staff: "sorted_wrt (\<lambda>x y. snd y \<le> snd x)
      (hr_staff_by_type (human_resources_analysis r))"
    by (simp add: s staff_sorted)
  have serv_pairs: "map (\<lambda>e. (se_service e, se_facilities e))
             (top_services_offered (services_utilization r)) = take 10 ?serv"
    by (simp add: t case_prod_beta o_def)
  have out_serv: "sorted_wrt (\<lambda>x y. se_facilities y \<le> se_facilities x)
          (top_services_offered (services_utilization r))"
  proof -
    from serv_sorted have "sorted_wrt (\<lambda>x y. snd y \<le> snd x) (take 10 ?serv)" by simp
    then show ?thesis
      by (simp add: t sorted_wrt_map case_prod_beta)
  qed
  have fund: "(\<exists>ranked. fa_funding_by_state (funding_analysis r)
               = map (\<lambda>(k, v). (k, fround2 v)) (take 10 ranked)
             \<and> sorted_wrt (\<lambda>x y. fle (snd y) (snd x)) ranked
             \<and> (\<forall>v. filter (\<lambda>x. snd x = v) ranked
                    = filter (\<lambda>x. snd x = v) (funding_by_state (aggregate submissions))))
          \<and> sorted_wrt (\<lambda>x y. fle (snd y) (snd x))
               (fa_funding_by_state (funding_analysis r))"
    if finite: "\<forall>sub \<in> set submissions. finite_amount sub"
  proof -
    from finite have "\<forall>x \<in> set (funding_by_state ?a). snd x \<noteq> NaN"
      by (rule funding_by_state_not_NaN)
    then have fund_sorted: "sorted_wrt (\<lambda>x y. fle (snd y) (snd x)) ?fund"
      by (rule sorted_reverse_float)
    then have "sorted_wrt (\<lambda>x y. fle (snd y) (snd x)) (take 10 ?fund)" by simp
    then have "sorted_wrt (\<lambda>x y. fle (fround2 (snd y)) (fround2 (snd x))) (take 10 ?fund)"
      by (rule sorted_wrt_mono_rel [rotated]) (simp add: fround2_mono)
    then have "sorted_wrt (\<lambda>x y. fle (snd y) (snd x))
               (fa_funding_by_state (funding_analysis r))"
      by (simp add: f sorted_wrt_map case_prod_beta)
    with f fund_sorted fund_stable show ?thesis by blast
  qed
  from len out_staff out_serv s staff_sorted staff_stable serv_pairs serv_sorted serv_stable
    fund
  show ?thesis by blast
qed

lemmas report_defs = get_detailed_analytics_def facility_report_def
  funding_report_def infrastructure_report_def human_resources_report_def
  services_report_def satisfaction_report_def summary_report_def dist_entries_def
  percentage_of_def average_of_def faverage_of_def mean_score_def sorted_reverse_def
  stable_sort_def truediv_def fdiv_int_def float_overflow_def complete_data_def
  round2_def round_half_even_def fsum_def

lemma ranking_rows_aggregate:
  "funding_by_state (aggregate ranking_rows) = [(''Kano'', Fin 12500), (''Lagos'', Fin 30000)]"
  "staff_by_type (aggregate ranking_rows) = [(''Doctor Staff'', 3), (''Nurse Staff'', 7)]"
  by (simp_all add: ranking_rows_def amount_row_def lagos_row_def aggregate_def
      initial_agg_def step_defs facility_row_def empty_submission_def parse_amount_def
      parse_count_def hr_marker_def patient_marker_def is_offered_def str_eval)

lemma ranking_rows_report:
  "\<exists>r. get_detailed_analytics ranking_rows = Inr r
      \<and> fa_funding_by_state (funding_analysis r)
           = [(''Lagos'', Fin 30000), (''Kano'', Fin 12500)]
      \<and> hr_staff_by_type (human_resources_analysis r)
           = [(''Nurse Staff'', 7), (''Doctor Staff'', 3)]"
  by (simp add: report_defs ranking_rows_def amount_row_def lagos_row_def aggregate_def
      initial_agg_def step_defs facility_row_def empty_submission_def str_column_def
      parse_amount_def parse_count_def hr_marker_def patient_marker_def is_offered_def
      str_eval)

lemma ranking_rows_finite: "\<forall>sub \<in> set ranking_rows. finite_amount sub"
  by (simp add: ranking_rows_def amount_row_def lagos_row_def finite_amount_def
      block_items_def dict_get_def facility_row_def empty_submission_def parse_amount_def
      str_eval)

theorem top_lists_ranked_witness:
  "funding_by_state (aggregate ranking_rows) = [(''Kano'', Fin 12500), (''Lagos'', Fin 30000)]
   \<and> list_all finite_amount ranking_rows
   \<and> (\<exists>r. get_detailed_analytics ranking_rows = Inr r
        \<and> fa_funding_by_state (funding_analysis r)
            = [(''Lagos'', Fin 30000), (''Kano'', Fin 12500)]
        \<and> hr_staff_by_type (human_resources_analysis r)
            = [(''Nurse Staff'', 7), (''Doctor Staff'', 3)]
        \<and> sorted_wrt (\<lambda>x y. fle (snd y) (snd x)) (fa_funding_by_state (funding_analysis r))
        \<and> sorted_wrt (\<lambda>x y. snd y \<le> snd x) (hr_staff_by_type (human_resources_analysis r)))"
proof -
  from ranking_rows_report obtain r where r: "get_detailed_analytics ranking_rows = Inr r"
    and lists: "fa_funding_by_state (funding_analysis r)
            = [(''Lagos'', Fin 30000), (''Kano'', Fin 12500)]"
      "hr_staff_by_type (human_resources_analysis r)
            = [(''Nurse Staff'', 7), (''Doctor Staff'', 3)]"
    by blast
  from top_lists_ranked [OF r] ranking_rows_finite
  have sorted: "sorted_wrt (\<lambda>x y. fle (snd y) (snd x)) (fa_funding_by_state (funding_analysis r))"
    "sorted_wrt (\<lambda>x y. snd y \<le> snd x) (hr_staff_by_type (human_resources_analysis r))"
    by blast+
  from ranking_rows_finite have "list_all finite_amount ranking_rows"
    by (simp add: list_all_iff)
  with r sorted lists ranking_rows_aggregate(1) show ?thesis by blast
qed

lemma nan_rows_report:
  "\<exists>r. get_detailed_analytics nan_rows = Inr r
      \<and> fa_funding_by_state (funding_analysis r)
           = [(''Abia'', Fin 1), (''Bauchi'', NaN), (''Cross River'', Fin 2)]"
  by (simp add: report_defs nan_rows_def aggregate_def initial_agg_def step_defs
      facility_row_def empty_submission_def str_column_def parse_amount_def str_eval)

lemma nan_rows_aggregate:
  "funding_by_state (aggregate nan_rows) =
     [(''Abia'', Fin 1), (''Bauchi'', NaN), (''Cross River'', Fin 2)]"
  by (simp add: nan_rows_def aggregate_def initial_agg_def step_defs facility_row_def
      empty_submission_def parse_amount_def str_eval)

lemma nan_rows_not_finite: "\<not> list_all finite_amount nan_rows"
  by (simp add: nan_rows_def finite_amount_def block_items_def dict_get_def facility_row_def
      empty_submission_def parse_amount_def str_eval)

lemma NaN_entry_unsorted:
  assumes "2 \<le> length ys" and "e \<in> set ys" and "snd e = NaN"
  shows "\<not> sorted_wrt (\<lambda>x y. fle (snd y) (snd x)) ys"
proof
  assume sorted: "sorted_wrt (\<lambda>x y. fle (snd y) (snd x)) ys"
  from assms(2) obtain i where i: "i < length ys" "ys ! i = e"
    by (auto simp: in_set_conv_nth)
  from assms(1) i(1) obtain j where j: "j < length ys" "j \<noteq> i"
    by (cases "i = 0") (auto intro: that [of 1] that [of 0])
  show False
  proof (cases "i < j")
    case True
    from sorted_wrt_nth_less [OF sorted True j(1)] i(2) assms(3)
    show False by (cases "snd (ys ! j)") simp_all
  next
    case False
    with j(2) have "j < i" by simp
    from sorted_wrt_nth_less [OF sorted this i(1)] i(2) assms(3)
    show False by simp
  qed
qed

text \<open>
  The claim as it is written fails when an amount is the text \<^verbatim>\<open>nan\<close>, which
  \<^verbatim>\<open>float\<close> accepts. Every comparison with NaN is false: no arrangement of two or
  more entries that holds the entry of Bauchi is in descending order, whatever the sort
  does. On these three rows the sort leaves the states in their order of encounter, and 1
  stands before 2. (The interpreter returns the same list for
  \<^verbatim>\<open>sorted([("Abia", 1.0), ("Bauchi", nan), ("Cross River", 2.0)],
  key=lambda x: x[1], reverse=True)\<close>.)
\<close>

theorem nan_amount_counterexample:
  "(\<exists>r. get_detailed_analytics nan_rows = Inr r
        \<and> fa_funding_by_state (funding_analysis r)
            = [(''Abia'', Fin 1), (''Bauchi'', NaN), (''Cross River'', Fin 2)]
        \<and> \<not> sorted_wrt (\<lambda>x y. fle (snd y) (snd x))
              (fa_funding_by_state (funding_analysis r)))
   \<and> funding_by_state (aggregate nan_rows)
       = [(''Abia'', Fin 1), (''Bauchi'', NaN), (''Cross River'', Fin 2)]
   \<and> \<not> (\<exists>ys. 2 \<le> length ys \<and> (''Bauchi'', NaN) \<in> set ys
            \<and> sorted_wrt (\<lambda>x y. fle (snd y) (snd x)) ys)
   \<and> \<not> list_all finite_amount nan_rows
   \<and> flt (Fin 1) (Fin 2)"
proof -
  from nan_rows_report obtain r where r: "get_detailed_analytics nan_rows = Inr r"
    "fa_funding_by_state (funding_analysis r)
       = [(''Abia'', Fin 1), (''Bauchi'', NaN), (''Cross River'', Fin 2)]"
    by blast
  then have 1: "\<exists>r. get_detailed_analytics nan_rows = Inr r
        \<and> fa_funding_by_state (funding_analysis r)
            = [(''Abia'', Fin 1), (''Bauchi'', NaN), (''Cross River'', Fin 2)]
        \<and> \<not> sorted_wrt (\<lambda>x y. fle (snd y) (snd x))
              (fa_funding_by_state (funding_analysis r))"
    by simp
  have 2: "\<not> (\<exists>ys. 2 \<le> length ys \<and> (''Bauchi'', NaN) \<in> set ys
            \<and> sorted_wrt (\<lambda>x y. fle (snd y) (snd x)) ys)"
    using NaN_entry_unsorted [of _ "(''Bauchi'', NaN)"] by auto
  from 1 2 nan_rows_aggregate nan_rows_not_finite show ?thesis by simp
qed

subsection \<open>Bounds on the accumulators\<close>

lemma block_items_block_of:
  "block_items v = (if block_of v \<noteq> [] then Some (block_of v) else None)"
  by (cases v) (simp_all add: block_items_def block_of_def)

lemma dict_add_int_lower:
  assumes "\<forall>x \<in> set d. 0 \<le> snd x" and "0 \<le> n"
  shows "\<forall>x \<in> set (dict_add_int k n d). 0 \<le> snd x"
proof
  fix x assume "x \<in> set (dict_add_int k n d)"
  from values_dict_update [OF this [unfolded dict_add_int_def]] assms
  show "0 \<le> snd x" by auto
qed

lemma dict_add_int_upper:
  assumes "\<forall>x \<in> set d. snd x \<le> m" and "0 \<le> m"
  shows "\<forall>x \<in> set (dict_add_int k 1 d). snd x \<le> m + 1"
proof
  fix x assume "x \<in> set (dict_add_int k 1 d)"
  from values_dict_update [OF this [unfolded dict_add_int_def]] assms
  show "snd x \<le> m + 1" by auto
qed

lemma count_column_bounds:
  assumes "\<forall>x \<in> set d. 0 \<le> snd x \<and> snd x \<le> m" and "0 \<le> m"
  shows "\<forall>x \<in> set (count_column c d). 0 \<le> snd x \<and> snd x \<le> m + 1"
proof (cases "\<exists>v. c = Some v \<and> v \<noteq> []")
  case True
  then obtain v where c: "c = Some v" "v \<noteq> []" by blast
  from assms have "\<forall>x \<in> set d. 0 \<le> snd x" "\<forall>x \<in> set d. snd x \<le> m" by auto
  from dict_add_int_lower [OF this(1), of 1 v] dict_add_int_upper [OF this(2) assms(2), of v]
  show ?thesis by (simp add: count_column_def c)
next
  case False
  then have "count_column c d = d" by (cases c) (auto simp: count_column_def)
  with assms show ?thesis by auto
qed

lemma categorical_fields_process:
  "condition_counts (process_submission sub a)
     = count_column (facility_condition sub) (condition_counts a)"
  "ownership_counts (process_submission sub a)
     = count_column (ownership_type sub) (ownership_counts a)"
  "assessment_type_counts (process_submission sub a)
     = count_column (assessment_type sub) (assessment_type_counts a)"
  "has_health_workers_counts (process_submission sub a)
     = count_column (has_health_workers sub) (has_health_workers_counts a)"
  "zone_counts (process_submission sub a)
     = count_column (geopolitical_zone sub) (zone_counts a)"
  by (simp_all add: process_submission_def categorical_step_def)

lemma yes_or_truthy_Nil [simp]: "yes_or_truthy [] k k' = False"
  by (simp add: yes_or_truthy_def dict_get_def)

lemma infra_update_Nil [simp]: "infra_update [] i = i"
  by (simp add: infra_update_def)

lemma counter_fields_process:
  "bhcpf_facilities (process_submission sub a) =
     bhcpf_facilities a
     + (if yes_or_truthy (block_of (funding_data sub)) ''bhcpf_received'' ''has_bhcpf''
        then 1 else 0)"
  "impact_facilities (process_submission sub a) =
     impact_facilities a
     + (if yes_or_truthy (block_of (impact_funding_data sub)) ''received''
          ''has_impact_funding'' then 1 else 0)"
  "infra_stats (process_submission sub a) =
     infra_update (block_of (infrastructure_data sub)) (infra_stats a)"
proof -
  show "bhcpf_facilities (process_submission sub a) =
     bhcpf_facilities a
     + (if yes_or_truthy (block_of (funding_data sub)) ''bhcpf_received'' ''has_bhcpf''
        then 1 else 0)"
    by (cases "block_of (funding_data sub) = []")
       (simp_all add: process_submission_def funding_step_def block_items_block_of)
  show "impact_facilities (process_submission sub a) =
     impact_facilities a
     + (if yes_or_truthy (block_of (impact_funding_data sub)) ''received''
          ''has_impact_funding'' then 1 else 0)"
    by (cases "block_of (impact_funding_data sub) = []")
       (simp_all add: process_submission_def impact_step_def block_items_block_of)
  show "infra_stats (process_submission sub a) =
     infra_update (block_of (infrastructure_data sub)) (infra_stats a)"
    by (cases "block_of (infrastructure_data sub) = []")
       (simp_all add: process_submission_def infrastructure_step_def block_items_block_of)
qed

lemma staff_fields_block_of:
  "staff_by_type (process_submission sub a) =
     foldl (\<lambda>m (k, n). dict_add_int k n m) (staff_by_type a)
       (staff_contributions (block_of (human_resources_data sub)))"
  "total_staff (process_submission sub a) =
     total_staff a
     + (if 0 < sum_list (map snd (staff_contributions (block_of (human_resources_data sub))))
        then sum_list (map snd (staff_contributions (block_of (human_resources_data sub))))
        else 0)"
  "facilities_with_staff (process_submission sub a) =
     facilities_with_staff a
     + (if 0 < sum_list (map snd (staff_contributions (block_of (human_resources_data sub))))
        then 1 else 0)"
  by (simp_all add: staff_fields_process hr_step_fields block_items_block_of)

lemma patient_items_contributions:
  "patient_items d n = n + sum_list (patient_contributions d)"
  by (induction d arbitrary: n) (auto split: sum.splits)

lemma service_items_names:
  "service_items d offered = foldl (\<lambda>m k. dict_add_int k 1 m) offered (offered_names d)"
  by (induction d arbitrary: offered) auto

lemma services_fields_process:
  "total_patients (process_submission sub a) =
     total_patients a + sum_list (patient_contributions (block_of (services_data sub)))"
  "services_offered (process_submission sub a) =
     foldl (\<lambda>m k. dict_add_int k 1 m) (services_offered a)
       (offered_names (block_of (services_data sub)))"
  by (simp_all add: process_submission_def services_step_def block_items_block_of
      patient_items_contributions service_items_names)


lemma aggregate_induct:
  assumes rows: "\<forall>sub \<in> set submissions. Q sub"
    and init: "P 0 initial_agg"
    and step: "\<And>sub a n. Q sub \<Longrightarrow> 0 \<le> n \<Longrightarrow> P n a \<Longrightarrow> P (n + 1) (process_submission sub a)"
  shows "P (int (length submissions)) (aggregate submissions)"
  using rows
proof (induction submissions rule: rev_induct)
  case Nil
  from init show ?case by (simp add: aggregate_def)
next
  case (snoc sub submissions)
  then have "P (int (length submissions)) (aggregate submissions)" and "Q sub" by simp_all
  from step [OF this(2) _ this(1)] show ?case
    by (simp add: aggregate_snoc add.commute)
qed

lemma count_dicts_bounded:
  "(\<forall>x \<in> set (condition_counts (aggregate submissions)).
       0 \<le> snd x \<and> snd x \<le> int (length submissions))
   \<and> (\<forall>x \<in> set (ownership_counts (aggregate submissions)).
       0 \<le> snd x \<and> snd x \<le> int (length submissions))
   \<and> (\<forall>x \<in> set (assessment_type_counts (aggregate submissions)).
       0 \<le> snd x \<and> snd x \<le> int (length submissions))
   \<and> (\<forall>x \<in> set (has_health_workers_counts (aggregate submissions)).
       0 \<le> snd x \<and> snd x \<le> int (length submissions))
   \<and> (\<forall>x \<in> set (zone_counts (aggregate submissions)).
       0 \<le> snd x \<and> snd x \<le> int (length submissions))"
proof (rule aggregate_induct [where Q = "\<lambda>sub. True" and P = "\<lambda>n a.
       (\<forall>x \<in> set (condition_counts a). 0 \<le> snd x \<and> snd x \<le> n)
     \<and> (\<forall>x \<in> set (ownership_counts a). 0 \<le> snd x \<and> snd x \<le> n)
     \<and> (\<forall>x \<in> set (assessment_type_counts a). 0 \<le> snd x \<and> snd x \<le> n)
     \<and> (\<forall>x \<in> set (has_health_workers_counts a). 0 \<le> snd x \<and> snd x \<le> n)
     \<and> (\<forall>x \<in> set (zone_counts a). 0 \<le> snd x \<and> snd x \<le> n)"])
  show "\<forall>sub \<in> set submissions. True" by simp
next
  show "(\<forall>x \<in> set (condition_counts initial_agg). 0 \<le> snd x \<and> snd x \<le> 0)
     \<and> (\<forall>x \<in> set (ownership_counts initial_agg). 0 \<le> snd x \<and> snd x \<le> 0)
     \<and> (\<forall>x \<in> set (assessment_type_counts initial_agg). 0 \<le> snd x \<and> snd x \<le> 0)
     \<and> (\<forall>x \<in> set (has_health_workers_counts initial_agg). 0 \<le> snd x \<and> snd x \<le> 0)
     \<and> (\<forall>x \<in> set (zone_counts initial_agg). 0 \<le> snd x \<and> snd x \<le> 0)"
    by (simp add: initial_agg_def)
next
  fix sub and a :: agg and n :: int
  assume n: "0 \<le> n"
    and inv: "(\<forall>x \<in> set (condition_counts a). 0 \<le> snd x \<and> snd x \<le> n)
     \<and> (\<forall>x \<in> set (ownership_counts a). 0 \<le> snd x \<and> snd x \<le> n)
     \<and> (\<forall>x \<in> set (assessment_type_counts a). 0 \<le> snd x \<and> snd x \<le> n)
     \<and> (\<forall>x \<in> set (has_health_workers_counts a). 0 \<le> snd x \<and> snd x \<le> n)
     \<and> (\<forall>x \<in> set (zone_counts a). 0 \<le> snd x \<and> snd x \<le> n)"
  from inv n show "(\<forall>x \<in> set (condition_counts (process_submission sub a)).
         0 \<le> snd x \<and> snd x \<le> n + 1)
     \<and> (\<forall>x \<in> set (ownership_counts (process_submission sub a)).
         0 \<le> snd x \<and> snd x \<le> n + 1)
     \<and> (\<forall>x \<in> set (assessment_type_counts (process_submission sub a)).
         0 \<le> snd x \<and> snd x \<le> n + 1)
     \<and> (\<forall>x \<in> set (has_health_workers_counts (process_submission sub a)).
         0 \<le> snd x \<and> snd x \<le> n + 1)
     \<and> (\<forall>x \<in> set (zone_counts (process_submission sub a)).
         0 \<le> snd x \<and> snd x \<le> n + 1)"
    unfolding categorical_fields_process
    by (intro conjI count_column_bounds) simp_all
qed

lemma counters_bounded:
  "0 \<le> bhcpf_facilities (aggregate submissions)
   \<and> bhcpf_facilities (aggregate submissions) \<le> int (length submissions)
   \<and> 0 \<le> impact_facilities (aggregate submissions)
   \<and> impact_facilities (aggregate submissions) \<le> int (length submissions)
   \<and> (\<forall>f \<in> {has_power, has_water, has_internet, has_pharmacy, revitalization_count}.
        0 \<le> f (infra_stats (aggregate submissions))
        \<and> f (infra_stats (aggregate submissions)) \<le> int (length submissions))"
proof (rule aggregate_induct [where Q = "\<lambda>sub. True" and P = "\<lambda>n a.
     0 \<le> bhcpf_facilities a \<and> bhcpf_facilities a \<le> n
   \<and> 0 \<le> impact_facilities a \<and> impact_facilities a \<le> n
   \<and> (\<forall>f \<in> {has_power, has_water, has_internet, has_pharmacy, revitalization_count}.
        0 \<le> f (infra_stats a) \<and> f (infra_stats a) \<le> n)"])
  show "\<forall>sub \<in> set submissions. True" by simp
next
  show "0 \<le> bhcpf_facilities initial_agg \<and> bhcpf_facilities initial_agg \<le> 0
   \<and> 0 \<le> impact_facilities initial_agg \<and> impact_facilities initial_agg \<le> 0
   \<and> (\<forall>f \<in> {has_power, has_water, has_internet, has_pharmacy, revitalization_count}.
        0 \<le> f (infra_stats initial_agg) \<and> f (infra_stats initial_agg) \<le> 0)"
    by (simp add: initial_agg_def)
next
  fix sub and a :: agg and n :: int
  assume "0 \<le> n"
    and inv: "0 \<le> bhcpf_facilities a \<and> bhcpf_facilities a \<le> n
   \<and> 0 \<le> impact_facilities a \<and> impact_facilities a \<le> n
   \<and> (\<forall>f \<in> {has_power, has_water, has_internet, has_pharmacy, revitalization_count}.
        0 \<le> f (infra_stats a) \<and> f (infra_stats a) \<le> n)"
  then show "0 \<le> bhcpf_facilities (process_submission sub a)
       \<and> bhcpf_facilities (process_submission sub a) \<le> n + 1
   \<and> 0 \<le> impact_facilities (process_submission sub a)
       \<and> impact_facilities (process_submission sub a) \<le> n + 1
   \<and> (\<forall>f \<in> {has_power, has_water, has_internet, has_pharmacy, revitalization_count}.
        0 \<le> f (infra_stats (process_submission sub a))
        \<and> f (infra_stats (process_submission sub a)) \<le> n + 1)"
    by (simp add: counter_fields_process infra_update_def)
qed

lemma foldl_add_counts_lower:
  assumes "\<forall>x \<in> set d. 0 \<le> snd x" and "\<forall>c \<in> set cs. 0 \<le> snd c"
  shows "\<forall>x \<in> set (foldl (\<lambda>m (k, n). dict_add_int k n m) d cs). 0 \<le> snd x"
  using assms
proof (induction cs arbitrary: d)
  case Nil
  then show ?case by simp
next
  case (Cons c cs)
  obtain k n where c: "c = (k, n)" by (cases c)
  with Cons.prems have "0 \<le> n" by simp
  from dict_add_int_lower [OF Cons.prems(1) this, of k]
  have "\<forall>x \<in> set (dict_add_int k n d). 0 \<le> snd x" .
  moreover from Cons.prems(2) have "\<forall>c \<in> set cs. 0 \<le> snd c" by simp
  ultimately have "\<forall>x \<in> set (foldl (\<lambda>m (k, n). dict_add_int k n m) (dict_add_int k n d) cs).
      0 \<le> snd x"
    by (rule Cons.IH)
  then show ?case by (simp add: c)
qed

lemma foldl_add_names_lower:
  assumes "\<forall>x \<in> set d. 0 \<le> snd x"
  shows "\<forall>x \<in> set (foldl (\<lambda>m k. dict_add_int k 1 m) d ks). 0 \<le> snd x"
  using assms
proof (induction ks arbitrary: d)
  case Nil
  then show ?case by simp
next
  case (Cons k ks)
  from dict_add_int_lower [OF Cons.prems, of 1 k]
  have "\<forall>x \<in> set (dict_add_int k 1 d). 0 \<le> snd x" by simp
  then have "\<forall>x \<in> set (foldl (\<lambda>m k. dict_add_int k 1 m) (dict_add_int k 1 d) ks). 0 \<le> snd x"
    by (rule Cons.IH)
  then show ?case by simp
qed

lemma staff_totals_nonneg:
  "0 \<le> total_staff (aggregate submissions)
   \<and> 0 \<le> facilities_with_staff (aggregate submissions)
   \<and> (\<forall>x \<in> set (services_offered (aggregate submissions)). 0 \<le> snd x)"
proof (rule aggregate_induct [where Q = "\<lambda>sub. True" and P = "\<lambda>n a.
     0 \<le> total_staff a \<and> 0 \<le> facilities_with_staff a
     \<and> (\<forall>x \<in> set (services_offered a). 0 \<le> snd x)"])
  show "\<forall>sub \<in> set submissions. True" by simp
next
  show "0 \<le> total_staff initial_agg \<and> 0 \<le> facilities_with_staff initial_agg
     \<and> (\<forall>x \<in> set (services_offered initial_agg). 0 \<le> snd x)"
    by (simp add: initial_agg_def)
next
  fix sub :: submission and a :: agg and n :: int
  assume inv: "0 \<le> total_staff a \<and> 0 \<le> facilities_with_staff a
     \<and> (\<forall>x \<in> set (services_offered a). 0 \<le> snd x)"
  then have "\<forall>x \<in> set (services_offered a). 0 \<le> snd x" by blast
  from foldl_add_names_lower [OF this]
  have "\<forall>x \<in> set (services_offered (process_submission sub a)). 0 \<le> snd x"
    by (simp add: services_fields_process)
  with inv show "0 \<le> total_staff (process_submission sub a)
     \<and> 0 \<le> facilities_with_staff (process_submission sub a)
     \<and> (\<forall>x \<in> set (services_offered (process_submission sub a)). 0 \<le> snd x)"
    by (simp add: staff_fields_block_of)
qed

lemma staff_by_type_nonneg:
  assumes "\<forall>sub \<in> set submissions.
     \<forall>c \<in> set (staff_contributions (block_of (human_resources_data sub))). 0 \<le> snd c"
  shows "\<forall>x \<in> set (staff_by_type (aggregate submissions)). 0 \<le> snd x"
proof (rule aggregate_induct [where P = "\<lambda>n a. \<forall>x \<in> set (staff_by_type a). 0 \<le> snd x",
      OF assms])
  show "\<forall>x \<in> set (staff_by_type initial_agg). 0 \<le> snd x"
    by (simp add: initial_agg_def)
next
  fix sub :: submission and a :: agg and n :: int
  assume "\<forall>c \<in> set (staff_contributions (block_of (human_resources_data sub))). 0 \<le> snd c"
    and "\<forall>x \<in> set (staff_by_type a). 0 \<le> snd x"
  from foldl_add_counts_lower [OF this(2) this(1)]
  show "\<forall>x \<in> set (staff_by_type (process_submission sub a)). 0 \<le> snd x"
    by (simp add: staff_fields_block_of)
qed

lemma total_patients_nonneg:
  assumes "\<forall>sub \<in> set submissions.
     \<forall>c \<in> set (patient_contributions (block_of (services_data sub))). 0 \<le> c"
  shows "0 \<le> total_patients (aggregate submissions)"
proof (rule aggregate_induct [where P = "\<lambda>n a. 0 \<le> total_patients a", OF assms])
  show "0 \<le> total_patients initial_agg"
    by (simp add: initial_agg_def)
next
  fix sub :: submission and a :: agg and n :: int
  assume "\<forall>c \<in> set (patient_contributions (block_of (services_data sub))). 0 \<le> c"
    and "0 \<le> total_patients a"
  moreover from this(1)
  have "0 \<le> sum_list (patient_contributions (block_of (services_data sub)))"
    by (auto intro!: sum_list_nonneg)
  ultimately show "0 \<le> total_patients (process_submission sub a)"
    by (simp add: services_fields_process)
qed

subsection \<open>Offered services\<close>

lemma fst_set_dict_update: "fst ` set (dict_update k f d) = insert k (fst ` set d)"
  by (induction d) (force split: if_splits)+

lemma distinct_dict_update:
  "distinct (map fst d) \<Longrightarrow> distinct (map fst (dict_update k f d))"
  by (induction d) (auto simp: fst_set_dict_update)

lemma map_of_dict_add_int:
  "map_of (dict_add_int k n d) k' =
     (if k' = k then Some ((case map_of d k of None \<Rightarrow> 0 | Some c \<Rightarrow> c) + n)
      else map_of d k')"
  by (simp add: dict_add_int_def map_of_dict_update_same map_of_dict_update_other)

lemma distinct_foldl_add_names:
  "distinct (map fst d) \<Longrightarrow> distinct (map fst (foldl (\<lambda>m k. dict_add_int k 1 m) d ks))"
  by (induction ks arbitrary: d) (simp_all add: dict_add_int_def distinct_dict_update)

lemma map_of_foldl_add_names:
  assumes "distinct ks"
  shows "map_of (foldl (\<lambda>m k. dict_add_int k 1 m) d ks) k =
           (if k \<in> set ks then Some ((case map_of d k of None \<Rightarrow> 0 | Some c \<Rightarrow> c) + 1)
            else map_of d k)"
  using assms
proof (induction ks arbitrary: d)
  case Nil
  then show ?case by simp
next
  case (Cons a ks)
  then have "distinct ks" and "a \<notin> set ks" by simp_all
  from Cons.IH [OF this(1), of "dict_add_int a 1 d"] this(2)
  show ?case by (auto simp: map_of_dict_add_int)
qed

lemma services_bounded:
  assumes "\<forall>sub \<in> set submissions. distinct (offered_names (block_of (services_data sub)))"
  shows "distinct (map fst (services_offered (aggregate submissions)))
     \<and> (\<forall>x \<in> set (services_offered (aggregate submissions)).
          snd x \<le> int (length submissions))"
proof (rule aggregate_induct [where P = "\<lambda>n a. distinct (map fst (services_offered a))
     \<and> (\<forall>x \<in> set (services_offered a). snd x \<le> n)", OF assms])
  show "distinct (map fst (services_offered initial_agg))
     \<and> (\<forall>x \<in> set (services_offered initial_agg). snd x \<le> 0)"
    by (simp add: initial_agg_def)
next
  fix sub :: submission and a :: agg and n :: int
  let ?ks = "offered_names (block_of (services_data sub))"
  let ?d = "services_offered a"
  let ?d' = "foldl (\<lambda>m k. dict_add_int k 1 m) ?d ?ks"
  assume ks: "distinct ?ks" and n: "0 \<le> n"
    and inv: "distinct (map fst ?d) \<and> (\<forall>x \<in> set ?d. snd x \<le> n)"
  from inv have dist: "distinct (map fst ?d')" by (simp add: distinct_foldl_add_names)
  have "snd x \<le> n + 1" if x: "x \<in> set ?d'" for x
  proof -
    from x dist have "map_of ?d' (fst x) = Some (snd x)" by simp
    then have v: "(if fst x \<in> set ?ks
        then Some ((case map_of ?d (fst x) of None \<Rightarrow> 0 | Some c \<Rightarrow> c) + 1)
        else map_of ?d (fst x)) = Some (snd x)"
      by (simp add: map_of_foldl_add_names [OF ks])
    have old: "c \<le> n" if "map_of ?d (fst x) = Some c" for c
      using map_of_SomeD [OF that] inv by auto
    from v old n show ?thesis
      by (auto split: if_splits option.splits)
  qed
  with dist show "distinct (map fst (services_offered (process_submission sub a)))
     \<and> (\<forall>x \<in> set (services_offered (process_submission sub a)). snd x \<le> n + 1)"
    by (simp add: services_fields_process)
qed

subsection \<open>Percentages\<close>

lemma round2_hundred: "round2 100 = 100"
  by (simp add: round2_def round_half_even_def)

lemma percentage_of_bounds:
  assumes "percentage_of v n = Inr p" and "0 \<le> v"
  shows "0 \<le> p" and "v \<le> n \<Longrightarrow> p \<le> 100"
proof -
  let ?x = "if 0 < n then of_int v / of_int n * 100 else (0::rat)"
  from assms(1) have p: "p = round2 ?x" by (rule percentage_of_Inr)
  from assms(2) have "0 \<le> ?x" by simp
  from round2_mono [OF this] show "0 \<le> p" by (simp add: p)
  assume "v \<le> n"
  then have "?x \<le> 100"
    by (simp add: divide_le_eq)
  from round2_mono [OF this] show "p \<le> 100" by (simp add: p round2_hundred)
qed

lemma dist_entries_bounds:
  assumes "dist_entries n counts = Inr es"
    and "\<forall>x \<in> set counts. 0 \<le> snd x \<and> snd x \<le> n"
  shows "\<forall>e \<in> set es. 0 \<le> de_count e \<and> 0 \<le> de_percentage e \<and> de_percentage e \<le> 100"
proof -
  from mapE_Inr_D [OF assms(1) [unfolded dist_entries_def]]
  have "list_all2 (\<lambda>x e. bindE (percentage_of (snd x) n)
          (\<lambda>p. Inr \<lparr>de_key = fst x, de_count = snd x, de_percentage = p\<rparr>) = Inr e) counts es"
    by (simp add: case_prod_beta)
  then show ?thesis
    using assms(2)
  proof (induction rule: list_all2_induct)
    case Nil
    show ?case by simp
  next
    case (Cons x xs e es)
    from Cons.hyps(1) obtain p where p: "percentage_of (snd x) n = Inr p"
      and e: "e = \<lparr>de_key = fst x, de_count = snd x, de_percentage = p\<rparr>"
      by (auto simp: bindE_def split: sum.splits)
    from Cons.prems have x: "0 \<le> snd x" "snd x \<le> n" by simp_all
    from percentage_of_bounds [OF p x(1)] x
    have "0 \<le> de_count e \<and> 0 \<le> de_percentage e \<and> de_percentage e \<le> 100"
      by (simp add: e)
    moreover from Cons.prems have "\<forall>x \<in> set xs. 0 \<le> snd x \<and> snd x \<le> n" by simp
    then have "\<forall>e \<in> set es. 0 \<le> de_count e \<and> 0 \<le> de_percentage e \<and> de_percentage e \<le> 100"
      by (rule Cons.IH)
    ultimately show ?case by simp
  qed
qed

subsection \<open>The sections of the report\<close>

lemma facility_report_fields:
  assumes "facility_report n a = Inr x"
  shows "dist_entries n (condition_counts a) = Inr (condition_distribution x)"
    and "dist_entries n (ownership_counts a) = Inr (ownership_distribution x)"
    and "dist_entries n (has_health_workers_counts a) = Inr (health_workers_distribution x)"
    and "assessment_type_distribution x = assessment_type_counts a"
    and "geopolitical_zone_distribution x = zone_counts a"
  using assms by (auto simp: facility_report_def bindE_def split: sum.splits)

lemma funding_report_fields:
  assumes "funding_report n a = Inr x"
  shows "fa_bhcpf_facilities x = bhcpf_facilities a"
    and "percentage_of (bhcpf_facilities a) n = Inr (bhcpf_percentage x)"
    and "fa_impact_facilities x = impact_facilities a"
    and "percentage_of (impact_facilities a) n = Inr (impact_percentage x)"
  using assms by (auto simp: funding_report_def bindE_def split: sum.splits)

lemma infrastructure_report_fields:
  assumes "infrastructure_report n a = Inr x"
  shows "facilities_with_power x = has_power (infra_stats a)"
    and "percentage_of (has_power (infra_stats a)) n = Inr (power_percentage x)"
    and "facilities_with_water x = has_water (infra_stats a)"
    and "percentage_of (has_water (infra_stats a)) n = Inr (water_percentage x)"
    and "facilities_with_internet x = has_internet (infra_stats a)"
    and "percentage_of (has_internet (infra_stats a)) n = Inr (internet_percentage x)"
    and "facilities_with_pharmacy x = has_pharmacy (infra_stats a)"
    and "percentage_of (has_pharmacy (infra_stats a)) n = Inr (pharmacy_percentage x)"
    and "revitalized_facilities x = revitalization_count (infra_stats a)"
    and "percentage_of (revitalization_count (infra_stats a)) n
           = Inr (revitalization_percentage x)"
  using assms
  by (auto simp: infrastructure_report_def Let_def bindE_def split: sum.splits)

lemma human_resources_report_fields:
  assumes "human_resources_report a = Inr x"
  shows "hr_total_staff x = total_staff a"
    and "hr_facilities_with_staff x = facilities_with_staff a"
    and "hr_staff_by_type x = take 10 (sorted_reverse (<) snd (staff_by_type a))"
  using assms by (auto simp: human_resources_report_def bindE_def split: sum.splits)

lemma services_report_fields:
  assumes "services_report n a = Inr x"
  shows "su_total_patients x = total_patients a"
    and "mapE (\<lambda>(k, v). bindE (percentage_of v n)
                    (\<lambda>p. Inr \<lparr>se_service = k, se_facilities = v, se_percentage = p\<rparr>))
              (take 10 (sorted_reverse (<) snd (services_offered a)))
           = Inr (top_services_offered x)"
  using assms by (auto simp: services_report_def bindE_def split: sum.splits)

lemma satisfaction_report_fields:
  assumes "satisfaction_report a = Inr x"
  shows "total_responses x = int (length (satisfaction_scores a))"
    and "mapE (\<lambda>(k, v). bindE (mean_score v)
                    (\<lambda>m. Inr (k, \<lparr>ce_average = m, ce_count = int (length v)\<rparr>)))
              (satisfaction_by_category a) = Inr (scores_by_category x)"
  using assms by (auto simp: satisfaction_report_def bindE_def split: sum.splits)

lemma summary_report_fields:
  assumes "summary_report submissions = Inr x"
  shows "total_facilities x = int (length submissions)"
    and "facilities_with_complete_data x = int (length (filter complete_data submissions))"
    and "percentage_of (int (length (filter complete_data submissions)))
           (int (length submissions)) = Inr (data_completeness_percentage x)"
  using assms by (auto simp: summary_report_def Let_def bindE_def split: sum.splits)

lemma top_services_bounds:
  assumes "mapE (\<lambda>(k, v). bindE (percentage_of v n)
                    (\<lambda>p. Inr \<lparr>se_service = k, se_facilities = v, se_percentage = p\<rparr>)) xs
           = Inr es"
    and "\<forall>x \<in> set xs. 0 \<le> snd x"
  shows "\<forall>e \<in> set es. 0 \<le> se_facilities e \<and> 0 \<le> se_percentage e"
    and "\<forall>x \<in> set xs. snd x \<le> n \<Longrightarrow> \<forall>e \<in> set es. se_percentage e \<le> 100"
proof -
  from mapE_Inr_D [OF assms(1)]
  have all: "list_all2 (\<lambda>x e. bindE (percentage_of (snd x) n)
          (\<lambda>p. Inr \<lparr>se_service = fst x, se_facilities = snd x, se_percentage = p\<rparr>) = Inr e)
          xs es"
    by (simp add: case_prod_beta)
  have one: "0 \<le> se_facilities e \<and> 0 \<le> se_percentage e
      \<and> (snd x \<le> n \<longrightarrow> se_percentage e \<le> 100)"
    if "bindE (percentage_of (snd x) n)
          (\<lambda>p. Inr \<lparr>se_service = fst x, se_facilities = snd x, se_percentage = p\<rparr>) = Inr e"
      and "0 \<le> snd x" for x e
  proof -
    from that(1) obtain p where p: "percentage_of (snd x) n = Inr p"
      and e: "e = \<lparr>se_service = fst x, se_facilities = snd x, se_percentage = p\<rparr>"
      by (auto simp: bindE_def split: sum.splits)
    from percentage_of_bounds [OF p that(2)] that(2) show ?thesis by (simp add: e)
  qed
  from all have el: "list_all2 (\<lambda>x e. 0 \<le> snd x \<longrightarrow>
      0 \<le> se_facilities e \<and> 0 \<le> se_percentage e
      \<and> (snd x \<le> n \<longrightarrow> se_percentage e \<le> 100)) xs es"
    by (rule list_all2_mono) (use one in blast)
  have nth: "\<exists>x \<in> set xs. 0 \<le> se_facilities e \<and> 0 \<le> se_percentage e
      \<and> (snd x \<le> n \<longrightarrow> se_percentage e \<le> 100)" if "e \<in> set es" for e
  proof -
    from that obtain i where i: "i < length es" "es ! i = e" by (auto simp: in_set_conv_nth)
    from el have len: "length xs = length es" by (rule list_all2_lengthD)
    with i have x: "xs ! i \<in> set xs" by simp
    with assms(2) have "0 \<le> snd (xs ! i)" by blast
    with list_all2_nthD2 [OF el i(1)] i(2) x show ?thesis by blast
  qed
  from nth show "\<forall>e \<in> set es. 0 \<le> se_facilities e \<and> 0 \<le> se_percentage e" by blast
  from nth show "\<forall>x \<in> set xs. snd x \<le> n \<Longrightarrow> \<forall>e \<in> set es. se_percentage e \<le> 100"
    by blast
qed

lemma category_counts_nonneg:
  assumes "mapE (\<lambda>(k, v). bindE (mean_score v)
                    (\<lambda>m. Inr (k, \<lparr>ce_average = m, ce_count = int (length v)\<rparr>))) xs = Inr es"
  shows "\<forall>e \<in> set es. 0 \<le> ce_count (snd e)"
proof -
  from mapE_Inr_D [OF assms]
  have "list_all2 (\<lambda>x e. 0 \<le> ce_count (snd e)) xs es"
    by (rule list_all2_mono) (auto simp: bindE_def split: sum.splits)
  then show ?thesis
    by (induction rule: list_all2_induct) simp_all
qed

subsection \<open>The bounds of the report\<close>

text \<open>
  Claim C2, amended. In every report that is returned: every count of the facility
  distributions, of the funding and infrastructure sections, the total staff, the
  facilities with staff, the facilities of a listed service, the total of responses and
  the count of a satisfaction category are at least 0; every percentage of the
  distributions, of the funding and infrastructure sections and of the summary lies in
  \<open>[0, 100]\<close>; the percentage of a listed service is at least 0. The counts of the staff
  types are at least 0 when no row has a negative staff count, the total of patients is at
  least 0 when no row has a negative patient count, and the percentage of a listed
  service is at most 100 when in every row the keys of the offered services are ASCII and
  have pairwise distinct display names.
\<close>

theorem report_bounds:
  assumes "get_detailed_analytics submissions = Inr r"
  shows
    "(\<forall>e \<in> set (condition_distribution (facility_analysis r)).
        0 \<le> de_count e \<and> 0 \<le> de_percentage e \<and> de_percentage e \<le> 100)
     \<and> (\<forall>e \<in> set (ownership_distribution (facility_analysis r)).
        0 \<le> de_count e \<and> 0 \<le> de_percentage e \<and> de_percentage e \<le> 100)
     \<and> (\<forall>e \<in> set (health_workers_distribution (facility_analysis r)).
        0 \<le> de_count e \<and> 0 \<le> de_percentage e \<and> de_percentage e \<le> 100)
     \<and> (\<forall>e \<in> set (assessment_type_distribution (facility_analysis r)). 0 \<le> snd e)
     \<and> (\<forall>e \<in> set (geopolitical_zone_distribution (facility_analysis r)). 0 \<le> snd e)
     \<and> 0 \<le> fa_bhcpf_facilities (funding_analysis r)
     \<and> 0 \<le> bhcpf_percentage (funding_analysis r)
     \<and> bhcpf_percentage (funding_analysis r) \<le> 100
     \<and> 0 \<le> fa_impact_facilities (funding_analysis r)
     \<and> 0 \<le> impact_percentage (funding_analysis r)
     \<and> impact_percentage (funding_analysis r) \<le> 100
     \<and> 0 \<le> facilities_with_power (infrastructure_analysis r)
     \<and> 0 \<le> power_percentage (infrastructure_analysis r)
     \<and> power_percentage (infrastructure_analysis r) \<le> 100
     \<and> 0 \<le> facilities_with_water (infrastructure_analysis r)
     \<and> 0 \<le> water_percentage (infrastructure_analysis r)
     \<and> water_percentage (infrastructure_analysis r) \<le> 100
     \<and> 0 \<le> facilities_with_internet (infrastructure_analysis r)
     \<and> 0 \<le> internet_percentage (infrastructure_analysis r)
     \<and> internet_percentage (infrastructure_analysis r) \<le> 100
     \<and> 0 \<le> facilities_with_pharmacy (infrastructure_analysis r)
     \<and> 0 \<le> pharmacy_percentage (infrastructure_analysis r)
     \<and> pharmacy_percentage (infrastructure_analysis r) \<le> 100
     \<and> 0 \<le> revitalized_facilities (infrastructure_analysis r)
     \<and> 0 \<le> revitalization_percentage (infrastructure_analysis r)
     \<and> revitalization_percentage (infrastructure_analysis r) \<le> 100
     \<and> 0 \<le> hr_total_staff (human_resources_analysis r)
     \<and> 0 \<le> hr_facilities_with_staff (human_resources_analysis r)
     \<and> (\<forall>e \<in> set (top_services_offered (services_utilization r)).
          0 \<le> se_facilities e \<and> 0 \<le> se_percentage e)
     \<and> 0 \<le> total_responses (patient_satisfaction r)
     \<and> (\<forall>e \<in> set (scores_by_category (patient_satisfaction r)). 0 \<le> ce_count (snd e))
     \<and> 0 \<le> total_facilities (report_summary r)
     \<and> 0 \<le> facilities_with_complete_data (report_summary r)
     \<and> 0 \<le> data_completeness_percentage (report_summary r)
     \<and> data_completeness_percentage (report_summary r) \<le> 100
     \<and> (list_all staff_counts_nonneg submissions \<longrightarrow>
          (\<forall>e \<in> set (hr_staff_by_type (human_resources_analysis r)). 0 \<le> snd e))
     \<and> (list_all patient_counts_nonneg submissions \<longrightarrow>
          0 \<le> su_total_patients (services_utilization r))
     \<and> (list_all service_names_distinct submissions \<longrightarrow>
          (\<forall>e \<in> set (top_services_offered (services_utilization r)).
             se_percentage e \<le> 100))"
proof -
  let ?a = "aggregate submissions"
  let ?n = "int (length submissions)"
  note sec = report_sections [OF assms]
  note fac = facility_report_fields [OF sec(1)]
  note fund = funding_report_fields [OF sec(2)]
  note infra = infrastructure_report_fields [OF sec(3)]
  note hr = human_resources_report_fields [OF sec(4)]
  note serv = services_report_fields [OF sec(5)]
  note sat = satisfaction_report_fields [OF sec(6)]
  note summ = summary_report_fields [OF sec(7)]
  from count_dicts_bounded [of submissions]
  have cd: "\<forall>x \<in> set (condition_counts ?a). 0 \<le> snd x \<and> snd x \<le> ?n"
    "\<forall>x \<in> set (ownership_counts ?a). 0 \<le> snd x \<and> snd x \<le> ?n"
    "\<forall>x \<in> set (assessment_type_counts ?a). 0 \<le> snd x \<and> snd x \<le> ?n"
    "\<forall>x \<in> set (has_health_workers_counts ?a). 0 \<le> snd x \<and> snd x \<le> ?n"
    "\<forall>x \<in> set (zone_counts ?a). 0 \<le> snd x \<and> snd x \<le> ?n"
    by blast+
  from counters_bounded [of submissions]
  have cn: "0 \<le> bhcpf_facilities ?a" "bhcpf_facilities ?a \<le> ?n"
    "0 \<le> impact_facilities ?a" "impact_facilities ?a \<le> ?n"
    "0 \<le> has_power (infra_stats ?a)" "has_power (infra_stats ?a) \<le> ?n"
    "0 \<le> has_water (infra_stats ?a)" "has_water (infra_stats ?a) \<le> ?n"
    "0 \<le> has_internet (infra_stats ?a)" "has_internet (infra_stats ?a) \<le> ?n"
    "0 \<le> has_pharmacy (infra_stats ?a)" "has_pharmacy (infra_stats ?a) \<le> ?n"
    "0 \<le> revitalization_count (infra_stats ?a)" "revitalization_count (infra_stats ?a) \<le> ?n"
    by simp_all
  have dist: "\<forall>e \<in> set (condition_distribution (facility_analysis r)).
        0 \<le> de_count e \<and> 0 \<le> de_percentage e \<and> de_percentage e \<le> 100"
    "\<forall>e \<in> set (ownership_distribution (facility_analysis r)).
        0 \<le> de_count e \<and> 0 \<le> de_percentage e \<and> de_percentage e \<le> 100"
    "\<forall>e \<in> set (health_workers_distribution (facility_analysis r)).
        0 \<le> de_count e \<and> 0 \<le> de_percentage e \<and> de_percentage e \<le> 100"
    by (rule dist_entries_bounds [OF fac(1) cd(1)] dist_entries_bounds [OF fac(2) cd(2)]
        dist_entries_bounds [OF fac(3) cd(4)])+
  have plain: "\<forall>e \<in> set (assessment_type_distribution (facility_analysis r)). 0 \<le> snd e"
    "\<forall>e \<in> set (geopolitical_zone_distribution (facility_analysis r)). 0 \<le> snd e"
    using cd(3,5) by (simp_all add: fac)
  have funding: "0 \<le> fa_bhcpf_facilities (funding_analysis r)"
    "0 \<le> bhcpf_percentage (funding_analysis r)"
    "bhcpf_percentage (funding_analysis r) \<le> 100"
    "0 \<le> fa_impact_facilities (funding_analysis r)"
    "0 \<le> impact_percentage (funding_analysis r)"
    "impact_percentage (funding_analysis r) \<le> 100"
    using percentage_of_bounds [OF fund(2) cn(1)] percentage_of_bounds [OF fund(4) cn(3)] cn
    by (simp_all add: fund(1,3))
  have infrastructure: "0 \<le> facilities_with_power (infrastructure_analysis r)"
    "0 \<le> power_percentage (infrastructure_analysis r)"
    "power_percentage (infrastructure_analysis r) \<le> 100"
    "0 \<le> facilities_with_water (infrastructure_analysis r)"
    "0 \<le> water_percentage (infrastructure_analysis r)"
    "water_percentage (infrastructure_analysis r) \<le> 100"
    "0 \<le> facilities_with_internet (infrastructure_analysis r)"
    "0 \<le> internet_percentage (infrastructure_analysis r)"
    "internet_percentage (infrastructure_analysis r) \<le> 100"
    "0 \<le> facilities_with_pharmacy (infrastructure_analysis r)"
    "0 \<le> pharmacy_percentage (infrastructure_analysis r)"
    "pharmacy_percentage (infrastructure_analysis r) \<le> 100"
    "0 \<le> revitalized_facilities (infrastructure_analysis r)"
    "0 \<le> revitalization_percentage (infrastructure_analysis r)"
    "revitalization_percentage (infrastructure_analysis r) \<le> 100"
    using percentage_of_bounds [OF infra(2) cn(5)] percentage_of_bounds [OF infra(4) cn(7)]
      percentage_of_bounds [OF infra(6) cn(9)] percentage_of_bounds [OF infra(8) cn(11)]
      percentage_of_bounds [OF infra(10) cn(13)] cn
    by (simp_all add: infra(1,3,5,7,9))
  from staff_totals_nonneg [of submissions]
  have st: "0 \<le> total_staff ?a" "0 \<le> facilities_with_staff ?a"
    "\<forall>x \<in> set (services_offered ?a). 0 \<le> snd x"
    by blast+
  then have staff: "0 \<le> hr_total_staff (human_resources_analysis r)"
    "0 \<le> hr_facilities_with_staff (human_resources_analysis r)"
    by (simp_all add: hr)
  have top_set: "set (take 10 (sorted_reverse (<) snd (services_offered ?a)))
      \<subseteq> set (services_offered ?a)"
    using set_take_subset [of 10 "sorted_reverse (<) snd (services_offered ?a)"] by simp
  with st(3) have top_nonneg:
    "\<forall>x \<in> set (take 10 (sorted_reverse (<) snd (services_offered ?a))). 0 \<le> snd x"
    by blast
  note top = top_services_bounds [OF serv(2) top_nonneg]
  have sat_counts: "0 \<le> total_responses (patient_satisfaction r)"
    "\<forall>e \<in> set (scores_by_category (patient_satisfaction r)). 0 \<le> ce_count (snd e)"
    using category_counts_nonneg [OF sat(2)] by (simp_all add: sat(1))
  have complete: "0 \<le> int (length (filter complete_data submissions))"
    "int (length (filter complete_data submissions)) \<le> ?n"
    by simp_all
  from percentage_of_bounds [OF summ(3) complete(1)] complete(2)
  have summary: "0 \<le> total_facilities (report_summary r)"
    "0 \<le> facilities_with_complete_data (report_summary r)"
    "0 \<le> data_completeness_percentage (report_summary r)"
    "data_completeness_percentage (report_summary r) \<le> 100"
    by (simp_all add: summ(1,2))
  have by_type: "\<forall>e \<in> set (hr_staff_by_type (human_resources_analysis r)). 0 \<le> snd e"
    if "list_all staff_counts_nonneg submissions"
  proof -
    from that have "\<forall>sub \<in> set submissions.
        \<forall>c \<in> set (staff_contributions (block_of (human_resources_data sub))). 0 \<le> snd c"
      by (simp add: list_all_iff staff_counts_nonneg_def)
    from staff_by_type_nonneg [OF this]
    show ?thesis
      using set_take_subset [of 10 "sorted_reverse (<) snd (staff_by_type ?a)"]
      by (auto simp: hr(3))
  qed
  have patients: "0 \<le> su_total_patients (services_utilization r)"
    if "list_all patient_counts_nonneg submissions"
  proof -
    from that have "\<forall>sub \<in> set submissions.
        \<forall>c \<in> set (patient_contributions (block_of (services_data sub))). 0 \<le> c"
      by (simp add: list_all_iff patient_counts_nonneg_def)
    from total_patients_nonneg [OF this] show ?thesis by (simp add: serv(1))
  qed
  have services: "\<forall>e \<in> set (top_services_offered (services_utilization r)).
             se_percentage e \<le> 100"
    if "list_all service_names_distinct submissions"
  proof -
    from that have "\<forall>sub \<in> set submissions.
        distinct (offered_names (block_of (services_data sub)))"
      by (simp add: list_all_iff service_names_distinct_def)
    from services_bounded [OF this] top_set
    have "\<forall>x \<in> set (take 10 (sorted_reverse (<) snd (services_offered ?a))). snd x \<le> ?n"
      by blast
    then show ?thesis by (rule top(2))
  qed
  from dist plain funding infrastructure staff top(1) sat_counts summary by_type patients
    services
  show ?thesis by (intro conjI impI) assumption+
qed

lemma ranking_rows_counts:
  "list_all staff_counts_nonneg ranking_rows"
  "list_all patient_counts_nonneg ranking_rows"
  "list_all service_names_distinct ranking_rows"
  by (simp_all add: ranking_rows_def amount_row_def lagos_row_def facility_row_def
      empty_submission_def staff_counts_nonneg_def patient_counts_nonneg_def
      service_names_distinct_def block_of_def hr_marker_def patient_marker_def
      is_offered_def is_ascii_def parse_count_def str_eval)

theorem report_bounds_witness:
  "list_all staff_counts_nonneg ranking_rows
   \<and> list_all patient_counts_nonneg ranking_rows
   \<and> list_all service_names_distinct ranking_rows
   \<and> (\<exists>r. get_detailed_analytics ranking_rows = Inr r
        \<and> hr_staff_by_type (human_resources_analysis r)
            = [(''Nurse Staff'', 7), (''Doctor Staff'', 3)]
        \<and> list_all (\<lambda>e. 0 \<le> snd e) (hr_staff_by_type (human_resources_analysis r))
        \<and> 0 \<le> su_total_patients (services_utilization r)
        \<and> list_all (\<lambda>e. 0 \<le> se_percentage e \<and> se_percentage e \<le> 100)
             (top_services_offered (services_utilization r))
        \<and> 0 \<le> bhcpf_percentage (funding_analysis r)
        \<and> bhcpf_percentage (funding_analysis r) \<le> 100
        \<and> 0 \<le> data_completeness_percentage (report_summary r)
        \<and> data_completeness_percentage (report_summary r) \<le> 100)"
proof -
  from ranking_rows_report obtain r where r: "get_detailed_analytics ranking_rows = Inr r"
    and staff: "hr_staff_by_type (human_resources_analysis r)
            = [(''Nurse Staff'', 7), (''Doctor Staff'', 3)]"
    by blast
  from report_bounds [OF r] ranking_rows_counts
  have "list_all (\<lambda>e. 0 \<le> snd e) (hr_staff_by_type (human_resources_analysis r))"
    "0 \<le> su_total_patients (services_utilization r)"
    "list_all (\<lambda>e. 0 \<le> se_percentage e \<and> se_percentage e \<le> 100)
             (top_services_offered (services_utilization r))"
    "0 \<le> bhcpf_percentage (funding_analysis r)"
    "bhcpf_percentage (funding_analysis r) \<le> 100"
    "0 \<le> data_completeness_percentage (report_summary r)"
    "data_completeness_percentage (report_summary r) \<le> 100"
    by (simp_all add: list_all_iff)
  with r staff ranking_rows_counts show ?thesis by blast
qed

text \<open>
  The claim as it is written fails on one row with the staff count \<^verbatim>\<open>"-3"\<close>, the
  patient count \<^verbatim>\<open>-2\<close> and the offered services \<^verbatim>\<open>a_b\<close> and \<^verbatim>\<open>a b\<close>, whose
  display names are both \<^verbatim>\<open>A B\<close>: the count of a staff type and the total of patients
  are negative, and the service is offered by 2 of 1 facilities, 200 percent.
\<close>

theorem skewed_row_counterexample:
  "(\<exists>r. get_detailed_analytics [skewed_row] = Inr r
        \<and> hr_staff_by_type (human_resources_analysis r) = [(''X Staff'', - 3)]
        \<and> su_total_patients (services_utilization r) = - 2
        \<and> top_services_offered (services_utilization r)
            = [\<lparr>se_service = ''A B'', se_facilities = 2, se_percentage = 200\<rparr>])
   \<and> \<not> staff_counts_nonneg skewed_row
   \<and> \<not> patient_counts_nonneg skewed_row
   \<and> \<not> service_names_distinct skewed_row"
proof -
  have 1: "\<exists>r. get_detailed_analytics [skewed_row] = Inr r
        \<and> hr_staff_by_type (human_resources_analysis r) = [(''X Staff'', - 3)]
        \<and> su_total_patients (services_utilization r) = - 2
        \<and> top_services_offered (services_utilization r)
            = [\<lparr>se_service = ''A B'', se_facilities = 2, se_percentage = 200\<rparr>]"
    by (simp add: report_defs skewed_row_def aggregate_def initial_agg_def step_defs
        facility_row_def empty_submission_def str_column_def parse_count_def hr_marker_def
        patient_marker_def is_offered_def str_eval)
  have 2: "\<not> staff_counts_nonneg skewed_row" "\<not> patient_counts_nonneg skewed_row"
    "\<not> service_names_distinct skewed_row"
    by (simp_all add: skewed_row_def facility_row_def empty_submission_def
        staff_counts_nonneg_def patient_counts_nonneg_def service_names_distinct_def
        block_of_def hr_marker_def patient_marker_def is_offered_def is_ascii_def
        parse_count_def str_eval)
  from 1 2 show ?thesis by simp
qed

end
